theory Spec2Isabelle
  imports Complex_Main "HOL-Library.Multiset"
begin

section \<open>Data model\<close>

text \<open>
  The entities of \<^verbatim>\<open>domain/entities\<close> as records and datatypes. A \<^verbatim>\<open>Date\<close> is its
  \<^verbatim>\<open>getTime()\<close> value, an integer number of milliseconds. Document identifiers (the
  strings the store hands out) are natural numbers. Quantities and minute counters are
  integers, hour estimates are rationals. An optional field is an \<open>option\<close>; the
  priority of a card is one too, since the listing provides for a card without it.
  Order, card and stock-item fields carry the prefixes \<open>o_\<close>, \<open>c_\<close> and \<open>i_\<close>, since
  the three interfaces share most of their field names.
\<close>

type_synonym oid = nat
type_synonym time = int

datatype ManufacturingOrderStatus =
  PENDING | IN_PROGRESS | PAUSED | COMPLETED | CANCELLED | OVERDUE

datatype ProductionCardStatus =
  CARD_PENDING | CARD_IN_PROGRESS | CARD_PAUSED | CARD_COMPLETED | CARD_CANCELLED

datatype ProductionCardPriority = LOW | NORMAL | HIGH | URGENT

datatype InventoryType = MODEL | COMPONENT | MATERIAL

datatype InventoryStatus = ACTIVE | INACTIVE | DISCONTINUED

text \<open>
  The entity declares \<^verbatim>\<open>startTime\<close> of a \<^verbatim>\<open>TimeTracker\<close> as required, but a stored tracker
  can lack it: the updates of \<^verbatim>\<open>pauseProduction\<close> and \<^verbatim>\<open>pauseComponentProduction\<close> write
  single fields of the tracker and so create one that holds those fields only, and the
  tracker of a card is a nested path of its schema with no start time before the card
  is started. Reading \<^verbatim>\<open>startTime\<close> gives \<^verbatim>\<open>undefined\<close> there, which is \<open>None\<close>.
\<close>

record TimeTracker =
  startTime :: "time option"
  endTime :: "time option"
  totalTimeMinutes :: int
  isPaused :: bool
  pauseStartTime :: "time option"
  totalPauseMinutes :: int

record MaterialUsage =
  materialId :: oid
  materialName :: string
  materialSku :: string
  plannedQuantity :: int
  actualQuantity :: int
  mu_unit :: string
  mu_notes :: "string option"
  adjustedBy :: "string option"
  adjustedAt :: "time option"

record ComponentProgress =
  componentId :: oid
  componentName :: string
  componentSku :: string
  quantityRequired :: int
  quantityCompleted :: int
  isCompleted :: bool
  completedAt :: "time option"
  timeTracker :: "TimeTracker option"
  materialUsage :: "MaterialUsage list"
  startedAt :: "time option"

text \<open>
  The component list of an order or a card is the type parameter: a list of
  \<open>ComponentProgress\<close> values in a stored document, the address of an array for an
  object in memory (section ``Creating an order'').
\<close>

record 'c ManufacturingOrder =
  o_id :: oid
  o_modelId :: oid
  o_modelName :: string
  o_modelSku :: string
  o_quantity :: int
  o_clientName :: string
  o_dueDate :: time
  o_createdDate :: time
  o_status :: ManufacturingOrderStatus
  o_components :: 'c
  o_notes :: "string option"
  o_estimatedHours :: rat
  o_startedAt :: "time option"
  o_completedAt :: "time option"
  o_timeTracker :: "TimeTracker option"
  o_createdAt :: time
  o_updatedAt :: time

record 'c ProductionCard =
  c_id :: oid
  c_orderId :: oid
  c_orderName :: string
  c_cardNumber :: int
  c_totalCards :: int
  c_modelId :: oid
  c_modelName :: string
  c_modelSku :: string
  c_quantity :: int
  c_dueDate :: time
  c_status :: ProductionCardStatus
  c_priority :: "ProductionCardPriority option"
  c_components :: 'c
  c_notes :: "string option"
  c_estimatedHours :: rat
  c_startedAt :: "time option"
  c_completedAt :: "time option"
  c_timeTracker :: "TimeTracker option"
  c_createdAt :: time
  c_updatedAt :: time

record InventoryItem =
  i_id :: oid
  i_name :: string
  i_type :: InventoryType
  i_sku :: string
  i_quantity :: int
  i_unit :: string
  i_status :: InventoryStatus
  i_estimatedManufacturingTime :: "rat option"
  i_components :: "oid list"
  i_canManufacture :: "bool option"
  i_updatedAt :: time

type_synonym Order = "ComponentProgress list ManufacturingOrder"
type_synonym Card = "ComponentProgress list ProductionCard"

text \<open>
  The document store: the three collections, keyed by identifier, and the next
  identifier the store hands out.
\<close>

record State =
  inventory :: "oid \<rightharpoonup> InventoryItem"
  orders :: "oid \<rightharpoonup> Order"
  cards :: "oid \<rightharpoonup> Card"
  nextId :: oid

text \<open>
  The \<^verbatim>\<open>throw new Error(message)\<close> statements of the two use-case classes: one
  constructor for each guard, and \<open>RepositoryReturnedNull\<close> for the throws that follow a
  repository call that returned \<^verbatim>\<open>null\<close>. \<open>StartTimeUndefined\<close> is the \<^verbatim>\<open>TypeError\<close> that
  the call \<^verbatim>\<open>startTime.getTime()\<close> raises in an elapsed-time query when the tracker has
  no start time. A use case returns its result or its error together with the store it
  leaves behind.
\<close>

datatype error =
    ModelNotFound
  | ModelCannotBeManufactured
  | OnlyModelsCanBeOrdered
  | OrderNotFound
  | CardNotFound
  | OnlyPendingCanStart
  | OnlyInProgressCanPause
  | OnlyPausedCanResume
  | OnlyActiveCanCompleteComponent
  | OnlyActiveCanComplete
  | OnlyActiveCanStartComponent
  | ComponentNotFound
  | ComponentAlreadyCompleted
  | ComponentsMissing
  | CannotCancelCompleted
  | AlreadyCancelled
  | ComponentTimerActive
  | ComponentOrTimerNotFound
  | ComponentTimerAlreadyPaused
  | ComponentTimerNotPaused
  | MaterialNotFound
  | RepositoryReturnedNull
  | ValidationFailed
  | StartTimeUndefined

datatype ErrorKind = NotFound | InvalidState | ValidationError | Internal

text \<open>
  Modelled from the spec: the typed failures \<open>NotFound\<close>, \<open>InvalidState\<close> and
  \<open>ValidationError\<close> are missing from the code, which throws plain \<^verbatim>\<open>Error\<close> objects
  that differ in their message only. \<open>errorKind\<close> gives each throw the kind the error
  taxonomy of the specification names for it: a referenced document that does not exist
  is \<open>NotFound\<close>, an operation the lifecycle state does not permit is \<open>InvalidState\<close>.
\<close>

fun errorKind :: "error \<Rightarrow> ErrorKind" where
  "errorKind ModelNotFound = NotFound"
| "errorKind OrderNotFound = NotFound"
| "errorKind CardNotFound = NotFound"
| "errorKind ComponentNotFound = NotFound"
| "errorKind ComponentOrTimerNotFound = NotFound"
| "errorKind MaterialNotFound = NotFound"
| "errorKind RepositoryReturnedNull = Internal"
| "errorKind StartTimeUndefined = Internal"
| "errorKind ValidationFailed = ValidationError"
| "errorKind _ = InvalidState"

section \<open>Time tracking\<close>

text \<open>
  \<^verbatim>\<open>Math.round(ms / (1000 * 60))\<close> for an integral number of milliseconds:
  \<^verbatim>\<open>Math.round\<close> rounds to the nearest integer, a half upwards.
\<close>

definition roundMinutes :: "int \<Rightarrow> int" where
  "roundMinutes ms = (ms + 30000) div 60000"

text \<open>
  The tracker that holds the defaults of the schema and nothing else: no start time,
  not paused, and 0 for the two totals.
\<close>

definition blankTracker :: TimeTracker where
  "blankTracker =
     \<lparr>startTime = None, endTime = None, totalTimeMinutes = 0, isPaused = False,
      pauseStartTime = None, totalPauseMinutes = 0\<rparr>"

text \<open>
  The schema of a production card declares \<^verbatim>\<open>timeTracker\<close> as a nested path, not as a
  sub-document, and the store gives a document every nested path of its schema: reading
  \<^verbatim>\<open>card.timeTracker\<close> returns an object for every card, with the defaults of the schema
  where nothing was written. A card document whose \<open>c_timeTracker\<close> is \<open>None\<close> is a card
  nothing was written to under that path, and \<open>nestedTracker\<close> is what the code reads
  from it. The tracker of an order and the tracker of a component of an order are
  sub-documents, and the tracker of a component of a card is a field whose default is
  \<^verbatim>\<open>undefined\<close>: these can be absent, and there \<open>None\<close> reads as \<^verbatim>\<open>undefined\<close>.
\<close>

definition nestedTracker :: "TimeTracker option \<Rightarrow> TimeTracker" where
  "nestedTracker t = (case t of None \<Rightarrow> blankTracker | Some tt \<Rightarrow> tt)"

subsection \<open>Elapsed production time\<close>

text \<open>
  Each query returns 0 when its guard finds no document, no component or no tracker, and
  then computes \<^verbatim>\<open>now.getTime() - timeTracker.startTime.getTime()\<close>, which raises a
  \<^verbatim>\<open>TypeError\<close> when the tracker has no start time.
\<close>

text \<open>\<^verbatim>\<open>MongoManufacturingOrderRepository.getCurrentProductionTime\<close>\<close>

definition OrderRepo_getCurrentProductionTime :: "time \<Rightarrow> oid \<Rightarrow> State \<Rightarrow> error + int" where
  "OrderRepo_getCurrentProductionTime now i s =
     (case orders s i of
        None \<Rightarrow> Inr 0
      | Some ord \<Rightarrow>
          (case o_timeTracker ord of
             None \<Rightarrow> Inr 0
           | Some tt \<Rightarrow>
               (case startTime tt of
                  None \<Rightarrow> Inl StartTimeUndefined
                | Some st \<Rightarrow>
                    (let totalTime = now - st;
                         totalTime1 =
                           (case pauseStartTime tt of
                              Some p \<Rightarrow> if isPaused tt then totalTime - (now - p) else totalTime
                            | None \<Rightarrow> totalTime);
                         totalTime2 = totalTime1 - totalPauseMinutes tt * 60 * 1000
                     in Inr (max 0 (roundMinutes totalTime2))))))"

text \<open>
  \<^verbatim>\<open>MongoProductionCardRepository.getCurrentProductionTime\<close>. The guard is
  \<^verbatim>\<open>!card || !card.timeTracker\<close>; its second half is false for every card, because
  \<^verbatim>\<open>card.timeTracker\<close> is the object of the nested path.
\<close>

definition CardRepo_getCurrentProductionTime :: "time \<Rightarrow> oid \<Rightarrow> State \<Rightarrow> error + int" where
  "CardRepo_getCurrentProductionTime now i s =
     (case cards s i of
        None \<Rightarrow> Inr 0
      | Some crd \<Rightarrow>
          (let tt = nestedTracker (c_timeTracker crd)
           in (case startTime tt of
                 None \<Rightarrow> Inl StartTimeUndefined
               | Some st \<Rightarrow>
                   (let totalTime = now - st;
                        totalTime1 =
                          (case pauseStartTime tt of
                             Some p \<Rightarrow> if isPaused tt then totalTime - (now - p) else totalTime
                           | None \<Rightarrow> totalTime);
                        totalTime2 = totalTime1 - totalPauseMinutes tt * 60 * 1000
                    in Inr (max 0 (roundMinutes totalTime2))))))"

text \<open>\<^verbatim>\<open>MongoManufacturingOrderRepository.getComponentProductionTime\<close>\<close>

definition OrderRepo_getComponentProductionTime ::
  "time \<Rightarrow> oid \<Rightarrow> oid \<Rightarrow> State \<Rightarrow> error + int" where
  "OrderRepo_getComponentProductionTime now i cid s =
     (case orders s i of
        None \<Rightarrow> Inr 0
      | Some ord \<Rightarrow>
          (case find (\<lambda>c. componentId c = cid) (o_components ord) of
             None \<Rightarrow> Inr 0
           | Some component \<Rightarrow>
               (case timeTracker component of
                  None \<Rightarrow> Inr 0
                | Some tt \<Rightarrow>
                    (case startTime tt of
                       None \<Rightarrow> Inl StartTimeUndefined
                     | Some st \<Rightarrow>
                         (let totalTime = now - st;
                              totalTime1 =
                                (case pauseStartTime tt of
                                   Some p \<Rightarrow> if isPaused tt then totalTime - (now - p) else totalTime
                                 | None \<Rightarrow> totalTime);
                              totalTime2 = totalTime1 - totalPauseMinutes tt * 60 * 1000
                          in Inr (max 0 (roundMinutes totalTime2)))))))"

text \<open>\<^verbatim>\<open>MongoProductionCardRepository.getComponentProductionTime\<close>\<close>

definition CardRepo_getComponentProductionTime ::
  "time \<Rightarrow> oid \<Rightarrow> oid \<Rightarrow> State \<Rightarrow> error + int" where
  "CardRepo_getComponentProductionTime now i cid s =
     (case cards s i of
        None \<Rightarrow> Inr 0
      | Some crd \<Rightarrow>
          (case find (\<lambda>c. componentId c = cid) (c_components crd) of
             None \<Rightarrow> Inr 0
           | Some component \<Rightarrow>
               (case timeTracker component of
                  None \<Rightarrow> Inr 0
                | Some tt \<Rightarrow>
                    (case startTime tt of
                       None \<Rightarrow> Inl StartTimeUndefined
                     | Some st \<Rightarrow>
                         (let totalTime = now - st;
                              totalTime1 =
                                (case pauseStartTime tt of
                                   Some p \<Rightarrow> if isPaused tt then totalTime - (now - p) else totalTime
                                 | None \<Rightarrow> totalTime);
                              totalTime2 = totalTime1 - totalPauseMinutes tt * 60 * 1000
                          in Inr (max 0 (roundMinutes totalTime2)))))))"

text \<open>The use cases hand the query to their repository unchanged.\<close>

definition Order_getCurrentProductionTime :: "time \<Rightarrow> oid \<Rightarrow> State \<Rightarrow> error + int" where
  "Order_getCurrentProductionTime now i s = OrderRepo_getCurrentProductionTime now i s"

definition Card_getCurrentProductionTime :: "time \<Rightarrow> oid \<Rightarrow> State \<Rightarrow> error + int" where
  "Card_getCurrentProductionTime now i s = CardRepo_getCurrentProductionTime now i s"

definition Order_getComponentProductionTime ::
  "time \<Rightarrow> oid \<Rightarrow> oid \<Rightarrow> State \<Rightarrow> error + int" where
  "Order_getComponentProductionTime now i cid s = OrderRepo_getComponentProductionTime now i cid s"

definition Card_getComponentProductionTime ::
  "time \<Rightarrow> oid \<Rightarrow> oid \<Rightarrow> State \<Rightarrow> error + int" where
  "Card_getComponentProductionTime now i cid s = CardRepo_getComponentProductionTime now i cid s"

text \<open>
  The elapsed time as the specification words it, over the reals and with the
  library's \<open>round\<close>, for a tracker that was started at the time \<open>st\<close>: the wall-clock
  span, less the accumulated pause minutes, less the running pause when the tracker is
  paused, in whole minutes and never below zero.
\<close>

definition elapsed_spec :: "time \<Rightarrow> time \<Rightarrow> TimeTracker \<Rightarrow> int" where
  "elapsed_spec now st tt =
     max 0 (round ((real_of_int (now - st)
                    - real_of_int (totalPauseMinutes tt) * 60000
                    - (case pauseStartTime tt of
                         Some p \<Rightarrow> if isPaused tt then real_of_int (now - p) else 0
                       | None \<Rightarrow> 0)) / 60000))"


section \<open>The repositories\<close>

text \<open>
  The store's update primitives. \<^verbatim>\<open>findByIdAndUpdate(id, update, { new: true })\<close> changes
  the document with that identifier and returns it as changed, or returns \<^verbatim>\<open>null\<close> when
  there is none. \<^verbatim>\<open>findOneAndUpdate\<close> with the filter
  \<^verbatim>\<open>{ _id, 'components.componentId': componentId }\<close> and the positional operator
  \<^verbatim>\<open>components.$\<close> changes the first component with that identifier, and matches no
  document when no component has it.
\<close>

fun updateFirst :: "('a \<Rightarrow> bool) \<Rightarrow> ('a \<Rightarrow> 'a) \<Rightarrow> 'a list \<Rightarrow> 'a list" where
  "updateFirst P f [] = []"
| "updateFirst P f (x # xs) = (if P x then f x # xs else x # updateFirst P f xs)"

definition Orders_findByIdAndUpdate ::
  "oid \<Rightarrow> (Order \<Rightarrow> Order) \<Rightarrow> State \<Rightarrow> Order option \<times> State" where
  "Orders_findByIdAndUpdate i upd s =
     (case orders s i of
        None \<Rightarrow> (None, s)
      | Some doc \<Rightarrow> (Some (upd doc), s\<lparr>orders := (orders s)(i \<mapsto> upd doc)\<rparr>))"

definition Orders_findOneAndUpdateComponent ::
  "oid \<Rightarrow> oid \<Rightarrow> (ComponentProgress \<Rightarrow> ComponentProgress) \<Rightarrow> (Order \<Rightarrow> Order) \<Rightarrow> State
     \<Rightarrow> Order option \<times> State" where
  "Orders_findOneAndUpdateComponent i cid f upd s =
     (case orders s i of
        None \<Rightarrow> (None, s)
      | Some doc \<Rightarrow>
          if list_ex (\<lambda>c. componentId c = cid) (o_components doc)
          then (let doc' = upd (doc\<lparr>o_components :=
                                   updateFirst (\<lambda>c. componentId c = cid) f (o_components doc)\<rparr>)
                in (Some doc', s\<lparr>orders := (orders s)(i \<mapsto> doc')\<rparr>))
          else (None, s))"

definition Cards_findByIdAndUpdate ::
  "oid \<Rightarrow> (Card \<Rightarrow> Card) \<Rightarrow> State \<Rightarrow> Card option \<times> State" where
  "Cards_findByIdAndUpdate i upd s =
     (case cards s i of
        None \<Rightarrow> (None, s)
      | Some doc \<Rightarrow> (Some (upd doc), s\<lparr>cards := (cards s)(i \<mapsto> upd doc)\<rparr>))"

definition Cards_findOneAndUpdateComponent ::
  "oid \<Rightarrow> oid \<Rightarrow> (ComponentProgress \<Rightarrow> ComponentProgress) \<Rightarrow> (Card \<Rightarrow> Card) \<Rightarrow> State
     \<Rightarrow> Card option \<times> State" where
  "Cards_findOneAndUpdateComponent i cid f upd s =
     (case cards s i of
        None \<Rightarrow> (None, s)
      | Some doc \<Rightarrow>
          if list_ex (\<lambda>c. componentId c = cid) (c_components doc)
          then (let doc' = upd (doc\<lparr>c_components :=
                                   updateFirst (\<lambda>c. componentId c = cid) f (c_components doc)\<rparr>)
                in (Some doc', s\<lparr>cards := (cards s)(i \<mapsto> doc')\<rparr>))
          else (None, s))"

text \<open>The tracker that \<^verbatim>\<open>startProduction\<close> and \<^verbatim>\<open>startComponentProduction\<close> write.\<close>

definition freshTracker :: "time \<Rightarrow> TimeTracker" where
  "freshTracker now =
     \<lparr>startTime = Some now, endTime = None, totalTimeMinutes = 0, isPaused = False,
      pauseStartTime = None, totalPauseMinutes = 0\<rparr>"

text \<open>
  \<^verbatim>\<open>$set\<close> on the paths \<^verbatim>\<open>timeTracker.isPaused\<close> and \<^verbatim>\<open>timeTracker.pauseStartTime\<close>, and
  for the resume \<^verbatim>\<open>$set\<close> on \<^verbatim>\<open>timeTracker.isPaused\<close> and
  \<^verbatim>\<open>timeTracker.totalPauseMinutes\<close> with \<^verbatim>\<open>$unset\<close> on \<^verbatim>\<open>timeTracker.pauseStartTime\<close>. The
  update writes the fields it names and keeps the others. Where the document has no
  tracker, writing a field creates the tracker with that field: it has no start time,
  and its other fields read as the defaults of the schema.
\<close>

definition setPaused :: "time \<Rightarrow> TimeTracker option \<Rightarrow> TimeTracker option" where
  "setPaused now t =
     Some ((case t of None \<Rightarrow> blankTracker | Some tt \<Rightarrow> tt)
             \<lparr>isPaused := True, pauseStartTime := Some now\<rparr>)"

definition setResumed :: "int \<Rightarrow> TimeTracker option \<Rightarrow> TimeTracker option" where
  "setResumed newTotalPauseMinutes t =
     Some ((case t of None \<Rightarrow> blankTracker | Some tt \<Rightarrow> tt)
             \<lparr>isPaused := False, totalPauseMinutes := newTotalPauseMinutes,
              pauseStartTime := None\<rparr>)"

subsection \<open>\<^verbatim>\<open>MongoManufacturingOrderRepository\<close>\<close>

definition OrderRepo_findById :: "oid \<Rightarrow> State \<Rightarrow> Order option" where
  "OrderRepo_findById i s = orders s i"

definition OrderRepo_startProduction :: "time \<Rightarrow> oid \<Rightarrow> State \<Rightarrow> Order option \<times> State" where
  "OrderRepo_startProduction now i s =
     Orders_findByIdAndUpdate i
       (\<lambda>d. d\<lparr>o_status := IN_PROGRESS, o_startedAt := Some now,
               o_timeTracker := Some (freshTracker now), o_updatedAt := now\<rparr>) s"

definition OrderRepo_pauseProduction :: "time \<Rightarrow> oid \<Rightarrow> State \<Rightarrow> Order option \<times> State" where
  "OrderRepo_pauseProduction now i s =
     Orders_findByIdAndUpdate i
       (\<lambda>d. d\<lparr>o_status := PAUSED, o_timeTracker := setPaused now (o_timeTracker d),
               o_updatedAt := now\<rparr>) s"

definition OrderRepo_resumeProduction :: "time \<Rightarrow> oid \<Rightarrow> State \<Rightarrow> Order option \<times> State" where
  "OrderRepo_resumeProduction now i s =
     (case orders s i of
        None \<Rightarrow> (None, s)
      | Some currentOrder \<Rightarrow>
          (case o_timeTracker currentOrder of
             None \<Rightarrow> (None, s)
           | Some tt \<Rightarrow>
               (case pauseStartTime tt of
                  None \<Rightarrow> (None, s)
                | Some p \<Rightarrow>
                    (let pauseTime = now - p;
                         pauseMinutes = roundMinutes pauseTime;
                         newTotalPauseMinutes = totalPauseMinutes tt + pauseMinutes
                     in Orders_findByIdAndUpdate i
                          (\<lambda>d. d\<lparr>o_status := IN_PROGRESS,
                                  o_timeTracker := setResumed newTotalPauseMinutes (o_timeTracker d),
                                  o_updatedAt := now\<rparr>) s))))"

definition OrderRepo_completeComponent ::
  "time \<Rightarrow> oid \<Rightarrow> oid \<Rightarrow> State \<Rightarrow> Order option \<times> State" where
  "OrderRepo_completeComponent now i cid s =
     (case orders s i of
        None \<Rightarrow> (None, s)
      | Some orderDoc \<Rightarrow>
          (case find (\<lambda>c. componentId c = cid) (o_components orderDoc) of
             None \<Rightarrow> (None, s)
           | Some component \<Rightarrow>
               Orders_findOneAndUpdateComponent i cid
                 (\<lambda>c. c\<lparr>isCompleted := True, completedAt := Some now,
                         quantityCompleted := quantityRequired component\<rparr>)
                 (\<lambda>d. d\<lparr>o_updatedAt := now\<rparr>) s))"

definition OrderRepo_completeOrder :: "time \<Rightarrow> oid \<Rightarrow> State \<Rightarrow> Order option \<times> State" where
  "OrderRepo_completeOrder now i s =
     Orders_findByIdAndUpdate i
       (\<lambda>d. d\<lparr>o_status := COMPLETED, o_completedAt := Some now, o_updatedAt := now\<rparr>) s"

definition OrderRepo_cancelOrder :: "time \<Rightarrow> oid \<Rightarrow> State \<Rightarrow> Order option \<times> State" where
  "OrderRepo_cancelOrder now i s =
     Orders_findByIdAndUpdate i (\<lambda>d. d\<lparr>o_status := CANCELLED, o_updatedAt := now\<rparr>) s"

definition OrderRepo_startComponentProduction ::
  "time \<Rightarrow> oid \<Rightarrow> oid \<Rightarrow> State \<Rightarrow> Order option \<times> State" where
  "OrderRepo_startComponentProduction now i cid s =
     Orders_findOneAndUpdateComponent i cid
       (\<lambda>c. c\<lparr>timeTracker := Some (freshTracker now), startedAt := Some now\<rparr>)
       (\<lambda>d. d\<lparr>o_updatedAt := now\<rparr>) s"

definition OrderRepo_pauseComponentProduction ::
  "time \<Rightarrow> oid \<Rightarrow> oid \<Rightarrow> State \<Rightarrow> Order option \<times> State" where
  "OrderRepo_pauseComponentProduction now i cid s =
     Orders_findOneAndUpdateComponent i cid
       (\<lambda>c. c\<lparr>timeTracker := setPaused now (timeTracker c)\<rparr>)
       (\<lambda>d. d\<lparr>o_updatedAt := now\<rparr>) s"

definition OrderRepo_resumeComponentProduction ::
  "time \<Rightarrow> oid \<Rightarrow> oid \<Rightarrow> State \<Rightarrow> Order option \<times> State" where
  "OrderRepo_resumeComponentProduction now i cid s =
     (case orders s i of
        None \<Rightarrow> (None, s)
      | Some currentOrder \<Rightarrow>
          (case find (\<lambda>c. componentId c = cid) (o_components currentOrder) of
             None \<Rightarrow> (None, s)
           | Some component \<Rightarrow>
               (case timeTracker component of
                  None \<Rightarrow> (None, s)
                | Some tt \<Rightarrow>
                    (case pauseStartTime tt of
                       None \<Rightarrow> (None, s)
                     | Some p \<Rightarrow>
                         (let pauseTime = now - p;
                              pauseMinutes = roundMinutes pauseTime;
                              newTotalPauseMinutes = totalPauseMinutes tt + pauseMinutes
                          in Orders_findOneAndUpdateComponent i cid
                               (\<lambda>c. c\<lparr>timeTracker :=
                                        setResumed newTotalPauseMinutes (timeTracker c)\<rparr>)
                               (\<lambda>d. d\<lparr>o_updatedAt := now\<rparr>) s)))))"

definition OrderRepo_addMaterialToComponent ::
  "time \<Rightarrow> oid \<Rightarrow> oid \<Rightarrow> MaterialUsage \<Rightarrow> State \<Rightarrow> Order option \<times> State" where
  "OrderRepo_addMaterialToComponent now i cid material s =
     Orders_findOneAndUpdateComponent i cid
       (\<lambda>c. c\<lparr>materialUsage := materialUsage c @ [material]\<rparr>)
       (\<lambda>d. d\<lparr>o_updatedAt := now\<rparr>) s"


subsection \<open>\<^verbatim>\<open>MongoProductionCardRepository\<close>\<close>

definition CardRepo_findById :: "oid \<Rightarrow> State \<Rightarrow> Card option" where
  "CardRepo_findById i s = cards s i"

definition CardRepo_startProduction :: "time \<Rightarrow> oid \<Rightarrow> State \<Rightarrow> Card option \<times> State" where
  "CardRepo_startProduction now i s =
     Cards_findByIdAndUpdate i
       (\<lambda>d. d\<lparr>c_status := CARD_IN_PROGRESS, c_startedAt := Some now,
               c_timeTracker := Some (freshTracker now), c_updatedAt := now\<rparr>) s"

definition CardRepo_pauseProduction :: "time \<Rightarrow> oid \<Rightarrow> State \<Rightarrow> Card option \<times> State" where
  "CardRepo_pauseProduction now i s =
     Cards_findByIdAndUpdate i
       (\<lambda>d. d\<lparr>c_status := CARD_PAUSED, c_timeTracker := setPaused now (c_timeTracker d),
               c_updatedAt := now\<rparr>) s"

text \<open>
  \<^verbatim>\<open>resumeProduction\<close> reads the tracker of the card through the nested path as well: a
  card nothing was written to has no pause start time, and the call returns \<^verbatim>\<open>null\<close>.
\<close>

definition CardRepo_resumeProduction :: "time \<Rightarrow> oid \<Rightarrow> State \<Rightarrow> Card option \<times> State" where
  "CardRepo_resumeProduction now i s =
     (case cards s i of
        None \<Rightarrow> (None, s)
      | Some currentCard \<Rightarrow>
          (let tt = nestedTracker (c_timeTracker currentCard)
           in (case pauseStartTime tt of
                 None \<Rightarrow> (None, s)
               | Some p \<Rightarrow>
                   (let pauseTime = now - p;
                        pauseMinutes = roundMinutes pauseTime;
                        newTotalPauseMinutes = totalPauseMinutes tt + pauseMinutes
                    in Cards_findByIdAndUpdate i
                         (\<lambda>d. d\<lparr>c_status := CARD_IN_PROGRESS,
                                 c_timeTracker := setResumed newTotalPauseMinutes (c_timeTracker d),
                                 c_updatedAt := now\<rparr>) s))))"

definition CardRepo_completeComponent ::
  "time \<Rightarrow> oid \<Rightarrow> oid \<Rightarrow> State \<Rightarrow> Card option \<times> State" where
  "CardRepo_completeComponent now i cid s =
     (case cards s i of
        None \<Rightarrow> (None, s)
      | Some cardDoc \<Rightarrow>
          (case find (\<lambda>c. componentId c = cid) (c_components cardDoc) of
             None \<Rightarrow> (None, s)
           | Some component \<Rightarrow>
               Cards_findOneAndUpdateComponent i cid
                 (\<lambda>c. c\<lparr>isCompleted := True, completedAt := Some now,
                         quantityCompleted := quantityRequired component\<rparr>)
                 (\<lambda>d. d\<lparr>c_updatedAt := now\<rparr>) s))"

definition CardRepo_completeCard :: "time \<Rightarrow> oid \<Rightarrow> State \<Rightarrow> Card option \<times> State" where
  "CardRepo_completeCard now i s =
     Cards_findByIdAndUpdate i
       (\<lambda>d. d\<lparr>c_status := CARD_COMPLETED, c_completedAt := Some now, c_updatedAt := now\<rparr>) s"

definition CardRepo_cancelCard :: "time \<Rightarrow> oid \<Rightarrow> State \<Rightarrow> Card option \<times> State" where
  "CardRepo_cancelCard now i s =
     Cards_findByIdAndUpdate i (\<lambda>d. d\<lparr>c_status := CARD_CANCELLED, c_updatedAt := now\<rparr>) s"

definition CardRepo_startComponentProduction ::
  "time \<Rightarrow> oid \<Rightarrow> oid \<Rightarrow> State \<Rightarrow> Card option \<times> State" where
  "CardRepo_startComponentProduction now i cid s =
     Cards_findOneAndUpdateComponent i cid
       (\<lambda>c. c\<lparr>timeTracker := Some (freshTracker now), startedAt := Some now\<rparr>)
       (\<lambda>d. d\<lparr>c_updatedAt := now\<rparr>) s"

definition CardRepo_pauseComponentProduction ::
  "time \<Rightarrow> oid \<Rightarrow> oid \<Rightarrow> State \<Rightarrow> Card option \<times> State" where
  "CardRepo_pauseComponentProduction now i cid s =
     Cards_findOneAndUpdateComponent i cid
       (\<lambda>c. c\<lparr>timeTracker := setPaused now (timeTracker c)\<rparr>)
       (\<lambda>d. d\<lparr>c_updatedAt := now\<rparr>) s"

definition CardRepo_resumeComponentProduction ::
  "time \<Rightarrow> oid \<Rightarrow> oid \<Rightarrow> State \<Rightarrow> Card option \<times> State" where
  "CardRepo_resumeComponentProduction now i cid s =
     (case cards s i of
        None \<Rightarrow> (None, s)
      | Some currentCard \<Rightarrow>
          (case find (\<lambda>c. componentId c = cid) (c_components currentCard) of
             None \<Rightarrow> (None, s)
           | Some component \<Rightarrow>
               (case timeTracker component of
                  None \<Rightarrow> (None, s)
                | Some tt \<Rightarrow>
                    (case pauseStartTime tt of
                       None \<Rightarrow> (None, s)
                     | Some p \<Rightarrow>
                         (let pauseTime = now - p;
                              pauseMinutes = roundMinutes pauseTime;
                              newTotalPauseMinutes = totalPauseMinutes tt + pauseMinutes
                          in Cards_findOneAndUpdateComponent i cid
                               (\<lambda>c. c\<lparr>timeTracker :=
                                        setResumed newTotalPauseMinutes (timeTracker c)\<rparr>)
                               (\<lambda>d. d\<lparr>c_updatedAt := now\<rparr>) s)))))"

definition CardRepo_addMaterialToComponent ::
  "time \<Rightarrow> oid \<Rightarrow> oid \<Rightarrow> MaterialUsage \<Rightarrow> State \<Rightarrow> Card option \<times> State" where
  "CardRepo_addMaterialToComponent now i cid material s =
     Cards_findOneAndUpdateComponent i cid
       (\<lambda>c. c\<lparr>materialUsage := materialUsage c @ [material]\<rparr>)
       (\<lambda>d. d\<lparr>c_updatedAt := now\<rparr>) s"

subsection \<open>\<^verbatim>\<open>MongoInventoryRepository\<close>\<close>

text \<open>\<^verbatim>\<open>documentToEntity\<close> fills the entity's \<^verbatim>\<open>id\<close> from the document's key.\<close>

definition Inventory_findById :: "oid \<Rightarrow> State \<Rightarrow> InventoryItem option" where
  "Inventory_findById i s = map_option (\<lambda>item. item\<lparr>i_id := i\<rparr>) (inventory s i)"

text \<open>
  \<^verbatim>\<open>updateQuantity\<close> runs the schema's validators (\<^verbatim>\<open>runValidators: true\<close>): the
  schema gives \<^verbatim>\<open>quantity\<close> the minimum 0, and a smaller value makes the call throw.
\<close>

definition Inventory_updateQuantity ::
  "time \<Rightarrow> oid \<Rightarrow> int \<Rightarrow> State \<Rightarrow> error + (InventoryItem option \<times> State)" where
  "Inventory_updateQuantity now i q s =
     (if q < 0 then Inl ValidationFailed
      else (case inventory s i of
              None \<Rightarrow> Inr (None, s)
            | Some item \<Rightarrow>
                (let item' = item\<lparr>i_quantity := q, i_updatedAt := now\<rparr>
                 in Inr (Some item', s\<lparr>inventory := (inventory s)(i \<mapsto> item')\<rparr>))))"

section \<open>The use cases\<close>

text \<open>
  A repository call that returns \<^verbatim>\<open>null\<close> makes the use case throw; otherwise the
  use case returns the updated document.
\<close>

definition orThrow :: "'a option \<times> State \<Rightarrow> (error + 'a) \<times> State" where
  "orThrow r = (case r of (None, s') \<Rightarrow> (Inl RepositoryReturnedNull, s')
                        | (Some u, s') \<Rightarrow> (Inr u, s'))"

text \<open>
  The inventory update that follows a completion, inside its \<^verbatim>\<open>try\<close>/\<^verbatim>\<open>catch\<close>: the
  model's stock is read and written back raised by \<open>n\<close>; a missing model is skipped,
  and an error of the write is caught and logged, so the store stays as it was.
\<close>

definition syncModelStock :: "time \<Rightarrow> oid \<Rightarrow> int \<Rightarrow> State \<Rightarrow> State" where
  "syncModelStock now mid n s =
     (case Inventory_findById mid s of
        None \<Rightarrow> s
      | Some currentModel \<Rightarrow>
          (case Inventory_updateQuantity now mid (i_quantity currentModel + n) s of
             Inl e \<Rightarrow> s
           | Inr (_, s') \<Rightarrow> s'))"

subsection \<open>\<^verbatim>\<open>ManufacturingOrderUseCases\<close>\<close>

definition Order_getOrderById :: "oid \<Rightarrow> State \<Rightarrow> error + Order" where
  "Order_getOrderById i s =
     (case OrderRepo_findById i s of None \<Rightarrow> Inl OrderNotFound | Some ord \<Rightarrow> Inr ord)"

definition Order_startProduction :: "time \<Rightarrow> oid \<Rightarrow> State \<Rightarrow> (error + Order) \<times> State" where
  "Order_startProduction now i s =
     (case Order_getOrderById i s of
        Inl e \<Rightarrow> (Inl e, s)
      | Inr ord \<Rightarrow>
          if o_status ord \<noteq> PENDING then (Inl OnlyPendingCanStart, s)
          else orThrow (OrderRepo_startProduction now i s))"

definition Order_pauseProduction :: "time \<Rightarrow> oid \<Rightarrow> State \<Rightarrow> (error + Order) \<times> State" where
  "Order_pauseProduction now i s =
     (case Order_getOrderById i s of
        Inl e \<Rightarrow> (Inl e, s)
      | Inr ord \<Rightarrow>
          if o_status ord \<noteq> IN_PROGRESS then (Inl OnlyInProgressCanPause, s)
          else orThrow (OrderRepo_pauseProduction now i s))"

definition Order_resumeProduction :: "time \<Rightarrow> oid \<Rightarrow> State \<Rightarrow> (error + Order) \<times> State" where
  "Order_resumeProduction now i s =
     (case Order_getOrderById i s of
        Inl e \<Rightarrow> (Inl e, s)
      | Inr ord \<Rightarrow>
          if o_status ord \<noteq> PAUSED then (Inl OnlyPausedCanResume, s)
          else orThrow (OrderRepo_resumeProduction now i s))"

definition Order_completeComponent ::
  "time \<Rightarrow> oid \<Rightarrow> oid \<Rightarrow> State \<Rightarrow> (error + Order) \<times> State" where
  "Order_completeComponent now i cid s =
     (case Order_getOrderById i s of
        Inl e \<Rightarrow> (Inl e, s)
      | Inr ord \<Rightarrow>
          if o_status ord \<noteq> IN_PROGRESS \<and> o_status ord \<noteq> PAUSED
          then (Inl OnlyActiveCanCompleteComponent, s)
          else (case find (\<lambda>c. componentId c = cid) (o_components ord) of
                  None \<Rightarrow> (Inl ComponentNotFound, s)
                | Some component \<Rightarrow>
                    if isCompleted component then (Inl ComponentAlreadyCompleted, s)
                    else orThrow (OrderRepo_completeComponent now i cid s)))"

definition Order_completeOrder :: "time \<Rightarrow> oid \<Rightarrow> State \<Rightarrow> (error + Order) \<times> State" where
  "Order_completeOrder now i s =
     (case Order_getOrderById i s of
        Inl e \<Rightarrow> (Inl e, s)
      | Inr ord \<Rightarrow>
          if o_status ord \<noteq> IN_PROGRESS \<and> o_status ord \<noteq> PAUSED
          then (Inl OnlyActiveCanComplete, s)
          else if \<not> list_all isCompleted (o_components ord) then (Inl ComponentsMissing, s)
          else (case OrderRepo_completeOrder now i s of
                  (None, s1) \<Rightarrow> (Inl RepositoryReturnedNull, s1)
                | (Some updatedOrder, s1) \<Rightarrow>
                    (Inr updatedOrder, syncModelStock now (o_modelId ord) (o_quantity ord) s1)))"

definition Order_cancelOrder :: "time \<Rightarrow> oid \<Rightarrow> State \<Rightarrow> (error + Order) \<times> State" where
  "Order_cancelOrder now i s =
     (case Order_getOrderById i s of
        Inl e \<Rightarrow> (Inl e, s)
      | Inr ord \<Rightarrow>
          if o_status ord = COMPLETED then (Inl CannotCancelCompleted, s)
          else if o_status ord = CANCELLED then (Inl AlreadyCancelled, s)
          else orThrow (OrderRepo_cancelOrder now i s))"

definition Order_startComponentProduction ::
  "time \<Rightarrow> oid \<Rightarrow> oid \<Rightarrow> State \<Rightarrow> (error + Order) \<times> State" where
  "Order_startComponentProduction now i cid s =
     (case Order_getOrderById i s of
        Inl e \<Rightarrow> (Inl e, s)
      | Inr ord \<Rightarrow>
          if o_status ord \<noteq> IN_PROGRESS \<and> o_status ord \<noteq> PAUSED
          then (Inl OnlyActiveCanStartComponent, s)
          else (case find (\<lambda>c. componentId c = cid) (o_components ord) of
                  None \<Rightarrow> (Inl ComponentNotFound, s)
                | Some component \<Rightarrow>
                    if isCompleted component then (Inl ComponentAlreadyCompleted, s)
                    else if (case timeTracker component of
                               None \<Rightarrow> False | Some tt \<Rightarrow> \<not> isPaused tt)
                    then (Inl ComponentTimerActive, s)
                    else orThrow (OrderRepo_startComponentProduction now i cid s)))"

definition Order_pauseComponentProduction ::
  "time \<Rightarrow> oid \<Rightarrow> oid \<Rightarrow> State \<Rightarrow> (error + Order) \<times> State" where
  "Order_pauseComponentProduction now i cid s =
     (case Order_getOrderById i s of
        Inl e \<Rightarrow> (Inl e, s)
      | Inr ord \<Rightarrow>
          (case find (\<lambda>c. componentId c = cid) (o_components ord) of
             None \<Rightarrow> (Inl ComponentOrTimerNotFound, s)
           | Some component \<Rightarrow>
               (case timeTracker component of
                  None \<Rightarrow> (Inl ComponentOrTimerNotFound, s)
                | Some tt \<Rightarrow>
                    if isPaused tt then (Inl ComponentTimerAlreadyPaused, s)
                    else orThrow (OrderRepo_pauseComponentProduction now i cid s))))"

definition Order_resumeComponentProduction ::
  "time \<Rightarrow> oid \<Rightarrow> oid \<Rightarrow> State \<Rightarrow> (error + Order) \<times> State" where
  "Order_resumeComponentProduction now i cid s =
     (case Order_getOrderById i s of
        Inl e \<Rightarrow> (Inl e, s)
      | Inr ord \<Rightarrow>
          (case find (\<lambda>c. componentId c = cid) (o_components ord) of
             None \<Rightarrow> (Inl ComponentOrTimerNotFound, s)
           | Some component \<Rightarrow>
               (case timeTracker component of
                  None \<Rightarrow> (Inl ComponentOrTimerNotFound, s)
                | Some tt \<Rightarrow>
                    if \<not> isPaused tt then (Inl ComponentTimerNotPaused, s)
                    else orThrow (OrderRepo_resumeComponentProduction now i cid s))))"

text \<open>
  \<^verbatim>\<open>addMaterialToComponent\<close>: \<^verbatim>\<open>actualQuantity || 0\<close> and \<^verbatim>\<open>material.unit || 'unidad'\<close>
  replace a missing or zero quantity by 0 and an empty unit by the default.
\<close>

definition Order_addMaterialToComponent ::
  "time \<Rightarrow> oid \<Rightarrow> oid \<Rightarrow> oid \<Rightarrow> int \<Rightarrow> int option \<Rightarrow> State \<Rightarrow> (error + Order) \<times> State" where
  "Order_addMaterialToComponent now i cid mid planned actual s =
     (case Order_getOrderById i s of
        Inl e \<Rightarrow> (Inl e, s)
      | Inr ord \<Rightarrow>
          (case find (\<lambda>c. componentId c = cid) (o_components ord) of
             None \<Rightarrow> (Inl ComponentNotFound, s)
           | Some component \<Rightarrow>
               (case Inventory_findById mid s of
                  None \<Rightarrow> (Inl MaterialNotFound, s)
                | Some material \<Rightarrow>
                    (let newMaterial =
                           \<lparr>materialId = i_id material, materialName = i_name material,
                            materialSku = i_sku material, plannedQuantity = planned,
                            actualQuantity = (case actual of None \<Rightarrow> 0 | Some a \<Rightarrow> a),
                            mu_unit = (if i_unit material = [] then ''unidad''
                                       else i_unit material),
                            mu_notes = None, adjustedBy = None, adjustedAt = None\<rparr>
                     in orThrow (OrderRepo_addMaterialToComponent now i cid newMaterial s)))))"


subsection \<open>\<^verbatim>\<open>ProductionCardUseCases\<close>\<close>

definition Card_getCardById :: "oid \<Rightarrow> State \<Rightarrow> error + Card" where
  "Card_getCardById i s =
     (case CardRepo_findById i s of None \<Rightarrow> Inl CardNotFound | Some crd \<Rightarrow> Inr crd)"

definition Card_startProduction :: "time \<Rightarrow> oid \<Rightarrow> State \<Rightarrow> (error + Card) \<times> State" where
  "Card_startProduction now i s =
     (case Card_getCardById i s of
        Inl e \<Rightarrow> (Inl e, s)
      | Inr crd \<Rightarrow>
          if c_status crd \<noteq> CARD_PENDING then (Inl OnlyPendingCanStart, s)
          else orThrow (CardRepo_startProduction now i s))"

definition Card_pauseProduction :: "time \<Rightarrow> oid \<Rightarrow> State \<Rightarrow> (error + Card) \<times> State" where
  "Card_pauseProduction now i s =
     (case Card_getCardById i s of
        Inl e \<Rightarrow> (Inl e, s)
      | Inr crd \<Rightarrow>
          if c_status crd \<noteq> CARD_IN_PROGRESS then (Inl OnlyInProgressCanPause, s)
          else orThrow (CardRepo_pauseProduction now i s))"

definition Card_resumeProduction :: "time \<Rightarrow> oid \<Rightarrow> State \<Rightarrow> (error + Card) \<times> State" where
  "Card_resumeProduction now i s =
     (case Card_getCardById i s of
        Inl e \<Rightarrow> (Inl e, s)
      | Inr crd \<Rightarrow>
          if c_status crd \<noteq> CARD_PAUSED then (Inl OnlyPausedCanResume, s)
          else orThrow (CardRepo_resumeProduction now i s))"

definition Card_completeComponent ::
  "time \<Rightarrow> oid \<Rightarrow> oid \<Rightarrow> State \<Rightarrow> (error + Card) \<times> State" where
  "Card_completeComponent now i cid s =
     (case Card_getCardById i s of
        Inl e \<Rightarrow> (Inl e, s)
      | Inr crd \<Rightarrow>
          if c_status crd \<noteq> CARD_IN_PROGRESS \<and> c_status crd \<noteq> CARD_PAUSED
          then (Inl OnlyActiveCanCompleteComponent, s)
          else (case find (\<lambda>c. componentId c = cid) (c_components crd) of
                  None \<Rightarrow> (Inl ComponentNotFound, s)
                | Some component \<Rightarrow>
                    if isCompleted component then (Inl ComponentAlreadyCompleted, s)
                    else orThrow (CardRepo_completeComponent now i cid s)))"

definition Card_completeCard :: "time \<Rightarrow> oid \<Rightarrow> State \<Rightarrow> (error + Card) \<times> State" where
  "Card_completeCard now i s =
     (case Card_getCardById i s of
        Inl e \<Rightarrow> (Inl e, s)
      | Inr crd \<Rightarrow>
          if c_status crd \<noteq> CARD_IN_PROGRESS \<and> c_status crd \<noteq> CARD_PAUSED
          then (Inl OnlyActiveCanComplete, s)
          else if \<not> list_all isCompleted (c_components crd) then (Inl ComponentsMissing, s)
          else (case CardRepo_completeCard now i s of
                  (None, s1) \<Rightarrow> (Inl RepositoryReturnedNull, s1)
                | (Some updatedCard, s1) \<Rightarrow>
                    (Inr updatedCard, syncModelStock now (c_modelId crd) 1 s1)))"

definition Card_cancelCard :: "time \<Rightarrow> oid \<Rightarrow> State \<Rightarrow> (error + Card) \<times> State" where
  "Card_cancelCard now i s =
     (case Card_getCardById i s of
        Inl e \<Rightarrow> (Inl e, s)
      | Inr crd \<Rightarrow>
          if c_status crd = CARD_COMPLETED then (Inl CannotCancelCompleted, s)
          else orThrow (CardRepo_cancelCard now i s))"

definition Card_startComponentProduction ::
  "time \<Rightarrow> oid \<Rightarrow> oid \<Rightarrow> State \<Rightarrow> (error + Card) \<times> State" where
  "Card_startComponentProduction now i cid s =
     (case Card_getCardById i s of
        Inl e \<Rightarrow> (Inl e, s)
      | Inr crd \<Rightarrow>
          (case find (\<lambda>c. componentId c = cid) (c_components crd) of
             None \<Rightarrow> (Inl ComponentNotFound, s)
           | Some component \<Rightarrow>
               if isCompleted component then (Inl ComponentAlreadyCompleted, s)
               else orThrow (CardRepo_startComponentProduction now i cid s)))"

definition Card_pauseComponentProduction ::
  "time \<Rightarrow> oid \<Rightarrow> oid \<Rightarrow> State \<Rightarrow> (error + Card) \<times> State" where
  "Card_pauseComponentProduction now i cid s =
     orThrow (CardRepo_pauseComponentProduction now i cid s)"

definition Card_resumeComponentProduction ::
  "time \<Rightarrow> oid \<Rightarrow> oid \<Rightarrow> State \<Rightarrow> (error + Card) \<times> State" where
  "Card_resumeComponentProduction now i cid s =
     orThrow (CardRepo_resumeComponentProduction now i cid s)"

definition Card_addMaterialToComponent ::
  "time \<Rightarrow> oid \<Rightarrow> oid \<Rightarrow> MaterialUsage \<Rightarrow> State \<Rightarrow> (error + Card) \<times> State" where
  "Card_addMaterialToComponent now i cid material s =
     orThrow (CardRepo_addMaterialToComponent now i cid material s)"


section \<open>Listing cards\<close>

text \<open>
  \<^verbatim>\<open>MongoProductionCardRepository.findAll\<close>. The filters build the query; a filter that
  is absent (or falsy, as the empty search string) adds no condition, and \<^verbatim>\<open>overdue\<close>
  overwrites the condition on the status. The store's \<^verbatim>\<open>$regex\<close> matching is the
  parameter \<open>rx\<close>, and \<open>coll\<close> is the collection as the store scans it.
\<close>

record ProductionCardFilters =
  f_status :: "ProductionCardStatus option"
  f_priority :: "ProductionCardPriority option"
  f_orderId :: "oid option"
  f_modelId :: "oid option"
  f_overdue :: bool
  f_startDate :: "time option"
  f_endDate :: "time option"
  f_search :: "string option"

definition cardQuery ::
  "(string \<Rightarrow> string \<Rightarrow> bool) \<Rightarrow> ProductionCardFilters \<Rightarrow> time \<Rightarrow> Card \<Rightarrow> bool" where
  "cardQuery rx f now c =
     ((if f_overdue f
       then c_dueDate c < now \<and> c_status c \<noteq> CARD_COMPLETED \<and> c_status c \<noteq> CARD_CANCELLED
       else (case f_status f of None \<Rightarrow> True | Some st \<Rightarrow> c_status c = st))
      \<and> (case f_priority f of None \<Rightarrow> True | Some p \<Rightarrow> c_priority c = Some p)
      \<and> (case f_orderId f of None \<Rightarrow> True | Some oi \<Rightarrow> c_orderId c = oi)
      \<and> (case f_modelId f of None \<Rightarrow> True | Some mi \<Rightarrow> c_modelId c = mi)
      \<and> (case f_startDate f of None \<Rightarrow> True | Some d \<Rightarrow> d \<le> c_createdAt c)
      \<and> (case f_endDate f of None \<Rightarrow> True | Some d \<Rightarrow> c_createdAt c \<le> d)
      \<and> (case f_search f of
           None \<Rightarrow> True
         | Some q \<Rightarrow> q = [] \<or> rx q (c_orderName c) \<or> rx q (c_modelName c) \<or> rx q (c_modelSku c)))"

text \<open>The table \<^verbatim>\<open>priorityOrder\<close> and the lookup \<^verbatim>\<open>priorityOrder[x.priority] || 3\<close>.\<close>

fun priorityOrder :: "ProductionCardPriority \<Rightarrow> int" where
  "priorityOrder URGENT = 1"
| "priorityOrder HIGH = 2"
| "priorityOrder NORMAL = 3"
| "priorityOrder LOW = 4"

definition priorityValue :: "Card \<Rightarrow> int" where
  "priorityValue c =
     (case c_priority c of
        None \<Rightarrow> 3
      | Some p \<Rightarrow> if priorityOrder p = 0 then 3 else priorityOrder p)"

text \<open>The comparator handed to \<^verbatim>\<open>cards.sort\<close>.\<close>

definition compareCards :: "Card \<Rightarrow> Card \<Rightarrow> int" where
  "compareCards a b =
     (let aPriorityValue = priorityValue a; bPriorityValue = priorityValue b
      in if aPriorityValue \<noteq> bPriorityValue then aPriorityValue - bPriorityValue
         else c_dueDate a - c_dueDate b)"

text \<open>
  \<^verbatim>\<open>Array.prototype.sort\<close> with a comparator is a stable sort: \<open>a\<close> stays before \<open>b\<close>
  unless the comparator returns a positive number for the pair. The model is the stable
  insertion sort.
\<close>

fun insertBy :: "('a \<Rightarrow> 'a \<Rightarrow> int) \<Rightarrow> 'a \<Rightarrow> 'a list \<Rightarrow> 'a list" where
  "insertBy cmp x [] = [x]"
| "insertBy cmp x (y # ys) = (if cmp x y \<le> 0 then x # y # ys else y # insertBy cmp x ys)"

definition sortBy :: "('a \<Rightarrow> 'a \<Rightarrow> int) \<Rightarrow> 'a list \<Rightarrow> 'a list" where
  "sortBy cmp xs = foldr (insertBy cmp) xs []"

definition CardRepo_findAll ::
  "(string \<Rightarrow> string \<Rightarrow> bool) \<Rightarrow> ProductionCardFilters \<Rightarrow> time \<Rightarrow> Card list \<Rightarrow> Card list" where
  "CardRepo_findAll rx filters now coll =
     sortBy compareCards (filter (cardQuery rx filters now) coll)"

text \<open>
  The order of the listing as the specification words it: urgent before high before
  normal before low, a missing priority ranking as normal, and among cards of one rank
  the earlier due date first.
\<close>

fun priorityRank :: "ProductionCardPriority option \<Rightarrow> nat" where
  "priorityRank (Some URGENT) = 0"
| "priorityRank (Some HIGH) = 1"
| "priorityRank (Some NORMAL) = 2"
| "priorityRank (Some LOW) = 3"
| "priorityRank None = 2"

definition listedBefore :: "Card \<Rightarrow> Card \<Rightarrow> bool" where
  "listedBefore a b \<longleftrightarrow>
     priorityRank (c_priority a) < priorityRank (c_priority b)
     \<or> (priorityRank (c_priority a) = priorityRank (c_priority b) \<and> c_dueDate a \<le> c_dueDate b)"


section \<open>Creating an order\<close>

subsection \<open>Objects in memory\<close>

text \<open>
  \<^verbatim>\<open>createManufacturingOrder\<close> builds one array of component objects and hands copies of
  it to the cards, so the arrays and objects it allocates live in an explicit heap. A
  cell is an array of references to component objects, a component object as the
  literal \<^verbatim>\<open>{ componentId, componentName, componentSku, quantityRequired,
  quantityCompleted, isCompleted, materialUsage }\<close> writes it (its last property a
  reference to an array), or an array of material entries. Addresses are handed out
  in increasing order.
\<close>

type_synonym addr = nat

datatype cell =
    ComponentArray "addr list"
  | ComponentObject oid string string int int bool addr
  | MaterialArray "MaterialUsage list"

record Heap =
  cells :: "addr \<rightharpoonup> cell"
  nextAddr :: addr

definition alloc :: "cell \<Rightarrow> Heap \<Rightarrow> addr \<times> Heap" where
  "alloc c h = (nextAddr h, h\<lparr>cells := (cells h)(nextAddr h \<mapsto> c), nextAddr := Suc (nextAddr h)\<rparr>)"

text \<open>\<^verbatim>\<open>components.push(r)\<close> on the array at address \<open>a\<close>.\<close>

definition push :: "addr \<Rightarrow> addr \<Rightarrow> Heap \<Rightarrow> Heap" where
  "push a r h =
     (case cells h a of
        Some (ComponentArray rs) \<Rightarrow> h\<lparr>cells := (cells h)(a \<mapsto> ComponentArray (rs @ [r]))\<rparr>
      | _ \<Rightarrow> h)"

text \<open>
  \<^verbatim>\<open>JSON.parse(JSON.stringify(components))\<close>: \<open>stringify\<close> reads the value of the whole
  structure below an address, \<open>parse\<close> allocates a new structure holding that value.
  An address that holds no cell of the expected kind reads as the empty array or is
  skipped; a JavaScript reference never dangles, so the case is there for totality
  only. The material arrays this section meets are the empty ones of the literal.
\<close>

datatype componentJson = ComponentJson oid string string int int bool "MaterialUsage list"

definition stringifyMaterials :: "Heap \<Rightarrow> addr \<Rightarrow> MaterialUsage list" where
  "stringifyMaterials h m = (case cells h m of Some (MaterialArray ms) \<Rightarrow> ms | _ \<Rightarrow> [])"

fun stringifyObjects :: "Heap \<Rightarrow> addr list \<Rightarrow> componentJson list" where
  "stringifyObjects h [] = []"
| "stringifyObjects h (r # rs) =
     (case cells h r of
        Some (ComponentObject ci cn cs qr qc ic m) \<Rightarrow>
          ComponentJson ci cn cs qr qc ic (stringifyMaterials h m) # stringifyObjects h rs
      | _ \<Rightarrow> stringifyObjects h rs)"

definition stringify :: "Heap \<Rightarrow> addr \<Rightarrow> componentJson list" where
  "stringify h a =
     (case cells h a of Some (ComponentArray rs) \<Rightarrow> stringifyObjects h rs | _ \<Rightarrow> [])"

fun parseObjects :: "componentJson list \<Rightarrow> Heap \<Rightarrow> addr list \<times> Heap" where
  "parseObjects [] h = ([], h)"
| "parseObjects (ComponentJson ci cn cs qr qc ic ms # js) h =
     (let (m, h1) = alloc (MaterialArray ms) h;
          (r, h2) = alloc (ComponentObject ci cn cs qr qc ic m) h1;
          (rs, h3) = parseObjects js h2
      in (r # rs, h3))"

definition parse :: "componentJson list \<Rightarrow> Heap \<Rightarrow> addr \<times> Heap" where
  "parse js h = (let (rs, h1) = parseObjects js h in alloc (ComponentArray rs) h1)"

definition jsonClone :: "addr \<Rightarrow> Heap \<Rightarrow> addr \<times> Heap" where
  "jsonClone a h = parse (stringify h a) h"

text \<open>
  The addresses a component array owns: its own, those of its objects and those of
  their material arrays.
\<close>

fun ownedByObjects :: "Heap \<Rightarrow> addr list \<Rightarrow> addr list" where
  "ownedByObjects h [] = []"
| "ownedByObjects h (r # rs) =
     (case cells h r of
        Some (ComponentObject ci cn cs qr qc ic m) \<Rightarrow> r # m # ownedByObjects h rs
      | _ \<Rightarrow> r # ownedByObjects h rs)"

definition owned :: "Heap \<Rightarrow> addr \<Rightarrow> addr list" where
  "owned h a =
     (case cells h a of Some (ComponentArray rs) \<Rightarrow> a # ownedByObjects h rs | _ \<Rightarrow> [a])"

text \<open>The value of a component as the stored document holds it.\<close>

fun toProgress :: "componentJson \<Rightarrow> ComponentProgress" where
  "toProgress (ComponentJson ci cn cs qr qc ic ms) =
     \<lparr>componentId = ci, componentName = cn, componentSku = cs, quantityRequired = qr,
      quantityCompleted = qc, isCompleted = ic, completedAt = None, timeTracker = None,
      materialUsage = ms, startedAt = None\<rparr>"


subsection \<open>Creating documents\<close>

text \<open>\<^verbatim>\<open>String.prototype.trim\<close>, on the ASCII white space.\<close>

definition isWhite :: "char \<Rightarrow> bool" where
  "isWhite c \<longleftrightarrow> c \<in> set [CHR '' '', CHR 0x09, CHR 0x0A, CHR 0x0B, CHR 0x0C, CHR 0x0D]"

definition trim :: "string \<Rightarrow> string" where
  "trim str = rev (dropWhile isWhite (rev (dropWhile isWhite str)))"

text \<open>
  \<^verbatim>\<open>save()\<close> validates a new document against its schema. The model keeps the
  validators on the fields that the use cases compute from a request: the minima of
  the numbers and the required, bounded texts. The names and SKUs copied from stock
  items were validated when those items were stored.
\<close>

definition orderSchemaValid :: "addr ManufacturingOrder \<Rightarrow> bool" where
  "orderSchemaValid d \<longleftrightarrow>
     1 \<le> o_quantity d \<and> 0 \<le> o_estimatedHours d
     \<and> o_clientName d \<noteq> [] \<and> length (o_clientName d) \<le> 200
     \<and> (case o_notes d of None \<Rightarrow> True | Some n \<Rightarrow> length n \<le> 1000)"

definition cardSchemaValid :: "addr ProductionCard \<Rightarrow> bool" where
  "cardSchemaValid d \<longleftrightarrow>
     1 \<le> c_cardNumber d \<and> 1 \<le> c_totalCards d \<and> 1 \<le> c_quantity d
     \<and> 0 \<le> c_estimatedHours d \<and> c_orderName d \<noteq> []"

text \<open>The document the store keeps for an object in memory: the same fields, by value.\<close>

definition storedOrder :: "Heap \<Rightarrow> addr ManufacturingOrder \<Rightarrow> Order" where
  "storedOrder h d =
     \<lparr>o_id = o_id d, o_modelId = o_modelId d, o_modelName = o_modelName d,
      o_modelSku = o_modelSku d, o_quantity = o_quantity d, o_clientName = o_clientName d,
      o_dueDate = o_dueDate d, o_createdDate = o_createdDate d, o_status = o_status d,
      o_components = map toProgress (stringify h (o_components d)), o_notes = o_notes d,
      o_estimatedHours = o_estimatedHours d, o_startedAt = o_startedAt d,
      o_completedAt = o_completedAt d, o_timeTracker = o_timeTracker d,
      o_createdAt = o_createdAt d, o_updatedAt = o_updatedAt d\<rparr>"

definition storedCard :: "Heap \<Rightarrow> addr ProductionCard \<Rightarrow> Card" where
  "storedCard h d =
     \<lparr>c_id = c_id d, c_orderId = c_orderId d, c_orderName = c_orderName d,
      c_cardNumber = c_cardNumber d, c_totalCards = c_totalCards d, c_modelId = c_modelId d,
      c_modelName = c_modelName d, c_modelSku = c_modelSku d, c_quantity = c_quantity d,
      c_dueDate = c_dueDate d, c_status = c_status d, c_priority = c_priority d,
      c_components = map toProgress (stringify h (c_components d)), c_notes = c_notes d,
      c_estimatedHours = c_estimatedHours d, c_startedAt = c_startedAt d,
      c_completedAt = c_completedAt d, c_timeTracker = c_timeTracker d,
      c_createdAt = c_createdAt d, c_updatedAt = c_updatedAt d\<rparr>"

text \<open>
  \<^verbatim>\<open>create\<close> of the two repositories: the store validates the data, gives the document
  its identifier and its timestamps, and keeps it. The data the use cases pass has no
  \<^verbatim>\<open>id\<close>, \<^verbatim>\<open>createdAt\<close> or \<^verbatim>\<open>updatedAt\<close>; the records below carry placeholders
  that \<open>create\<close> overwrites. The entity returned refers to the component array it was
  given: the repository's code does not show whether the store copies the array, and
  sharing it is the case with the fewest distinct references.
\<close>

definition OrderRepo_create ::
  "time \<Rightarrow> addr ManufacturingOrder \<Rightarrow> Heap \<Rightarrow> State
     \<Rightarrow> (error + addr ManufacturingOrder) \<times> State" where
  "OrderRepo_create now orderData h s =
     (if \<not> orderSchemaValid orderData then (Inl ValidationFailed, s)
      else (let saved = orderData\<lparr>o_id := nextId s, o_createdAt := now, o_updatedAt := now\<rparr>
            in (Inr saved,
                s\<lparr>orders := (orders s)(nextId s \<mapsto> storedOrder h saved),
                  nextId := Suc (nextId s)\<rparr>)))"

definition CardRepo_create ::
  "time \<Rightarrow> addr ProductionCard \<Rightarrow> Heap \<Rightarrow> State \<Rightarrow> (error + addr ProductionCard) \<times> State" where
  "CardRepo_create now cardData h s =
     (if \<not> cardSchemaValid cardData then (Inl ValidationFailed, s)
      else (let saved = cardData\<lparr>c_id := nextId s, c_createdAt := now, c_updatedAt := now\<rparr>
            in (Inr saved,
                s\<lparr>cards := (cards s)(nextId s \<mapsto> storedCard h saved),
                  nextId := Suc (nextId s)\<rparr>)))"

record CreateProductionCardRequest =
  q_orderId :: oid
  q_orderName :: string
  q_cardNumber :: int
  q_totalCards :: int
  q_modelId :: oid
  q_modelName :: string
  q_modelSku :: string
  q_dueDate :: time
  q_components :: addr
  q_notes :: "string option"
  q_estimatedHours :: rat
  q_priority :: "ProductionCardPriority option"

text \<open>\<^verbatim>\<open>ProductionCardUseCases.createProductionCard\<close>\<close>

definition Card_createProductionCard ::
  "time \<Rightarrow> CreateProductionCardRequest \<Rightarrow> Heap \<Rightarrow> State
     \<Rightarrow> (error + addr ProductionCard) \<times> Heap \<times> State" where
  "Card_createProductionCard now request h s =
     (let (clone, h1) = jsonClone (q_components request) h;
          cardData =
            \<lparr>c_id = 0, c_orderId = q_orderId request, c_orderName = q_orderName request,
             c_cardNumber = q_cardNumber request, c_totalCards = q_totalCards request,
             c_modelId = q_modelId request, c_modelName = q_modelName request,
             c_modelSku = q_modelSku request, c_quantity = 1,
             c_dueDate = q_dueDate request, c_status = CARD_PENDING,
             c_priority = Some (case q_priority request of None \<Rightarrow> NORMAL | Some p \<Rightarrow> p),
             c_components = clone, c_notes = q_notes request,
             c_estimatedHours = q_estimatedHours request, c_startedAt = None,
             c_completedAt = None, c_timeTracker = None, c_createdAt = now,
             c_updatedAt = now\<rparr>
      in (case CardRepo_create now cardData h1 s of
            (Inl e, s1) \<Rightarrow> (Inl e, h1, s1)
          | (Inr saved, s1) \<Rightarrow> (Inr saved, h1, s1)))"

text \<open>\<^verbatim>\<open>ProductionCardUseCases.createMultipleProductionCards\<close>\<close>

fun Card_createMultipleProductionCards ::
  "time \<Rightarrow> CreateProductionCardRequest list \<Rightarrow> Heap \<Rightarrow> State
     \<Rightarrow> (error + addr ProductionCard list) \<times> Heap \<times> State" where
  "Card_createMultipleProductionCards now [] h s = (Inr [], h, s)"
| "Card_createMultipleProductionCards now (request # requests) h s =
     (case Card_createProductionCard now request h s of
        (Inl e, h1, s1) \<Rightarrow> (Inl e, h1, s1)
      | (Inr crd, h1, s1) \<Rightarrow>
          (case Card_createMultipleProductionCards now requests h1 s1 of
             (Inl e, h2, s2) \<Rightarrow> (Inl e, h2, s2)
           | (Inr crds, h2, s2) \<Rightarrow> (Inr (crd # crds), h2, s2)))"

record CreateManufacturingOrderRequest =
  r_modelId :: oid
  r_quantity :: int
  r_clientName :: string
  r_dueDate :: time
  r_notes :: "string option"
  r_componentIds :: "oid list option"

text \<open>
  The two loops of \<^verbatim>\<open>createManufacturingOrder\<close> that look the component identifiers
  up and push one object literal for each stock item found; an identifier that is not
  in the stock is skipped.
\<close>

fun resolveComponents :: "oid list \<Rightarrow> State \<Rightarrow> addr \<Rightarrow> Heap \<Rightarrow> Heap" where
  "resolveComponents [] s components h = h"
| "resolveComponents (cid # cids) s components h =
     (case Inventory_findById cid s of
        None \<Rightarrow> resolveComponents cids s components h
      | Some component \<Rightarrow>
          (let (m, h1) = alloc (MaterialArray []) h;
               (r, h2) = alloc (ComponentObject (i_id component) (i_name component)
                                  (i_sku component) 1 0 False m) h1
           in resolveComponents cids s components (push components r h2)))"

text \<open>
  The loop \<^verbatim>\<open>for (let i = 1; i <= request.quantity; i++)\<close> that pushes one card request
  for each unit, over the numbers \<open>[1..quantity]\<close>; \<open>mk\<close> is the request literal, given
  the card number and the clone of the component array.
\<close>

fun buildCardRequests ::
  "(int \<Rightarrow> addr \<Rightarrow> CreateProductionCardRequest) \<Rightarrow> addr \<Rightarrow> int list \<Rightarrow> Heap
     \<Rightarrow> CreateProductionCardRequest list \<times> Heap" where
  "buildCardRequests mk components [] h = ([], h)"
| "buildCardRequests mk components (i # is) h =
     (let (clone, h1) = jsonClone components h;
          (requests, h2) = buildCardRequests mk components is h1
      in (mk i clone # requests, h2))"

text \<open>\<^verbatim>\<open>model.estimatedManufacturingTime || 1\<close>: a missing or zero time counts as 1.\<close>

definition hoursPerUnit :: "InventoryItem \<Rightarrow> rat" where
  "hoursPerUnit model =
     (case i_estimatedManufacturingTime model of
        None \<Rightarrow> 1
      | Some t \<Rightarrow> if t = 0 then 1 else t)"

text \<open>
  The two object literals of \<^verbatim>\<open>createManufacturingOrder\<close>: the data of the order, and
  the request for the card with number \<open>i\<close> that receives the clone of the component
  array.
\<close>

definition orderDataFor ::
  "time \<Rightarrow> CreateManufacturingOrderRequest \<Rightarrow> InventoryItem \<Rightarrow> addr \<Rightarrow> addr ManufacturingOrder"
  where
  "orderDataFor now request model components =
     \<lparr>o_id = 0, o_modelId = i_id model, o_modelName = i_name model,
      o_modelSku = i_sku model, o_quantity = r_quantity request,
      o_clientName = trim (r_clientName request), o_dueDate = r_dueDate request,
      o_createdDate = now, o_status = PENDING, o_components = components,
      o_notes = map_option trim (r_notes request),
      o_estimatedHours = hoursPerUnit model * of_int (r_quantity request),
      o_startedAt = None, o_completedAt = None, o_timeTracker = None,
      o_createdAt = now, o_updatedAt = now\<rparr>"

definition cardRequestFor ::
  "CreateManufacturingOrderRequest \<Rightarrow> InventoryItem \<Rightarrow> addr ManufacturingOrder \<Rightarrow> int \<Rightarrow> addr
     \<Rightarrow> CreateProductionCardRequest" where
  "cardRequestFor request model ord i clone =
     \<lparr>q_orderId = o_id ord, q_orderName = trim (r_clientName request),
      q_cardNumber = i, q_totalCards = r_quantity request,
      q_modelId = i_id model, q_modelName = i_name model,
      q_modelSku = i_sku model, q_dueDate = r_dueDate request,
      q_components = clone, q_notes = map_option trim (r_notes request),
      q_estimatedHours = hoursPerUnit model, q_priority = None\<rparr>"

text \<open>\<^verbatim>\<open>ManufacturingOrderUseCases.createManufacturingOrder\<close>\<close>

definition Order_createManufacturingOrder ::
  "time \<Rightarrow> CreateManufacturingOrderRequest \<Rightarrow> Heap \<Rightarrow> State
     \<Rightarrow> (error + addr ManufacturingOrder \<times> addr ProductionCard list) \<times> Heap \<times> State" where
  "Order_createManufacturingOrder now request h s =
     (case Inventory_findById (r_modelId request) s of
        None \<Rightarrow> (Inl ModelNotFound, h, s)
      | Some model \<Rightarrow>
          if i_canManufacture model = Some False then (Inl ModelCannotBeManufactured, h, s)
          else if i_type model \<noteq> MODEL then (Inl OnlyModelsCanBeOrdered, h, s)
          else
            (let (components, h0) = alloc (ComponentArray []) h;
                 h1 = (case r_componentIds request of
                         Some (cid # cids) \<Rightarrow> resolveComponents (cid # cids) s components h0
                       | _ \<Rightarrow>
                           if i_components model \<noteq> []
                           then resolveComponents (i_components model) s components h0
                           else h0);
                 orderData = orderDataFor now request model components
             in (case OrderRepo_create now orderData h1 s of
                   (Inl e, s1) \<Rightarrow> (Inl e, h1, s1)
                 | (Inr ord, s1) \<Rightarrow>
                     (let (cardRequests, h2) =
                            buildCardRequests (cardRequestFor request model ord) components
                              [1..r_quantity request] h1
                      in (case Card_createMultipleProductionCards now cardRequests h2 s1 of
                            (Inl e, h3, s2) \<Rightarrow> (Inl e, h3, s2)
                          | (Inr productionCards, h3, s2) \<Rightarrow>
                              (Inr (ord, productionCards), h3, s2))))))"

section \<open>Pause and resume cycles\<close>

text \<open>
  A run of pause and resume cycles on one order or card: each pair holds the time of
  the pause and the time of the resume that follows it. The run stops at the first
  call that fails.
\<close>

fun Order_pauseResumeCycles :: "(time \<times> time) list \<Rightarrow> oid \<Rightarrow> State \<Rightarrow> (error + unit) \<times> State" where
  "Order_pauseResumeCycles [] i s = (Inr (), s)"
| "Order_pauseResumeCycles ((p, r) # cs) i s =
     (case Order_pauseProduction p i s of
        (Inl e, s1) \<Rightarrow> (Inl e, s1)
      | (Inr _, s1) \<Rightarrow>
          (case Order_resumeProduction r i s1 of
             (Inl e, s2) \<Rightarrow> (Inl e, s2)
           | (Inr _, s2) \<Rightarrow> Order_pauseResumeCycles cs i s2))"

fun Card_pauseResumeCycles :: "(time \<times> time) list \<Rightarrow> oid \<Rightarrow> State \<Rightarrow> (error + unit) \<times> State" where
  "Card_pauseResumeCycles [] i s = (Inr (), s)"
| "Card_pauseResumeCycles ((p, r) # cs) i s =
     (case Card_pauseProduction p i s of
        (Inl e, s1) \<Rightarrow> (Inl e, s1)
      | (Inr _, s1) \<Rightarrow>
          (case Card_resumeProduction r i s1 of
             (Inl e, s2) \<Rightarrow> (Inl e, s2)
           | (Inr _, s2) \<Rightarrow> Card_pauseResumeCycles cs i s2))"

text \<open>The pause minutes of a run: each interval rounded to the nearest minute, summed.\<close>

definition pausedMinutes :: "(time \<times> time) list \<Rightarrow> int" where
  "pausedMinutes cs = sum_list (map (\<lambda>(p, r). round (real_of_int (r - p) / 60000)) cs)"

definition pausedMillis :: "(time \<times> time) list \<Rightarrow> int" where
  "pausedMillis cs = sum_list (map (\<lambda>(p, r). r - p) cs)"

section \<open>Sample documents\<close>

text \<open>
  Documents and stores for the concrete instances below. Model 10, component 11 and
  material 20 are in the stock; order 1 and card 1 are the only documents.
\<close>

definition sample_component :: "oid \<Rightarrow> bool \<Rightarrow> TimeTracker option \<Rightarrow> ComponentProgress" where
  "sample_component cid done tt =
     \<lparr>componentId = cid, componentName = ''Frame'', componentSku = ''CMP-1'',
      quantityRequired = 1, quantityCompleted = (if done then 1 else 0), isCompleted = done,
      completedAt = None, timeTracker = tt, materialUsage = [], startedAt = None\<rparr>"

definition sample_order ::
  "ManufacturingOrderStatus \<Rightarrow> ComponentProgress list \<Rightarrow> TimeTracker option \<Rightarrow> Order" where
  "sample_order st cs tt =
     \<lparr>o_id = 1, o_modelId = 10, o_modelName = ''Trainer'', o_modelSku = ''MOD-1'',
      o_quantity = 5, o_clientName = ''Clinic'', o_dueDate = 900000000, o_createdDate = 0,
      o_status = st, o_components = cs, o_notes = None, o_estimatedHours = 10,
      o_startedAt = None, o_completedAt = None, o_timeTracker = tt, o_createdAt = 0,
      o_updatedAt = 0\<rparr>"

definition sample_card ::
  "ProductionCardStatus \<Rightarrow> ComponentProgress list \<Rightarrow> TimeTracker option \<Rightarrow> Card" where
  "sample_card st cs tt =
     \<lparr>c_id = 1, c_orderId = 1, c_orderName = ''Clinic'', c_cardNumber = 1, c_totalCards = 5,
      c_modelId = 10, c_modelName = ''Trainer'', c_modelSku = ''MOD-1'', c_quantity = 1,
      c_dueDate = 900000000, c_status = st, c_priority = Some NORMAL, c_components = cs,
      c_notes = None, c_estimatedHours = 2, c_startedAt = None, c_completedAt = None,
      c_timeTracker = tt, c_createdAt = 0, c_updatedAt = 0\<rparr>"

definition sample_item :: "InventoryType \<Rightarrow> int \<Rightarrow> rat option \<Rightarrow> oid list \<Rightarrow> InventoryItem" where
  "sample_item ty q t cs =
     \<lparr>i_id = 0, i_name = ''Item'', i_type = ty, i_sku = ''SKU-1'', i_quantity = q,
      i_unit = ''unidad'', i_status = ACTIVE, i_estimatedManufacturingTime = t,
      i_components = cs, i_canManufacture = Some True, i_updatedAt = 0\<rparr>"

definition sample_state :: "Order \<Rightarrow> Card \<Rightarrow> State" where
  "sample_state ord crd =
     \<lparr>inventory = [10 \<mapsto> sample_item MODEL 7 (Some 2) [11, 12],
                   11 \<mapsto> sample_item COMPONENT 3 None [],
                   20 \<mapsto> sample_item MATERIAL 40 None []],
      orders = [1 \<mapsto> ord], cards = [1 \<mapsto> crd], nextId = 100\<rparr>"

text \<open>
  A store with one order in progress and one paused card, and a store whose order is
  completed and whose card is cancelled while a component timer is still running.
\<close>

definition sample_paused :: TimeTracker where
  "sample_paused =
     \<lparr>startTime = Some 0, endTime = None, totalTimeMinutes = 0, isPaused = True,
      pauseStartTime = Some 600000, totalPauseMinutes = 3\<rparr>"

definition sample_working :: State where
  "sample_working =
     sample_state
       (sample_order IN_PROGRESS [sample_component 11 False (Some (freshTracker 1000))]
          (Some (freshTracker 0)))
       (sample_card CARD_PAUSED [sample_component 11 True (Some sample_paused)]
          (Some sample_paused))"

definition sample_terminal :: State where
  "sample_terminal =
     sample_state
       (sample_order COMPLETED [sample_component 11 True (Some (freshTracker 1000))]
          (Some (freshTracker 0)))
       (sample_card CARD_CANCELLED [sample_component 11 False (Some (freshTracker 1000))]
          (Some (freshTracker 0)))"

text \<open>
  A store whose order and card are in progress with every component completed, one
  whose order and card are paused, and one whose order and card were never started.
\<close>

definition sample_ready :: State where
  "sample_ready =
     sample_state
       (sample_order IN_PROGRESS [sample_component 11 True None] (Some (freshTracker 0)))
       (sample_card CARD_IN_PROGRESS [sample_component 11 True None] (Some (freshTracker 0)))"

definition sample_halted :: State where
  "sample_halted =
     sample_state
       (sample_order PAUSED [sample_component 11 False None] (Some sample_paused))
       (sample_card CARD_PAUSED [sample_component 11 False None] (Some sample_paused))"

definition sample_fresh :: State where
  "sample_fresh =
     sample_state
       (sample_order PENDING [sample_component 11 False None] None)
       (sample_card CARD_PENDING [sample_component 11 False None] None)"

text \<open>A collection of five cards that differ in priority and due date, and no filter.\<close>

definition sample_listed :: "oid \<Rightarrow> ProductionCardPriority option \<Rightarrow> time \<Rightarrow> Card" where
  "sample_listed i p d = (sample_card CARD_PENDING [] None)\<lparr>c_id := i, c_priority := p, c_dueDate := d\<rparr>"

definition sample_listing :: "Card list" where
  "sample_listing =
     [sample_listed 1 (Some LOW) 100, sample_listed 2 (Some URGENT) 500,
      sample_listed 3 None 300, sample_listed 4 (Some NORMAL) 200,
      sample_listed 5 (Some HIGH) 50]"

definition no_filters :: ProductionCardFilters where
  "no_filters =
     \<lparr>f_status = None, f_priority = None, f_orderId = None, f_modelId = None,
      f_overdue = False, f_startDate = None, f_endDate = None, f_search = None\<rparr>"

section \<open>The result of creating an order\<close>

text \<open>
  The component identifiers a request resolves: its own when it names any, the model's
  otherwise. The resolved component list holds one entry, not yet started, for each
  of them that is in the stock.
\<close>

definition requestedIds :: "CreateManufacturingOrderRequest \<Rightarrow> InventoryItem \<Rightarrow> oid list" where
  "requestedIds request model =
     (case r_componentIds request of Some (cid # cids) \<Rightarrow> cid # cids | _ \<Rightarrow> i_components model)"

fun expectedComponents :: "oid list \<Rightarrow> State \<Rightarrow> componentJson list" where
  "expectedComponents [] s = []"
| "expectedComponents (cid # cids) s =
     (case inventory s cid of
        None \<Rightarrow> expectedComponents cids s
      | Some component \<Rightarrow>
          ComponentJson cid (i_name component) (i_sku component) 1 0 False []
            # expectedComponents cids s)"

text \<open>The order and the cards of a call that succeeded.\<close>

definition createdOrder ::
  "(error + addr ManufacturingOrder \<times> addr ProductionCard list) \<times> Heap \<times> State
     \<Rightarrow> addr ManufacturingOrder option" where
  "createdOrder r = (case fst r of Inr (ord, crds) \<Rightarrow> Some ord | Inl e \<Rightarrow> None)"

definition createdCards ::
  "(error + addr ManufacturingOrder \<times> addr ProductionCard list) \<times> Heap \<times> State
     \<Rightarrow> addr ProductionCard list" where
  "createdCards r = (case fst r of Inr (ord, crds) \<Rightarrow> crds | Inl e \<Rightarrow> [])"

definition emptyHeap :: Heap where
  "emptyHeap = \<lparr>cells = Map.empty, nextAddr = 0\<rparr>"

text \<open>
  A request for three units of a model whose estimated manufacturing time is 0 hours,
  and a request for two units of model 10 of \<open>sample_stock\<close> (2 hours a unit; of its
  components 11 and 12 only 11 is in the stock).
\<close>

definition zero_time_stock :: State where
  "zero_time_stock =
     \<lparr>inventory = [10 \<mapsto> sample_item MODEL 7 (Some 0) []],
      orders = Map.empty, cards = Map.empty, nextId = 100\<rparr>"

definition zero_time_request :: CreateManufacturingOrderRequest where
  "zero_time_request =
     \<lparr>r_modelId = 10, r_quantity = 3, r_clientName = ''Clinic'', r_dueDate = 900000000,
      r_notes = None, r_componentIds = None\<rparr>"

definition sample_stock :: State where
  "sample_stock =
     \<lparr>inventory = [10 \<mapsto> sample_item MODEL 7 (Some 2) [11, 12],
                   11 \<mapsto> sample_item COMPONENT 3 None []],
      orders = Map.empty, cards = Map.empty, nextId = 100\<rparr>"

definition sample_request :: CreateManufacturingOrderRequest where
  "sample_request =
     \<lparr>r_modelId = 10, r_quantity = 2, r_clientName = '' Clinic '', r_dueDate = 900000000,
      r_notes = None, r_componentIds = None\<rparr>"

text \<open>
  A heap that holds one empty component array, and a request for a second card of
  order 1 with that array as its components.
\<close>

definition sample_card_heap :: Heap where
  "sample_card_heap = \<lparr>cells = [0 \<mapsto> ComponentArray []], nextAddr = 1\<rparr>"

definition sample_card_request :: CreateProductionCardRequest where
  "sample_card_request =
     \<lparr>q_orderId = 1, q_orderName = ''Clinic'', q_cardNumber = 2, q_totalCards = 5,
      q_modelId = 10, q_modelName = ''Trainer'', q_modelSku = ''MOD-1'',
      q_dueDate = 900000000, q_components = 0, q_notes = None, q_estimatedHours = 2,
      q_priority = None\<rparr>"

text \<open>
  What a card owes to the request it was created from, between the heap \<open>h\<close> at the
  time of the request and the heap \<open>h'\<close> afterwards.
\<close>

definition cardFromRequest :: "Heap \<Rightarrow> Heap \<Rightarrow> CreateProductionCardRequest \<Rightarrow> addr ProductionCard \<Rightarrow> bool" where
  "cardFromRequest h h' q c \<longleftrightarrow>
     c_cardNumber c = q_cardNumber q \<and> c_totalCards c = q_totalCards q
     \<and> c_estimatedHours c = q_estimatedHours q \<and> c_status c = CARD_PENDING
     \<and> c_orderId c = q_orderId q \<and> c_quantity c = 1
     \<and> stringify h' (c_components c) = stringify h (q_components q)"

section \<open>Rounding\<close>

lemma roundMinutes_round: "roundMinutes ms = round (real_of_int ms / 60000)"
proof -
  have e: "real_of_int ms / 60000 + 1 / 2 = real_of_int (ms + 30000) / real_of_int 60000"
    by simp
  have "round (real_of_int ms / 60000) = \<lfloor>real_of_int (ms + 30000) / real_of_int 60000\<rfloor>"
    by (simp only: round_def e)
  also have "\<dots> = (ms + 30000) div 60000"
    by (rule floor_divide_of_int_eq)
  finally show ?thesis by (simp add: roundMinutes_def)
qed

lemma roundMinutes_error: "\<bar>roundMinutes d * 60000 - d\<bar> \<le> 30000"
proof -
  have e: "d + 30000 = 60000 * ((d + 30000) div 60000) + (d + 30000) mod 60000"
    by simp
  have m: "0 \<le> (d + 30000) mod 60000" "(d + 30000) mod 60000 < 60000"
    by simp_all
  show ?thesis unfolding roundMinutes_def using e m by linarith
qed

section \<open>Completion\<close>

lemma Order_completeOrder_incomplete:
  assumes "orders s i = Some ord" "o_status ord = IN_PROGRESS \<or> o_status ord = PAUSED"
    "\<not> list_all isCompleted (o_components ord)"
  shows "Order_completeOrder now i s = (Inl ComponentsMissing, s)"
  using assms by (auto simp: Order_completeOrder_def Order_getOrderById_def OrderRepo_findById_def)

lemma Order_completeOrder_complete:
  assumes "orders s i = Some ord" "o_status ord = IN_PROGRESS \<or> o_status ord = PAUSED"
    "list_all isCompleted (o_components ord)"
  shows "Order_completeOrder now i s =
           (Inr (ord\<lparr>o_status := COMPLETED, o_completedAt := Some now, o_updatedAt := now\<rparr>),
            syncModelStock now (o_modelId ord) (o_quantity ord)
              (s\<lparr>orders := (orders s)(i \<mapsto> ord\<lparr>o_status := COMPLETED, o_completedAt := Some now, o_updatedAt := now\<rparr>)\<rparr>))"
  using assms by (auto simp: Order_completeOrder_def Order_getOrderById_def OrderRepo_findById_def
      OrderRepo_completeOrder_def Orders_findByIdAndUpdate_def)

lemma Card_completeCard_incomplete:
  assumes "cards s i = Some crd" "c_status crd = CARD_IN_PROGRESS \<or> c_status crd = CARD_PAUSED"
    "\<not> list_all isCompleted (c_components crd)"
  shows "Card_completeCard now i s = (Inl ComponentsMissing, s)"
  using assms by (auto simp: Card_completeCard_def Card_getCardById_def CardRepo_findById_def)

lemma Card_completeCard_complete:
  assumes "cards s i = Some crd" "c_status crd = CARD_IN_PROGRESS \<or> c_status crd = CARD_PAUSED"
    "list_all isCompleted (c_components crd)"
  shows "Card_completeCard now i s =
           (Inr (crd\<lparr>c_status := CARD_COMPLETED, c_completedAt := Some now, c_updatedAt := now\<rparr>),
            syncModelStock now (c_modelId crd) 1
              (s\<lparr>cards := (cards s)(i \<mapsto> crd\<lparr>c_status := CARD_COMPLETED, c_completedAt := Some now, c_updatedAt := now\<rparr>)\<rparr>))"
  using assms by (auto simp: Card_completeCard_def Card_getCardById_def CardRepo_findById_def
      CardRepo_completeCard_def Cards_findByIdAndUpdate_def)

lemma Order_complete_iff:
  assumes a: "orders s i = Some ord" "o_status ord = IN_PROGRESS \<or> o_status ord = PAUSED"
  shows "(\<exists>u s'. Order_completeOrder now i s = (Inr u, s') \<and> o_status u = COMPLETED)
         \<longleftrightarrow> list_all isCompleted (o_components ord)"
proof (cases "list_all isCompleted (o_components ord)")
  case True
  then show ?thesis using Order_completeOrder_complete[OF a True, of now] by simp
next
  case False
  then show ?thesis using Order_completeOrder_incomplete[OF a False, of now] by simp
qed

lemma Card_complete_iff:
  assumes a: "cards s i = Some crd" "c_status crd = CARD_IN_PROGRESS \<or> c_status crd = CARD_PAUSED"
  shows "(\<exists>u s'. Card_completeCard now i s = (Inr u, s') \<and> c_status u = CARD_COMPLETED)
         \<longleftrightarrow> list_all isCompleted (c_components crd)"
proof (cases "list_all isCompleted (c_components crd)")
  case True
  then show ?thesis using Card_completeCard_complete[OF a True, of now] by simp
next
  case False
  then show ?thesis using Card_completeCard_incomplete[OF a False, of now] by simp
qed

text \<open>
  Claim C3. For an order (a card) in status in progress or paused, \<^verbatim>\<open>completeOrder\<close>
  (\<^verbatim>\<open>completeCard\<close>) succeeds, leaving the status completed, if and only if every
  component has \<^verbatim>\<open>isCompleted\<close> set; when some component is not completed the call
  fails with an error of the kind \<open>InvalidState\<close> and the store is as it was before.
\<close>

theorem complete_iff_all_components_completed:
  "(orders s i = Some ord \<and> (o_status ord = IN_PROGRESS \<or> o_status ord = PAUSED) \<longrightarrow>
      ((\<exists>u s'. Order_completeOrder now i s = (Inr u, s') \<and> o_status u = COMPLETED)
         \<longleftrightarrow> list_all isCompleted (o_components ord))
      \<and> (\<not> list_all isCompleted (o_components ord) \<longrightarrow>
           (\<exists>e. Order_completeOrder now i s = (Inl e, s) \<and> errorKind e = InvalidState)))
   \<and> (cards s j = Some crd \<and> (c_status crd = CARD_IN_PROGRESS \<or> c_status crd = CARD_PAUSED) \<longrightarrow>
      ((\<exists>u s'. Card_completeCard now j s = (Inr u, s') \<and> c_status u = CARD_COMPLETED)
         \<longleftrightarrow> list_all isCompleted (c_components crd))
      \<and> (\<not> list_all isCompleted (c_components crd) \<longrightarrow>
           (\<exists>e. Card_completeCard now j s = (Inl e, s) \<and> errorKind e = InvalidState)))"
proof (intro conjI impI)
  assume "orders s i = Some ord \<and> (o_status ord = IN_PROGRESS \<or> o_status ord = PAUSED)"
  then show "(\<exists>u s'. Order_completeOrder now i s = (Inr u, s') \<and> o_status u = COMPLETED)
         \<longleftrightarrow> list_all isCompleted (o_components ord)"
    using Order_complete_iff by blast
next
  assume "orders s i = Some ord \<and> (o_status ord = IN_PROGRESS \<or> o_status ord = PAUSED)"
    and "\<not> list_all isCompleted (o_components ord)"
  then have "Order_completeOrder now i s = (Inl ComponentsMissing, s)"
    using Order_completeOrder_incomplete by blast
  then show "\<exists>e. Order_completeOrder now i s = (Inl e, s) \<and> errorKind e = InvalidState"
    by simp
next
  assume "cards s j = Some crd \<and> (c_status crd = CARD_IN_PROGRESS \<or> c_status crd = CARD_PAUSED)"
  then show "(\<exists>u s'. Card_completeCard now j s = (Inr u, s') \<and> c_status u = CARD_COMPLETED)
         \<longleftrightarrow> list_all isCompleted (c_components crd)"
    using Card_complete_iff by blast
next
  assume "cards s j = Some crd \<and> (c_status crd = CARD_IN_PROGRESS \<or> c_status crd = CARD_PAUSED)"
    and "\<not> list_all isCompleted (c_components crd)"
  then have "Card_completeCard now j s = (Inl ComponentsMissing, s)"
    using Card_completeCard_incomplete by blast
  then show "\<exists>e. Card_completeCard now j s = (Inl e, s) \<and> errorKind e = InvalidState"
    by simp
qed


text \<open>
  At the store \<open>sample_working\<close> the order in progress has an uncompleted component and
  the paused card has none.
\<close>

theorem complete_iff_all_components_completed_witness:
  "(\<exists>e. Order_completeOrder 7000 1 sample_working = (Inl e, sample_working)
        \<and> errorKind e = InvalidState)
   \<and> (\<exists>u s'. Card_completeCard 7000 1 sample_working = (Inr u, s') \<and> c_status u = CARD_COMPLETED)"
  using complete_iff_all_components_completed
          [of sample_working 1
              "sample_order IN_PROGRESS [sample_component 11 False (Some (freshTracker 1000))]
                 (Some (freshTracker 0))"
              7000 1
              "sample_card CARD_PAUSED [sample_component 11 True (Some sample_paused)]
                 (Some sample_paused)"]
  by (simp add: sample_working_def sample_state_def sample_order_def sample_card_def
        sample_component_def)

section \<open>Stock\<close>

lemma syncModelStock_missing:
  "inventory s mid = None \<Longrightarrow> syncModelStock now mid n s = s"
  by (simp add: syncModelStock_def Inventory_findById_def)

lemma syncModelStock_rejected:
  "inventory s mid = Some m \<Longrightarrow> i_quantity m + n < 0 \<Longrightarrow> syncModelStock now mid n s = s"
  by (simp add: syncModelStock_def Inventory_findById_def Inventory_updateQuantity_def)

lemma syncModelStock_written:
  "inventory s mid = Some m \<Longrightarrow> 0 \<le> i_quantity m + n \<Longrightarrow>
   syncModelStock now mid n s =
     s\<lparr>inventory := (inventory s)(mid \<mapsto> m\<lparr>i_quantity := i_quantity m + n, i_updatedAt := now\<rparr>)\<rparr>"
  by (simp add: syncModelStock_def Inventory_findById_def Inventory_updateQuantity_def Let_def)

lemma syncModelStock_orders [simp]: "orders (syncModelStock now mid n s) = orders s"
  by (auto simp: syncModelStock_def Inventory_findById_def Inventory_updateQuantity_def Let_def
      split: option.splits)

lemma syncModelStock_cards [simp]: "cards (syncModelStock now mid n s) = cards s"
  by (auto simp: syncModelStock_def Inventory_findById_def Inventory_updateQuantity_def Let_def
      split: option.splits)

lemma Order_completeOrder_Inr:
  assumes "Order_completeOrder now i s = (Inr u, s')" "orders s i = Some ord"
  shows "u = ord\<lparr>o_status := COMPLETED, o_completedAt := Some now, o_updatedAt := now\<rparr>
         \<and> s' = syncModelStock now (o_modelId ord) (o_quantity ord)
                  (s\<lparr>orders := (orders s)(i \<mapsto> u)\<rparr>)"
  using assms
  by (auto simp: Order_completeOrder_def Order_getOrderById_def OrderRepo_findById_def
      OrderRepo_completeOrder_def Orders_findByIdAndUpdate_def split: if_splits)

lemma Card_completeCard_Inr:
  assumes "Card_completeCard now i s = (Inr u, s')" "cards s i = Some crd"
  shows "u = crd\<lparr>c_status := CARD_COMPLETED, c_completedAt := Some now, c_updatedAt := now\<rparr>
         \<and> s' = syncModelStock now (c_modelId crd) 1 (s\<lparr>cards := (cards s)(i \<mapsto> u)\<rparr>)"
  using assms
  by (auto simp: Card_completeCard_def Card_getCardById_def CardRepo_findById_def
      CardRepo_completeCard_def Cards_findByIdAndUpdate_def split: if_splits)

lemma Order_completeOrder_inventory_free:
  "fst (Order_completeOrder now i (s\<lparr>inventory := stock\<rparr>)) = fst (Order_completeOrder now i s)"
  by (auto simp: Order_completeOrder_def Order_getOrderById_def OrderRepo_findById_def
      OrderRepo_completeOrder_def Orders_findByIdAndUpdate_def split: option.splits)

lemma Card_completeCard_inventory_free:
  "fst (Card_completeCard now i (s\<lparr>inventory := stock\<rparr>)) = fst (Card_completeCard now i s)"
  by (auto simp: Card_completeCard_def Card_getCardById_def CardRepo_findById_def
      CardRepo_completeCard_def Cards_findByIdAndUpdate_def split: option.splits)

lemma Order_completeOrder_stock:
  assumes r: "Order_completeOrder now i s = (Inr u, s')" and o: "orders s i = Some ord"
  shows "o_status u = COMPLETED \<and> orders s' i = Some u
     \<and> (\<forall>m. inventory s (o_modelId ord) = Some m \<and> 0 \<le> i_quantity m + o_quantity ord \<longrightarrow>
           map_option i_quantity (inventory s' (o_modelId ord))
             = Some (i_quantity m + o_quantity ord))
     \<and> (inventory s (o_modelId ord) = None
          \<or> (\<exists>m. inventory s (o_modelId ord) = Some m \<and> i_quantity m + o_quantity ord < 0)
        \<longrightarrow> inventory s' = inventory s)"
proof -
  let ?s1 = "s\<lparr>orders := (orders s)(i \<mapsto> u)\<rparr>"
  from Order_completeOrder_Inr[OF r o]
  have u: "u = ord\<lparr>o_status := COMPLETED, o_completedAt := Some now, o_updatedAt := now\<rparr>"
    and s': "s' = syncModelStock now (o_modelId ord) (o_quantity ord) ?s1"
    by simp_all
  have 1: "o_status u = COMPLETED" by (simp add: u)
  have 2: "orders s' i = Some u" by (simp add: s')
  have 3: "map_option i_quantity (inventory s' (o_modelId ord)) = Some (i_quantity m + o_quantity ord)"
    if "inventory s (o_modelId ord) = Some m" "0 \<le> i_quantity m + o_quantity ord" for m
    using that syncModelStock_written[of ?s1 "o_modelId ord" m "o_quantity ord" now]
    by (simp add: s')
  have 4: "inventory s' = inventory s" if "inventory s (o_modelId ord) = None"
    using that syncModelStock_missing[of ?s1 "o_modelId ord" now "o_quantity ord"]
    by (simp add: s')
  have 5: "inventory s' = inventory s"
    if "inventory s (o_modelId ord) = Some m" "i_quantity m + o_quantity ord < 0" for m
    using that syncModelStock_rejected[of ?s1 "o_modelId ord" m "o_quantity ord" now]
    by (simp add: s')
  show ?thesis using 1 2 3 4 5 by blast
qed

lemma Card_completeCard_stock:
  assumes r: "Card_completeCard now i s = (Inr u, s')" and o: "cards s i = Some crd"
  shows "c_status u = CARD_COMPLETED \<and> cards s' i = Some u
     \<and> (\<forall>m. inventory s (c_modelId crd) = Some m \<and> 0 \<le> i_quantity m + 1 \<longrightarrow>
           map_option i_quantity (inventory s' (c_modelId crd)) = Some (i_quantity m + 1))
     \<and> (inventory s (c_modelId crd) = None
          \<or> (\<exists>m. inventory s (c_modelId crd) = Some m \<and> i_quantity m + 1 < 0)
        \<longrightarrow> inventory s' = inventory s)"
proof -
  let ?s1 = "s\<lparr>cards := (cards s)(i \<mapsto> u)\<rparr>"
  from Card_completeCard_Inr[OF r o]
  have u: "u = crd\<lparr>c_status := CARD_COMPLETED, c_completedAt := Some now, c_updatedAt := now\<rparr>"
    and s': "s' = syncModelStock now (c_modelId crd) 1 ?s1"
    by simp_all
  have 1: "c_status u = CARD_COMPLETED" by (simp add: u)
  have 2: "cards s' i = Some u" by (simp add: s')
  have 3: "map_option i_quantity (inventory s' (c_modelId crd)) = Some (i_quantity m + 1)"
    if "inventory s (c_modelId crd) = Some m" "0 \<le> i_quantity m + 1" for m
    using that syncModelStock_written[of ?s1 "c_modelId crd" m 1 now]
    by (simp add: s')
  have 4: "inventory s' = inventory s" if "inventory s (c_modelId crd) = None"
    using that syncModelStock_missing[of ?s1 "c_modelId crd" now 1]
    by (simp add: s')
  have 5: "inventory s' = inventory s"
    if "inventory s (c_modelId crd) = Some m" "i_quantity m + 1 < 0" for m
    using that syncModelStock_rejected[of ?s1 "c_modelId crd" m 1 now]
    by (simp add: s')
  show ?thesis using 1 2 3 4 5 by blast
qed

text \<open>
  Claim C4. A successful \<^verbatim>\<open>completeOrder\<close> leaves the order completed and stored, and the
  stock of its model raised by the order's quantity when the model exists and the
  store accepts the new quantity; a successful \<^verbatim>\<open>completeCard\<close> does the same with 1 in
  place of the quantity, whatever the quantity of the card's order. When the model is
  missing or the write is rejected the stock stays as it was and the completion stands.
  The result of either call is the same for every content of the stock: an error of the
  stock update never reaches the caller.
\<close>

theorem completion_stock_best_effort:
  "(orders s i = Some ord \<and> Order_completeOrder now i s = (Inr u, s') \<longrightarrow>
      o_status u = COMPLETED \<and> orders s' i = Some u
      \<and> (\<forall>m. inventory s (o_modelId ord) = Some m \<and> 0 \<le> i_quantity m + o_quantity ord \<longrightarrow>
            map_option i_quantity (inventory s' (o_modelId ord))
              = Some (i_quantity m + o_quantity ord))
      \<and> (inventory s (o_modelId ord) = None
           \<or> (\<exists>m. inventory s (o_modelId ord) = Some m \<and> i_quantity m + o_quantity ord < 0)
         \<longrightarrow> inventory s' = inventory s))
   \<and> (cards s j = Some crd \<and> Card_completeCard now j s = (Inr v, t') \<longrightarrow>
      c_status v = CARD_COMPLETED \<and> cards t' j = Some v
      \<and> (\<forall>m. inventory s (c_modelId crd) = Some m \<and> 0 \<le> i_quantity m + 1 \<longrightarrow>
            map_option i_quantity (inventory t' (c_modelId crd)) = Some (i_quantity m + 1))
      \<and> (inventory s (c_modelId crd) = None
           \<or> (\<exists>m. inventory s (c_modelId crd) = Some m \<and> i_quantity m + 1 < 0)
         \<longrightarrow> inventory t' = inventory s))
   \<and> fst (Order_completeOrder now i (s\<lparr>inventory := stock\<rparr>)) = fst (Order_completeOrder now i s)
   \<and> fst (Card_completeCard now j (s\<lparr>inventory := stock\<rparr>)) = fst (Card_completeCard now j s)"
  using Order_completeOrder_stock[of now i s u s' ord] Card_completeCard_stock[of now j s v t' crd]
    Order_completeOrder_inventory_free[of now i stock s] Card_completeCard_inventory_free[of now j stock s]
  by blast


lemmas sample_defs =
  sample_state_def sample_order_def sample_card_def sample_component_def sample_item_def
  sample_paused_def freshTracker_def

text \<open>
  At the store \<open>sample_ready\<close> the model has 7 units in stock and the order asks for 5.
\<close>

theorem completion_stock_best_effort_witness:
  "map_option i_quantity (inventory (snd (Order_completeOrder 7000 1 sample_ready)) 10) = Some 12
   \<and> map_option i_quantity (inventory (snd (Card_completeCard 7000 1 sample_ready)) 10) = Some 8"
proof -
  let ?ord = "sample_order IN_PROGRESS [sample_component 11 True None] (Some (freshTracker 0))"
  let ?crd = "sample_card CARD_IN_PROGRESS [sample_component 11 True None] (Some (freshTracker 0))"
  let ?m = "sample_item MODEL 7 (Some 2) [11, 12]"
  have o: "orders sample_ready 1 = Some ?ord" and c: "cards sample_ready 1 = Some ?crd"
    and m: "inventory sample_ready 10 = Some ?m"
    by (simp_all add: sample_ready_def sample_state_def)
  have f: "o_modelId ?ord = 10" "o_quantity ?ord = 5" "c_modelId ?crd = 10" "i_quantity ?m = 7"
    "o_status ?ord = IN_PROGRESS" "c_status ?crd = CARD_IN_PROGRESS"
    "list_all isCompleted (o_components ?ord)" "list_all isCompleted (c_components ?crd)"
    by (simp_all add: sample_defs)
  obtain u s' where r: "Order_completeOrder 7000 1 sample_ready = (Inr u, s')"
    using Order_completeOrder_complete[OF o, of 7000] f by simp
  obtain v t' where q: "Card_completeCard 7000 1 sample_ready = (Inr v, t')"
    using Card_completeCard_complete[OF c, of 7000] f by simp
  from completion_stock_best_effort
         [where s = sample_ready and i = 1 and ord = ?ord and now = 7000 and u = u and s' = s'
            and j = 1 and crd = ?crd and v = v and t' = t']
  show ?thesis using o c m r q f by simp
qed

section \<open>Elapsed time\<close>

lemma elapsed_spec_alt:
  "elapsed_spec now st tt =
     max 0 (roundMinutes
              ((case pauseStartTime tt of
                  Some p \<Rightarrow> if isPaused tt then (now - st) - (now - p) else now - st
                | None \<Rightarrow> now - st) - totalPauseMinutes tt * 60 * 1000))"
  unfolding elapsed_spec_def roundMinutes_round
  by (auto split: option.splits simp: algebra_simps)

text \<open>
  Claim C5. For every tracker that has a start time and every query time, the
  elapsed-time query of an order, of a card, of a component of an order and of a
  component of a card returns
  \<open>max 0 (round (((now - startTime) - totalPauseMinutes * 60000 - running pause) / 60000))\<close>,
  where the running pause is \<open>now - pauseStartTime\<close> when the tracker is paused and has a
  pause start time, and 0 otherwise. The four queries agree for one tracker and one
  time, and the value is never negative.
\<close>

theorem elapsed_time_formula:
  "(orders s i = Some ord \<and> o_timeTracker ord = Some tt \<and> startTime tt = Some st
      \<longrightarrow> Order_getCurrentProductionTime now i s = Inr (elapsed_spec now st tt))
   \<and> (cards s j = Some crd \<and> c_timeTracker crd = Some tt \<and> startTime tt = Some st
      \<longrightarrow> Card_getCurrentProductionTime now j s = Inr (elapsed_spec now st tt))
   \<and> (orders s i = Some ord \<and> find (\<lambda>c. componentId c = cid) (o_components ord) = Some cp
        \<and> timeTracker cp = Some tt \<and> startTime tt = Some st
      \<longrightarrow> Order_getComponentProductionTime now i cid s = Inr (elapsed_spec now st tt))
   \<and> (cards s j = Some crd \<and> find (\<lambda>c. componentId c = cid) (c_components crd) = Some cp
        \<and> timeTracker cp = Some tt \<and> startTime tt = Some st
      \<longrightarrow> Card_getComponentProductionTime now j cid s = Inr (elapsed_spec now st tt))
   \<and> 0 \<le> elapsed_spec now st tt"
  unfolding Order_getCurrentProductionTime_def Card_getCurrentProductionTime_def
    Order_getComponentProductionTime_def Card_getComponentProductionTime_def
    OrderRepo_getCurrentProductionTime_def CardRepo_getCurrentProductionTime_def
    OrderRepo_getComponentProductionTime_def CardRepo_getComponentProductionTime_def
    elapsed_spec_alt nestedTracker_def
  by (auto simp: Let_def split: option.splits)

text \<open>
  The order of \<open>sample_working\<close> has run since time 0; its card was paused at minute 10
  after three earlier minutes of pause.
\<close>

theorem elapsed_time_formula_witness:
  "Order_getCurrentProductionTime 1234567 1 sample_working = Inr 21
   \<and> Card_getCurrentProductionTime 1500000 1 sample_working = Inr 7
   \<and> Order_getComponentProductionTime 1234567 1 11 sample_working = Inr 21
   \<and> Card_getComponentProductionTime 1500000 1 11 sample_working = Inr 7"
proof -
  let ?ord = "sample_order IN_PROGRESS [sample_component 11 False (Some (freshTracker 1000))]
                (Some (freshTracker 0))"
  let ?crd = "sample_card CARD_PAUSED [sample_component 11 True (Some sample_paused)]
                (Some sample_paused)"
  have o: "orders sample_working 1 = Some ?ord \<and> o_timeTracker ?ord = Some (freshTracker 0)"
    by (simp add: sample_working_def sample_state_def sample_order_def)
  have c: "cards sample_working 1 = Some ?crd \<and> c_timeTracker ?crd = Some sample_paused"
    by (simp add: sample_working_def sample_state_def sample_card_def)
  have oc: "find (\<lambda>c. componentId c = 11) (o_components ?ord)
              = Some (sample_component 11 False (Some (freshTracker 1000)))
            \<and> timeTracker (sample_component 11 False (Some (freshTracker 1000)))
              = Some (freshTracker 1000)"
    by (simp add: sample_order_def sample_component_def)
  have cc: "find (\<lambda>c. componentId c = 11) (c_components ?crd)
              = Some (sample_component 11 True (Some sample_paused))
            \<and> timeTracker (sample_component 11 True (Some sample_paused)) = Some sample_paused"
    by (simp add: sample_card_def sample_component_def)
  have st: "startTime (freshTracker 0) = Some 0" "startTime sample_paused = Some 0"
    "startTime (freshTracker 1000) = Some 1000"
    by (simp_all add: sample_defs)
  have e: "elapsed_spec 1234567 0 (freshTracker 0) = 21"
    "elapsed_spec 1500000 0 sample_paused = 7"
    "elapsed_spec 1234567 1000 (freshTracker 1000) = 21"
    by (simp_all add: elapsed_spec_alt roundMinutes_def sample_defs)
  note t1 = elapsed_time_formula[where s = sample_working and i = 1 and ord = ?ord
         and tt = "freshTracker 0" and st = 0 and now = 1234567]
  note t2 = elapsed_time_formula[where s = sample_working and j = 1 and crd = ?crd
         and tt = sample_paused and st = 0 and now = 1500000 and cid = 11
         and cp = "sample_component 11 True (Some sample_paused)"]
  note t3 = elapsed_time_formula[where s = sample_working and i = 1 and ord = ?ord
         and tt = "freshTracker 1000" and st = 1000 and now = 1234567 and cid = 11
         and cp = "sample_component 11 False (Some (freshTracker 1000))"]
  have 1: "Order_getCurrentProductionTime 1234567 1 sample_working = Inr 21"
    using t1 o st(1) e(1) by simp
  have 2: "Card_getCurrentProductionTime 1500000 1 sample_working = Inr 7"
    using t2 c st(2) e(2) by simp
  have 3: "Order_getComponentProductionTime 1234567 1 11 sample_working = Inr 21"
    using t3 o oc st(3) e(3) by simp
  have 4: "Card_getComponentProductionTime 1500000 1 11 sample_working = Inr 7"
    using t2 c cc st(2) e(2) by simp
  show ?thesis using 1 2 3 4 by simp
qed

text \<open>
  Where the guard of a query finds no document, no component or no tracker, the query
  returns 0. For the tracker of a card the guard finds no such case.
\<close>

lemma elapsed_query_guarded_zero:
  "(orders s i = None \<longrightarrow> Order_getCurrentProductionTime now i s = Inr 0
                         \<and> Order_getComponentProductionTime now i cid s = Inr 0)
   \<and> (orders s i = Some ord \<and> o_timeTracker ord = None
        \<longrightarrow> Order_getCurrentProductionTime now i s = Inr 0)
   \<and> (orders s i = Some ord \<and> find (\<lambda>c. componentId c = cid) (o_components ord) = None
        \<longrightarrow> Order_getComponentProductionTime now i cid s = Inr 0)
   \<and> (orders s i = Some ord \<and> find (\<lambda>c. componentId c = cid) (o_components ord) = Some cp
        \<and> timeTracker cp = None
        \<longrightarrow> Order_getComponentProductionTime now i cid s = Inr 0)
   \<and> (cards s j = None \<longrightarrow> Card_getCurrentProductionTime now j s = Inr 0
                        \<and> Card_getComponentProductionTime now j cid s = Inr 0)
   \<and> (cards s j = Some crd \<and> find (\<lambda>c. componentId c = cid) (c_components crd) = None
        \<longrightarrow> Card_getComponentProductionTime now j cid s = Inr 0)
   \<and> (cards s j = Some crd \<and> find (\<lambda>c. componentId c = cid) (c_components crd) = Some cq
        \<and> timeTracker cq = None
        \<longrightarrow> Card_getComponentProductionTime now j cid s = Inr 0)"
  unfolding Order_getCurrentProductionTime_def Card_getCurrentProductionTime_def
    Order_getComponentProductionTime_def Card_getComponentProductionTime_def
    OrderRepo_getCurrentProductionTime_def CardRepo_getCurrentProductionTime_def
    OrderRepo_getComponentProductionTime_def CardRepo_getComponentProductionTime_def
  by simp

text \<open>
  A query that passes its guard fails when the tracker has no start time. The query of
  a card does so for every card nothing was written to under \<^verbatim>\<open>timeTracker\<close>.
\<close>

lemma elapsed_query_without_startTime:
  "(orders s i = Some ord \<and> o_timeTracker ord = Some tt \<and> startTime tt = None
      \<longrightarrow> Order_getCurrentProductionTime now i s = Inl StartTimeUndefined)
   \<and> (cards s j = Some crd \<and> startTime (nestedTracker (c_timeTracker crd)) = None
      \<longrightarrow> Card_getCurrentProductionTime now j s = Inl StartTimeUndefined)
   \<and> (cards s j = Some crd \<and> c_timeTracker crd = None
      \<longrightarrow> Card_getCurrentProductionTime now j s = Inl StartTimeUndefined)
   \<and> (orders s i = Some ord \<and> find (\<lambda>c. componentId c = cid) (o_components ord) = Some cp
        \<and> timeTracker cp = Some tt \<and> startTime tt = None
      \<longrightarrow> Order_getComponentProductionTime now i cid s = Inl StartTimeUndefined)
   \<and> (cards s j = Some crd \<and> find (\<lambda>c. componentId c = cid) (c_components crd) = Some cp
        \<and> timeTracker cp = Some tt \<and> startTime tt = None
      \<longrightarrow> Card_getComponentProductionTime now j cid s = Inl StartTimeUndefined)"
  unfolding Order_getCurrentProductionTime_def Card_getCurrentProductionTime_def
    Order_getComponentProductionTime_def Card_getComponentProductionTime_def
    OrderRepo_getCurrentProductionTime_def CardRepo_getCurrentProductionTime_def
    OrderRepo_getComponentProductionTime_def CardRepo_getComponentProductionTime_def
  by (simp add: Let_def nestedTracker_def blankTracker_def)

section \<open>Pause and resume\<close>

lemma Order_pauseProduction_ok:
  assumes "orders s i = Some ord" "o_status ord = IN_PROGRESS" "o_timeTracker ord = Some tt"
  shows "Order_pauseProduction now i s =
           (Inr (ord\<lparr>o_status := PAUSED,
                     o_timeTracker := Some (tt\<lparr>isPaused := True, pauseStartTime := Some now\<rparr>),
                     o_updatedAt := now\<rparr>),
            s\<lparr>orders := (orders s)(i \<mapsto> ord\<lparr>o_status := PAUSED,
                     o_timeTracker := Some (tt\<lparr>isPaused := True, pauseStartTime := Some now\<rparr>),
                     o_updatedAt := now\<rparr>)\<rparr>)"
  using assms
  by (simp add: Order_pauseProduction_def Order_getOrderById_def OrderRepo_findById_def
      OrderRepo_pauseProduction_def Orders_findByIdAndUpdate_def orThrow_def setPaused_def)

lemma Order_resumeProduction_ok:
  assumes "orders s i = Some ord" "o_status ord = PAUSED" "o_timeTracker ord = Some tt"
    "pauseStartTime tt = Some p"
  shows "Order_resumeProduction now i s =
           (Inr (ord\<lparr>o_status := IN_PROGRESS,
                     o_timeTracker := Some (tt\<lparr>isPaused := False,
                        totalPauseMinutes := totalPauseMinutes tt + roundMinutes (now - p),
                        pauseStartTime := None\<rparr>),
                     o_updatedAt := now\<rparr>),
            s\<lparr>orders := (orders s)(i \<mapsto> ord\<lparr>o_status := IN_PROGRESS,
                     o_timeTracker := Some (tt\<lparr>isPaused := False,
                        totalPauseMinutes := totalPauseMinutes tt + roundMinutes (now - p),
                        pauseStartTime := None\<rparr>),
                     o_updatedAt := now\<rparr>)\<rparr>)"
  using assms
  by (simp add: Order_resumeProduction_def Order_getOrderById_def OrderRepo_findById_def
      OrderRepo_resumeProduction_def Orders_findByIdAndUpdate_def orThrow_def setResumed_def
      Let_def)

lemma Card_pauseProduction_ok:
  assumes "cards s i = Some crd" "c_status crd = CARD_IN_PROGRESS" "c_timeTracker crd = Some tt"
  shows "Card_pauseProduction now i s =
           (Inr (crd\<lparr>c_status := CARD_PAUSED,
                     c_timeTracker := Some (tt\<lparr>isPaused := True, pauseStartTime := Some now\<rparr>),
                     c_updatedAt := now\<rparr>),
            s\<lparr>cards := (cards s)(i \<mapsto> crd\<lparr>c_status := CARD_PAUSED,
                     c_timeTracker := Some (tt\<lparr>isPaused := True, pauseStartTime := Some now\<rparr>),
                     c_updatedAt := now\<rparr>)\<rparr>)"
  using assms
  by (simp add: Card_pauseProduction_def Card_getCardById_def CardRepo_findById_def
      CardRepo_pauseProduction_def Cards_findByIdAndUpdate_def orThrow_def setPaused_def)

lemma Card_resumeProduction_ok:
  assumes "cards s i = Some crd" "c_status crd = CARD_PAUSED" "c_timeTracker crd = Some tt"
    "pauseStartTime tt = Some p"
  shows "Card_resumeProduction now i s =
           (Inr (crd\<lparr>c_status := CARD_IN_PROGRESS,
                     c_timeTracker := Some (tt\<lparr>isPaused := False,
                        totalPauseMinutes := totalPauseMinutes tt + roundMinutes (now - p),
                        pauseStartTime := None\<rparr>),
                     c_updatedAt := now\<rparr>),
            s\<lparr>cards := (cards s)(i \<mapsto> crd\<lparr>c_status := CARD_IN_PROGRESS,
                     c_timeTracker := Some (tt\<lparr>isPaused := False,
                        totalPauseMinutes := totalPauseMinutes tt + roundMinutes (now - p),
                        pauseStartTime := None\<rparr>),
                     c_updatedAt := now\<rparr>)\<rparr>)"
  using assms
  by (simp add: Card_resumeProduction_def Card_getCardById_def CardRepo_findById_def
      CardRepo_resumeProduction_def Cards_findByIdAndUpdate_def orThrow_def setResumed_def
      nestedTracker_def Let_def)

lemma pausedMinutes_Cons:
  "pausedMinutes ((p, r) # cs) = roundMinutes (r - p) + pausedMinutes cs"
  by (simp add: pausedMinutes_def roundMinutes_round)

lemma Order_cycles_accumulate:
  "orders s i = Some ord \<Longrightarrow> o_status ord = IN_PROGRESS \<Longrightarrow> o_timeTracker ord = Some tt \<Longrightarrow>
   \<exists>s' u tt'. Order_pauseResumeCycles cs i s = (Inr (), s') \<and> orders s' i = Some u
      \<and> o_status u = IN_PROGRESS \<and> o_timeTracker u = Some tt'
      \<and> totalPauseMinutes tt' = totalPauseMinutes tt + pausedMinutes cs
      \<and> startTime tt' = startTime tt"
proof (induction cs arbitrary: s ord tt)
  case Nil
  then show ?case by (simp add: pausedMinutes_def)
next
  case (Cons c cs)
  obtain p r where c: "c = (p, r)" by (cases c)
  let ?tt1 = "tt\<lparr>isPaused := True, pauseStartTime := Some p\<rparr>"
  let ?o1 = "ord\<lparr>o_status := PAUSED, o_timeTracker := Some ?tt1, o_updatedAt := p\<rparr>"
  let ?s1 = "s\<lparr>orders := (orders s)(i \<mapsto> ?o1)\<rparr>"
  let ?tt2 = "?tt1\<lparr>isPaused := False,
                totalPauseMinutes := totalPauseMinutes ?tt1 + roundMinutes (r - p),
                pauseStartTime := None\<rparr>"
  let ?o2 = "?o1\<lparr>o_status := IN_PROGRESS, o_timeTracker := Some ?tt2, o_updatedAt := r\<rparr>"
  let ?s2 = "?s1\<lparr>orders := (orders ?s1)(i \<mapsto> ?o2)\<rparr>"
  have 1: "Order_pauseProduction p i s = (Inr ?o1, ?s1)"
    using Order_pauseProduction_ok[OF Cons.prems] by simp
  have 2: "Order_resumeProduction r i ?s1 = (Inr ?o2, ?s2)"
    by (rule Order_resumeProduction_ok[where ord = ?o1 and tt = ?tt1]) simp_all
  have "\<exists>s' u tt'. Order_pauseResumeCycles cs i ?s2 = (Inr (), s') \<and> orders s' i = Some u
      \<and> o_status u = IN_PROGRESS \<and> o_timeTracker u = Some tt'
      \<and> totalPauseMinutes tt' = totalPauseMinutes ?tt2 + pausedMinutes cs
      \<and> startTime tt' = startTime ?tt2"
    by (rule Cons.IH[where ord = ?o2 and tt = ?tt2]) simp_all
  then obtain s' u tt' where
    3: "Order_pauseResumeCycles cs i ?s2 = (Inr (), s')" "orders s' i = Some u"
       "o_status u = IN_PROGRESS" "o_timeTracker u = Some tt'"
       "totalPauseMinutes tt' = totalPauseMinutes ?tt2 + pausedMinutes cs"
       "startTime tt' = startTime ?tt2"
    by blast
  have "Order_pauseResumeCycles (c # cs) i s = (Inr (), s')"
    unfolding c by (simp only: Order_pauseResumeCycles.simps 1 2 3(1) prod.case sum.case)
  moreover have "totalPauseMinutes tt' = totalPauseMinutes tt + pausedMinutes (c # cs)"
    using 3(5) by (simp add: c pausedMinutes_Cons)
  moreover have "startTime tt' = startTime tt" using 3(6) by simp
  ultimately show ?case using 3(2,3,4) by blast
qed

lemma Card_cycles_accumulate:
  "cards s i = Some crd \<Longrightarrow> c_status crd = CARD_IN_PROGRESS \<Longrightarrow> c_timeTracker crd = Some tt \<Longrightarrow>
   \<exists>s' u tt'. Card_pauseResumeCycles cs i s = (Inr (), s') \<and> cards s' i = Some u
      \<and> c_status u = CARD_IN_PROGRESS \<and> c_timeTracker u = Some tt'
      \<and> totalPauseMinutes tt' = totalPauseMinutes tt + pausedMinutes cs
      \<and> startTime tt' = startTime tt"
proof (induction cs arbitrary: s crd tt)
  case Nil
  then show ?case by (simp add: pausedMinutes_def)
next
  case (Cons c cs)
  obtain p r where c: "c = (p, r)" by (cases c)
  let ?tt1 = "tt\<lparr>isPaused := True, pauseStartTime := Some p\<rparr>"
  let ?o1 = "crd\<lparr>c_status := CARD_PAUSED, c_timeTracker := Some ?tt1, c_updatedAt := p\<rparr>"
  let ?s1 = "s\<lparr>cards := (cards s)(i \<mapsto> ?o1)\<rparr>"
  let ?tt2 = "?tt1\<lparr>isPaused := False,
                totalPauseMinutes := totalPauseMinutes ?tt1 + roundMinutes (r - p),
                pauseStartTime := None\<rparr>"
  let ?o2 = "?o1\<lparr>c_status := CARD_IN_PROGRESS, c_timeTracker := Some ?tt2, c_updatedAt := r\<rparr>"
  let ?s2 = "?s1\<lparr>cards := (cards ?s1)(i \<mapsto> ?o2)\<rparr>"
  have 1: "Card_pauseProduction p i s = (Inr ?o1, ?s1)"
    using Card_pauseProduction_ok[OF Cons.prems] by simp
  have 2: "Card_resumeProduction r i ?s1 = (Inr ?o2, ?s2)"
    by (rule Card_resumeProduction_ok[where crd = ?o1 and tt = ?tt1]) simp_all
  have "\<exists>s' u tt'. Card_pauseResumeCycles cs i ?s2 = (Inr (), s') \<and> cards s' i = Some u
      \<and> c_status u = CARD_IN_PROGRESS \<and> c_timeTracker u = Some tt'
      \<and> totalPauseMinutes tt' = totalPauseMinutes ?tt2 + pausedMinutes cs
      \<and> startTime tt' = startTime ?tt2"
    by (rule Cons.IH[where crd = ?o2 and tt = ?tt2]) simp_all
  then obtain s' u tt' where
    3: "Card_pauseResumeCycles cs i ?s2 = (Inr (), s')" "cards s' i = Some u"
       "c_status u = CARD_IN_PROGRESS" "c_timeTracker u = Some tt'"
       "totalPauseMinutes tt' = totalPauseMinutes ?tt2 + pausedMinutes cs"
       "startTime tt' = startTime ?tt2"
    by blast
  have "Card_pauseResumeCycles (c # cs) i s = (Inr (), s')"
    unfolding c by (simp only: Card_pauseResumeCycles.simps 1 2 3(1) prod.case sum.case)
  moreover have "totalPauseMinutes tt' = totalPauseMinutes tt + pausedMinutes (c # cs)"
    using 3(5) by (simp add: c pausedMinutes_Cons)
  moreover have "startTime tt' = startTime tt" using 3(6) by simp
  ultimately show ?case using 3(2,3,4) by blast
qed

lemma pausedMinutes_rounding:
  "\<bar>pausedMinutes cs * 60000 - pausedMillis cs\<bar> \<le> 30000 * int (length cs)"
proof (induction cs)
  case Nil
  show ?case by (simp add: pausedMinutes_def pausedMillis_def)
next
  case (Cons c cs)
  obtain p r where c: "c = (p, r)" by (cases c)
  have 1: "pausedMinutes (c # cs) = roundMinutes (r - p) + pausedMinutes cs"
    by (simp add: c pausedMinutes_Cons)
  have 2: "pausedMillis (c # cs) = (r - p) + pausedMillis cs"
    by (simp add: c pausedMillis_def)
  have 3: "\<bar>roundMinutes (r - p) * 60000 - (r - p)\<bar> \<le> 30000"
    by (rule roundMinutes_error)
  have 4: "pausedMinutes (c # cs) * 60000 - pausedMillis (c # cs)
           = (roundMinutes (r - p) * 60000 - (r - p))
             + (pausedMinutes cs * 60000 - pausedMillis cs)"
    unfolding 1 2 by (simp add: algebra_simps)
  have 5: "30000 * int (length (c # cs)) = 30000 + 30000 * int (length cs)"
    by simp
  show ?case unfolding 4 5 using 3 Cons.IH by linarith
qed

text \<open>
  Claim C6. Resuming a paused order or card whose tracker has a pause start time adds
  \<open>round ((now - pauseStartTime) / 60000)\<close> to \<open>totalPauseMinutes\<close>, clears
  \<open>pauseStartTime\<close> and unsets \<open>isPaused\<close>. Every run of pause and resume cycles on a
  document in progress succeeds and adds to \<open>totalPauseMinutes\<close> the sum of the rounded
  lengths of its pauses, each counted once; that sum is within half a minute for each
  cycle of the time paused.
\<close>

theorem resume_accumulates_pause_minutes:
  "(orders s i = Some ord \<and> o_status ord = PAUSED \<and> o_timeTracker ord = Some tt
      \<and> pauseStartTime tt = Some p \<longrightarrow>
      (\<exists>u s'. Order_resumeProduction now i s = (Inr u, s') \<and> orders s' i = Some u
         \<and> o_timeTracker u =
             Some (tt\<lparr>isPaused := False,
                      totalPauseMinutes :=
                        totalPauseMinutes tt + round (real_of_int (now - p) / 60000),
                      pauseStartTime := None\<rparr>)))
   \<and> (cards s j = Some crd \<and> c_status crd = CARD_PAUSED \<and> c_timeTracker crd = Some tc
      \<and> pauseStartTime tc = Some q \<longrightarrow>
      (\<exists>u s'. Card_resumeProduction now j s = (Inr u, s') \<and> cards s' j = Some u
         \<and> c_timeTracker u =
             Some (tc\<lparr>isPaused := False,
                      totalPauseMinutes :=
                        totalPauseMinutes tc + round (real_of_int (now - q) / 60000),
                      pauseStartTime := None\<rparr>)))
   \<and> (orders s i = Some ord \<and> o_status ord = IN_PROGRESS \<and> o_timeTracker ord = Some tt \<longrightarrow>
      (\<exists>s' u tt'. Order_pauseResumeCycles cs i s = (Inr (), s') \<and> orders s' i = Some u
         \<and> o_status u = IN_PROGRESS \<and> o_timeTracker u = Some tt'
         \<and> totalPauseMinutes tt' = totalPauseMinutes tt + pausedMinutes cs
         \<and> startTime tt' = startTime tt))
   \<and> (cards s j = Some crd \<and> c_status crd = CARD_IN_PROGRESS \<and> c_timeTracker crd = Some tc \<longrightarrow>
      (\<exists>s' u tt'. Card_pauseResumeCycles cs j s = (Inr (), s') \<and> cards s' j = Some u
         \<and> c_status u = CARD_IN_PROGRESS \<and> c_timeTracker u = Some tt'
         \<and> totalPauseMinutes tt' = totalPauseMinutes tc + pausedMinutes cs
         \<and> startTime tt' = startTime tc))
   \<and> \<bar>pausedMinutes cs * 60000 - pausedMillis cs\<bar> \<le> 30000 * int (length cs)"
proof (intro conjI impI)
  assume "orders s i = Some ord \<and> o_status ord = PAUSED \<and> o_timeTracker ord = Some tt
      \<and> pauseStartTime tt = Some p"
  then show "\<exists>u s'. Order_resumeProduction now i s = (Inr u, s') \<and> orders s' i = Some u
         \<and> o_timeTracker u =
             Some (tt\<lparr>isPaused := False,
                      totalPauseMinutes :=
                        totalPauseMinutes tt + round (real_of_int (now - p) / 60000),
                      pauseStartTime := None\<rparr>)"
    using Order_resumeProduction_ok[of s i ord tt p now] by (simp add: roundMinutes_round)
next
  assume "cards s j = Some crd \<and> c_status crd = CARD_PAUSED \<and> c_timeTracker crd = Some tc
      \<and> pauseStartTime tc = Some q"
  then show "\<exists>u s'. Card_resumeProduction now j s = (Inr u, s') \<and> cards s' j = Some u
         \<and> c_timeTracker u =
             Some (tc\<lparr>isPaused := False,
                      totalPauseMinutes :=
                        totalPauseMinutes tc + round (real_of_int (now - q) / 60000),
                      pauseStartTime := None\<rparr>)"
    using Card_resumeProduction_ok[of s j crd tc q now] by (simp add: roundMinutes_round)
next
  assume "orders s i = Some ord \<and> o_status ord = IN_PROGRESS \<and> o_timeTracker ord = Some tt"
  then show "\<exists>s' u tt'. Order_pauseResumeCycles cs i s = (Inr (), s') \<and> orders s' i = Some u
         \<and> o_status u = IN_PROGRESS \<and> o_timeTracker u = Some tt'
         \<and> totalPauseMinutes tt' = totalPauseMinutes tt + pausedMinutes cs
         \<and> startTime tt' = startTime tt"
    using Order_cycles_accumulate by blast
next
  assume "cards s j = Some crd \<and> c_status crd = CARD_IN_PROGRESS \<and> c_timeTracker crd = Some tc"
  then show "\<exists>s' u tt'. Card_pauseResumeCycles cs j s = (Inr (), s') \<and> cards s' j = Some u
         \<and> c_status u = CARD_IN_PROGRESS \<and> c_timeTracker u = Some tt'
         \<and> totalPauseMinutes tt' = totalPauseMinutes tc + pausedMinutes cs
         \<and> startTime tt' = startTime tc"
    using Card_cycles_accumulate by blast
next
  show "\<bar>pausedMinutes cs * 60000 - pausedMillis cs\<bar> \<le> 30000 * int (length cs)"
    by (rule pausedMinutes_rounding)
qed


text \<open>
  At \<open>sample_halted\<close> the pause began at minute 10 with 3 minutes accumulated; at
  \<open>sample_ready\<close> nothing was paused before the two cycles.
\<close>

theorem resume_accumulates_pause_minutes_witness:
  "(\<exists>u s'. Order_resumeProduction 1500000 1 sample_halted = (Inr u, s')
       \<and> map_option totalPauseMinutes (o_timeTracker u) = Some 18)
   \<and> (\<exists>u s'. Card_resumeProduction 1500000 1 sample_halted = (Inr u, s')
       \<and> map_option totalPauseMinutes (c_timeTracker u) = Some 18)
   \<and> (\<exists>s' u. Order_pauseResumeCycles [(100000, 400000), (500000, 530000)] 1 sample_ready
                = (Inr (), s')
       \<and> orders s' 1 = Some u \<and> map_option totalPauseMinutes (o_timeTracker u) = Some 6)
   \<and> (\<exists>s' u. Card_pauseResumeCycles [(100000, 400000), (500000, 530000)] 1 sample_ready
                = (Inr (), s')
       \<and> cards s' 1 = Some u \<and> map_option totalPauseMinutes (c_timeTracker u) = Some 6)"
proof -
  let ?oh = "sample_order PAUSED [sample_component 11 False None] (Some sample_paused)"
  let ?ch = "sample_card CARD_PAUSED [sample_component 11 False None] (Some sample_paused)"
  let ?or = "sample_order IN_PROGRESS [sample_component 11 True None] (Some (freshTracker 0))"
  let ?cr = "sample_card CARD_IN_PROGRESS [sample_component 11 True None] (Some (freshTracker 0))"
  let ?cs = "[(100000, 400000), (500000, 530000)] :: (time \<times> time) list"
  have h: "orders sample_halted 1 = Some ?oh \<and> o_status ?oh = PAUSED
             \<and> o_timeTracker ?oh = Some sample_paused \<and> pauseStartTime sample_paused = Some 600000"
          "cards sample_halted 1 = Some ?ch \<and> c_status ?ch = CARD_PAUSED
             \<and> c_timeTracker ?ch = Some sample_paused \<and> pauseStartTime sample_paused = Some 600000"
    by (simp_all add: sample_halted_def sample_defs)
  have r: "orders sample_ready 1 = Some ?or \<and> o_status ?or = IN_PROGRESS
             \<and> o_timeTracker ?or = Some (freshTracker 0)"
          "cards sample_ready 1 = Some ?cr \<and> c_status ?cr = CARD_IN_PROGRESS
             \<and> c_timeTracker ?cr = Some (freshTracker 0)"
    by (simp_all add: sample_ready_def sample_defs)
  have n: "round (real_of_int (1500000 - 600000) / 60000) = 15"
    using roundMinutes_round[of 900000] by (simp add: roundMinutes_def)
  have m: "pausedMinutes ?cs = 6"
    by (simp add: pausedMinutes_Cons roundMinutes_def) (simp add: pausedMinutes_def)
  have t: "totalPauseMinutes sample_paused = 3" "totalPauseMinutes (freshTracker 0) = 0"
    by (simp_all add: sample_defs)
  note thm1 = resume_accumulates_pause_minutes
         [where s = sample_halted and i = 1 and j = 1 and ord = ?oh and crd = ?ch
            and tt = sample_paused and tc = sample_paused and p = 600000 and q = 600000
            and now = 1500000]
  note thm2 = resume_accumulates_pause_minutes
         [where s = sample_ready and i = 1 and j = 1 and ord = ?or and crd = ?cr
            and tt = "freshTracker 0" and tc = "freshTracker 0" and cs = ?cs]
  from thm1 h(1) obtain u s' where
    a1: "Order_resumeProduction 1500000 1 sample_halted = (Inr u, s')" and
    a2: "o_timeTracker u =
           Some (sample_paused\<lparr>isPaused := False,
                   totalPauseMinutes :=
                     totalPauseMinutes sample_paused
                       + round (real_of_int (1500000 - 600000) / 60000),
                   pauseStartTime := None\<rparr>)"
    by blast
  have a: "\<exists>u s'. Order_resumeProduction 1500000 1 sample_halted = (Inr u, s')
       \<and> map_option totalPauseMinutes (o_timeTracker u) = Some 18"
    by (intro exI conjI, rule a1) (simp add: a2 n t)
  from thm1 h(2) obtain v t' where
    b1: "Card_resumeProduction 1500000 1 sample_halted = (Inr v, t')" and
    b2: "c_timeTracker v =
           Some (sample_paused\<lparr>isPaused := False,
                   totalPauseMinutes :=
                     totalPauseMinutes sample_paused
                       + round (real_of_int (1500000 - 600000) / 60000),
                   pauseStartTime := None\<rparr>)"
    by blast
  have b: "\<exists>u s'. Card_resumeProduction 1500000 1 sample_halted = (Inr u, s')
       \<and> map_option totalPauseMinutes (c_timeTracker u) = Some 18"
    by (intro exI conjI, rule b1) (simp add: b2 n t)
  from thm2 r(1) obtain s2 u2 tt2 where
    c1: "Order_pauseResumeCycles ?cs 1 sample_ready = (Inr (), s2)" and
    c2: "orders s2 1 = Some u2" and c3: "o_timeTracker u2 = Some tt2" and
    c4: "totalPauseMinutes tt2 = totalPauseMinutes (freshTracker 0) + pausedMinutes ?cs"
    by blast
  have c: "\<exists>s' u. Order_pauseResumeCycles ?cs 1 sample_ready = (Inr (), s')
       \<and> orders s' 1 = Some u \<and> map_option totalPauseMinutes (o_timeTracker u) = Some 6"
    by (intro exI conjI, rule c1, rule c2) (simp add: c3 c4 m t)
  from thm2 r(2) obtain s3 u3 tt3 where
    d1: "Card_pauseResumeCycles ?cs 1 sample_ready = (Inr (), s3)" and
    d2: "cards s3 1 = Some u3" and d3: "c_timeTracker u3 = Some tt3" and
    d4: "totalPauseMinutes tt3 = totalPauseMinutes (freshTracker 0) + pausedMinutes ?cs"
    by blast
  have d: "\<exists>s' u. Card_pauseResumeCycles ?cs 1 sample_ready = (Inr (), s')
       \<and> cards s' 1 = Some u \<and> map_option totalPauseMinutes (c_timeTracker u) = Some 6"
    by (intro exI conjI, rule d1, rule d2) (simp add: d3 d4 m t)
  show ?thesis using a b c d by blast
qed

section \<open>Unguarded paths\<close>

text \<open>
  Claim C2 says that every operation on a completed or cancelled order or card fails and
  leaves it unchanged. At the store \<open>sample_terminal\<close> the guarded use cases do fail:
  \<^verbatim>\<open>startComponentProduction\<close> on the completed order and \<^verbatim>\<open>completeComponent\<close> on the
  cancelled card. But \<^verbatim>\<open>addMaterialToComponent\<close> on the completed order succeeds and
  appends the entry to the component, and \<^verbatim>\<open>pauseComponentProduction\<close> on the cancelled
  card succeeds and pauses the timer of the component: neither use case looks at the
  status.
\<close>

theorem terminal_documents_still_mutable:
  "Order_startComponentProduction 9000 1 11 sample_terminal
     = (Inl OnlyActiveCanStartComponent, sample_terminal)
   \<and> Card_completeComponent 9000 1 11 sample_terminal
     = (Inl OnlyActiveCanCompleteComponent, sample_terminal)
   \<and> fst (Order_addMaterialToComponent 9000 1 11 20 2 (Some 3) sample_terminal)
     = Inr ((sample_order COMPLETED
               [(sample_component 11 True (Some (freshTracker 1000)))
                  \<lparr>materialUsage :=
                     [\<lparr>materialId = 20, materialName = ''Item'', materialSku = ''SKU-1'',
                       plannedQuantity = 2, actualQuantity = 3, mu_unit = ''unidad'',
                       mu_notes = None, adjustedBy = None, adjustedAt = None\<rparr>]\<rparr>]
               (Some (freshTracker 0)))\<lparr>o_updatedAt := 9000\<rparr>)
   \<and> orders (snd (Order_addMaterialToComponent 9000 1 11 20 2 (Some 3) sample_terminal)) 1
       \<noteq> orders sample_terminal 1
   \<and> fst (Card_pauseComponentProduction 9000 1 11 sample_terminal)
     = Inr ((sample_card CARD_CANCELLED
               [sample_component 11 False
                  (Some ((freshTracker 1000)\<lparr>isPaused := True, pauseStartTime := Some 9000\<rparr>))]
               (Some (freshTracker 0)))\<lparr>c_updatedAt := 9000\<rparr>)
   \<and> cards (snd (Card_pauseComponentProduction 9000 1 11 sample_terminal)) 1
       \<noteq> cards sample_terminal 1"
  by (simp add: Order_startComponentProduction_def Card_completeComponent_def
      Card_getCardById_def CardRepo_findById_def
      Order_addMaterialToComponent_def Order_getOrderById_def OrderRepo_findById_def
      Inventory_findById_def OrderRepo_addMaterialToComponent_def
      Orders_findOneAndUpdateComponent_def Card_pauseComponentProduction_def
      CardRepo_pauseComponentProduction_def Cards_findOneAndUpdateComponent_def orThrow_def
      setPaused_def sample_terminal_def sample_defs Let_def)

text \<open>
  Claim C7 says that cancelling a cancelled order or card fails with \<open>InvalidState\<close>.
  \<^verbatim>\<open>cancelOrder\<close> does; \<^verbatim>\<open>cancelCard\<close> on a cancelled card succeeds and writes the card
  again.
\<close>

theorem cancel_guard_differs_on_cards:
  "Order_cancelOrder 9000 1
     (sample_state (sample_order CANCELLED [] None) (sample_card CARD_CANCELLED [] None))
     = (Inl AlreadyCancelled,
        sample_state (sample_order CANCELLED [] None) (sample_card CARD_CANCELLED [] None))
   \<and> errorKind AlreadyCancelled = InvalidState
   \<and> fst (Card_cancelCard 9000 1
            (sample_state (sample_order CANCELLED [] None) (sample_card CARD_CANCELLED [] None)))
     = Inr ((sample_card CARD_CANCELLED [] None)\<lparr>c_updatedAt := 9000\<rparr>)"
  by (simp add: Order_cancelOrder_def Order_getOrderById_def OrderRepo_findById_def
      Card_cancelCard_def Card_getCardById_def CardRepo_findById_def CardRepo_cancelCard_def
      Cards_findByIdAndUpdate_def orThrow_def sample_defs)

text \<open>
  Claim C8 says that starting a tracker that exists and is not paused fails at every
  level. For a component of an order it does; for a component of a card the call
  succeeds and replaces the running tracker, with its accumulated pause minutes, by a
  new one.
\<close>

theorem card_component_timer_restarts:
  "Order_startComponentProduction 9000 1 11 sample_working
     = (Inl ComponentTimerActive, sample_working)
   \<and> fst (Card_startComponentProduction 9000 1 11
            (sample_state (sample_order IN_PROGRESS [] None)
               (sample_card CARD_IN_PROGRESS
                  [sample_component 11 False
                     (Some ((freshTracker 1000)\<lparr>totalPauseMinutes := 4\<rparr>))]
                  (Some (freshTracker 0)))))
     = Inr ((sample_card CARD_IN_PROGRESS
               [(sample_component 11 False (Some (freshTracker 9000)))
                  \<lparr>startedAt := Some 9000\<rparr>]
               (Some (freshTracker 0)))\<lparr>c_updatedAt := 9000\<rparr>)"
  by (simp add: Order_startComponentProduction_def Order_getOrderById_def
      OrderRepo_findById_def Card_startComponentProduction_def Card_getCardById_def
      CardRepo_findById_def CardRepo_startComponentProduction_def
      Cards_findOneAndUpdateComponent_def orThrow_def sample_working_def sample_defs Let_def)

section \<open>Listing\<close>

lemma priorityValue_rank: "priorityValue c = int (priorityRank (c_priority c)) + 1"
proof (cases "c_priority c")
  case None
  then show ?thesis by (simp add: priorityValue_def)
next
  case (Some p)
  then show ?thesis by (cases p) (simp_all add: priorityValue_def)
qed

lemma compareCards_listedBefore: "compareCards a b \<le> 0 \<longleftrightarrow> listedBefore a b"
  by (auto simp: compareCards_def listedBefore_def priorityValue_rank Let_def)

lemma listedBefore_total: "\<not> listedBefore a b \<Longrightarrow> listedBefore b a"
  by (auto simp: listedBefore_def)

lemma listedBefore_trans: "listedBefore a b \<Longrightarrow> listedBefore b c \<Longrightarrow> listedBefore a c"
  by (auto simp: listedBefore_def)

lemma set_insertBy: "set (insertBy cmp x xs) = insert x (set xs)"
  by (induction xs) auto

lemma mset_insertBy: "mset (insertBy cmp x xs) = add_mset x (mset xs)"
  by (induction xs) auto

lemma sorted_insertBy:
  "sorted_wrt listedBefore xs \<Longrightarrow> sorted_wrt listedBefore (insertBy compareCards x xs)"
proof (induction xs)
  case Nil
  show ?case by simp
next
  case (Cons y ys)
  show ?case
  proof (cases "compareCards x y \<le> 0")
    case True
    then have xy: "listedBefore x y" by (simp add: compareCards_listedBefore)
    have "\<forall>z\<in>set ys. listedBefore x z"
      using Cons.prems xy listedBefore_trans by auto
    then show ?thesis using True Cons.prems xy by simp
  next
    case False
    then have yx: "listedBefore y x"
      using listedBefore_total by (simp add: compareCards_listedBefore)
    have "sorted_wrt listedBefore (insertBy compareCards x ys)"
      using Cons by simp
    then show ?thesis using False Cons.prems yx by (simp add: set_insertBy)
  qed
qed

lemma sortBy_Cons: "sortBy cmp (x # xs) = insertBy cmp x (sortBy cmp xs)"
  by (simp add: sortBy_def)

lemma sorted_sortBy: "sorted_wrt listedBefore (sortBy compareCards xs)"
  by (induction xs) (simp_all add: sortBy_Cons sorted_insertBy, simp add: sortBy_def)

lemma mset_sortBy: "mset (sortBy cmp xs) = mset xs"
  by (induction xs) (simp_all add: sortBy_Cons mset_insertBy, simp add: sortBy_def)

text \<open>
  Claim C9. \<^verbatim>\<open>findAll\<close> returns the cards that match the filters, each once, ordered by
  priority first (urgent, high, normal, low, a missing priority ranking as normal) and
  among cards of one rank by ascending due date.
\<close>

theorem findAll_priority_then_dueDate:
  "sorted_wrt listedBefore (CardRepo_findAll rx filters now coll)
   \<and> mset (CardRepo_findAll rx filters now coll) = mset (filter (cardQuery rx filters now) coll)"
proof
  show "sorted_wrt listedBefore (CardRepo_findAll rx filters now coll)"
    unfolding CardRepo_findAll_def by (rule sorted_sortBy)
  show "mset (CardRepo_findAll rx filters now coll) = mset (filter (cardQuery rx filters now) coll)"
    unfolding CardRepo_findAll_def by (rule mset_sortBy)
qed


text \<open>
  Five cards with the priorities low, urgent, none, normal and high.
\<close>

theorem findAll_priority_then_dueDate_witness:
  "sorted_wrt listedBefore (CardRepo_findAll (\<lambda>p t. False) no_filters 0 sample_listing)
   \<and> map c_id (CardRepo_findAll (\<lambda>p t. False) no_filters 0 sample_listing) = [2, 5, 4, 3, 1]"
proof -
  have "map c_id (CardRepo_findAll (\<lambda>p t. False) no_filters 0 sample_listing) = [2, 5, 4, 3, 1]"
    by (simp add: CardRepo_findAll_def cardQuery_def no_filters_def sample_listing_def
        sample_listed_def sample_card_def sortBy_def compareCards_def priorityValue_def)
  then show ?thesis
    using findAll_priority_then_dueDate[of "\<lambda>p t. False" no_filters 0 sample_listing] by simp
qed

lemmas create_defs =
  Order_createManufacturingOrder_def Inventory_findById_def alloc_def push_def
  OrderRepo_create_def orderSchemaValid_def CardRepo_create_def cardSchemaValid_def
  Card_createProductionCard_def jsonClone_def parse_def stringify_def
  stringifyMaterials_def hoursPerUnit_def trim_def isWhite_def storedOrder_def storedCard_def
  createdOrder_def createdCards_def emptyHeap_def orderDataFor_def cardRequestFor_def

text \<open>
  Claim C1 as stated gives the order \<open>estimatedManufacturingTime * quantity\<close> hours.
  For a model whose time is 0 and a quantity of 3 that is 0 hours; the order created has
  3 hours and each of its cards 1 hour.
\<close>

theorem estimatedHours_counterexample:
  "map_option o_estimatedHours
     (createdOrder (Order_createManufacturingOrder 1000 zero_time_request emptyHeap zero_time_stock))
     = Some 3
   \<and> map c_estimatedHours
     (createdCards (Order_createManufacturingOrder 1000 zero_time_request emptyHeap zero_time_stock))
     = [1, 1, 1]
   \<and> i_estimatedManufacturingTime (sample_item MODEL 7 (Some 0) []) = Some 0
   \<and> r_quantity zero_time_request = 3
   \<and> map_option o_estimatedHours
     (createdOrder (Order_createManufacturingOrder 1000 zero_time_request emptyHeap zero_time_stock))
     \<noteq> Some (0 * of_int 3)"
  by (simp add: create_defs zero_time_stock_def zero_time_request_def sample_item_def Let_def
      upto.simps)

section \<open>The heap\<close>

lemma alloc_simps:
  "fst (alloc c h) = nextAddr h"
  "cells (snd (alloc c h)) = (cells h)(nextAddr h \<mapsto> c)"
  "nextAddr (snd (alloc c h)) = Suc (nextAddr h)"
  by (simp_all add: alloc_def)

lemma read_frame_objects:
  "\<forall>a\<in>set (ownedByObjects h rs). cells h2 a = cells h a \<Longrightarrow>
   stringifyObjects h2 rs = stringifyObjects h rs \<and> ownedByObjects h2 rs = ownedByObjects h rs"
proof (induction rs)
  case Nil
  show ?case by simp
next
  case (Cons r rs)
  have r: "cells h2 r = cells h r"
    using Cons.prems by (auto split: option.splits cell.splits)
  show ?case
  proof (cases "cells h r")
    case None
    then show ?thesis using Cons r by simp
  next
    case (Some c)
    show ?thesis
    proof (cases c)
      case (ComponentObject ci cn cs qr qc ic m)
      have m: "cells h2 m = cells h m"
        using Cons.prems Some ComponentObject by simp
      have "\<forall>a\<in>set (ownedByObjects h rs). cells h2 a = cells h a"
        using Cons.prems Some ComponentObject by simp
      then show ?thesis
        using Cons.IH r m Some ComponentObject by (simp add: stringifyMaterials_def)
    next
      case (ComponentArray x)
      then show ?thesis using Cons r Some by simp
    next
      case (MaterialArray x)
      then show ?thesis using Cons r Some by simp
    qed
  qed
qed

lemma read_frame:
  assumes "\<forall>a\<in>set (owned h r). cells h2 a = cells h a"
  shows "stringify h2 r = stringify h r \<and> owned h2 r = owned h r"
proof -
  have r: "cells h2 r = cells h r"
    using assms by (auto simp: owned_def split: option.splits cell.splits)
  show ?thesis
  proof (cases "cells h r")
    case None
    then show ?thesis using r by (simp add: stringify_def owned_def)
  next
    case (Some c)
    show ?thesis
    proof (cases c)
      case (ComponentArray rs)
      have "\<forall>a\<in>set (ownedByObjects h rs). cells h2 a = cells h a"
        using assms Some ComponentArray by (simp add: owned_def)
      then show ?thesis
        using read_frame_objects[of h rs h2] r Some ComponentArray
        by (simp add: stringify_def owned_def)
    next
      case (ComponentObject ci cn cs qr qc ic m)
      then show ?thesis using r Some by (simp add: stringify_def owned_def)
    next
      case (MaterialArray x)
      then show ?thesis using r Some by (simp add: stringify_def owned_def)
    qed
  qed
qed

lemma parseObjects_spec:
  "parseObjects js h = (rs, h') \<Longrightarrow>
   nextAddr h' = nextAddr h + 2 * length js
   \<and> (\<forall>a<nextAddr h. cells h' a = cells h a)
   \<and> stringifyObjects h' rs = js
   \<and> set (ownedByObjects h' rs) = {nextAddr h..<nextAddr h'}
   \<and> distinct (ownedByObjects h' rs)"
proof (induction js arbitrary: h rs h')
  case Nil
  then show ?case by simp
next
  case (Cons j js)
  obtain ci cn cs qr qc ic ms where j: "j = ComponentJson ci cn cs qr qc ic ms"
    by (cases j)
  let ?n = "nextAddr h"
  let ?h1 = "snd (alloc (MaterialArray ms) h)"
  let ?h2 = "snd (alloc (ComponentObject ci cn cs qr qc ic ?n) ?h1)"
  obtain rs' h3 where p: "parseObjects js ?h2 = (rs', h3)"
    by (cases "parseObjects js ?h2")
  have res: "rs = Suc ?n # rs'" "h' = h3"
    using Cons.prems p by (simp_all add: j alloc_def Let_def)
  have n2: "nextAddr ?h2 = Suc (Suc ?n)" by (simp add: alloc_def)
  from Cons.IH[OF p] have
    ih1: "nextAddr h3 = nextAddr ?h2 + 2 * length js" and
    ih2: "\<forall>a<nextAddr ?h2. cells h3 a = cells ?h2 a" and
    ih3: "stringifyObjects h3 rs' = js" and
    ih4: "set (ownedByObjects h3 rs') = {nextAddr ?h2..<nextAddr h3}" and
    ih5: "distinct (ownedByObjects h3 rs')"
    by simp_all
  have c1: "cells h3 (Suc ?n) = Some (ComponentObject ci cn cs qr qc ic ?n)"
    using ih2 n2 by (simp add: alloc_def)
  have c0: "cells h3 ?n = Some (MaterialArray ms)"
    using ih2 n2 by (simp add: alloc_def)
  have below: "\<forall>a<?n. cells h3 a = cells h a"
    using ih2 n2 by (simp add: alloc_def)
  have 1: "nextAddr h' = ?n + 2 * length (j # js)"
    using ih1 n2 res by simp
  have 3: "stringifyObjects h' rs = j # js"
    using ih3 c1 c0 by (simp add: res j stringifyMaterials_def)
  have o: "ownedByObjects h' rs = Suc ?n # ?n # ownedByObjects h3 rs'"
    using c1 by (simp add: res)
  have 4: "set (ownedByObjects h' rs) = {?n..<nextAddr h'}"
    unfolding o using ih4 ih1 n2 res by auto
  have 5: "distinct (ownedByObjects h' rs)"
    unfolding o using ih4 ih5 n2 by auto
  show ?case using 1 below 3 4 5 res by simp
qed

lemma parse_spec:
  assumes "parse js h = (a, h')"
  shows "nextAddr h' = Suc (nextAddr h + 2 * length js)"
    and "\<forall>x<nextAddr h. cells h' x = cells h x"
    and "stringify h' a = js"
    and "set (owned h' a) = {nextAddr h..<nextAddr h'}"
    and "distinct (owned h' a)"
proof -
  obtain rs h1 where p: "parseObjects js h = (rs, h1)" by (cases "parseObjects js h")
  from parseObjects_spec[OF p] have
    s1: "nextAddr h1 = nextAddr h + 2 * length js" and
    s2: "\<forall>a<nextAddr h. cells h1 a = cells h a" and
    s3: "stringifyObjects h1 rs = js" and
    s4: "set (ownedByObjects h1 rs) = {nextAddr h..<nextAddr h1}" and
    s5: "distinct (ownedByObjects h1 rs)"
    by simp_all
  have a: "a = nextAddr h1" and h': "h' = snd (alloc (ComponentArray rs) h1)"
    using assms p by (auto simp: parse_def alloc_def)
  have ca: "cells h' a = Some (ComponentArray rs)" by (simp add: a h' alloc_def)
  have fr: "\<forall>x\<in>set (ownedByObjects h1 rs). cells h' x = cells h1 x"
    using s4 by (simp add: h' alloc_def)
  note f = read_frame_objects[OF fr]
  show "nextAddr h' = Suc (nextAddr h + 2 * length js)" by (simp add: h' alloc_def s1)
  show "\<forall>x<nextAddr h. cells h' x = cells h x" using s2 s1 by (simp add: h' alloc_def)
  show "stringify h' a = js" using ca f s3 by (simp add: stringify_def)
  have o: "owned h' a = a # ownedByObjects h1 rs" using ca f by (simp add: owned_def)
  show "set (owned h' a) = {nextAddr h..<nextAddr h'}"
    unfolding o using s4 s1 by (auto simp: a h' alloc_def)
  show "distinct (owned h' a)" unfolding o using s4 s5 by (simp add: a)
qed

lemma jsonClone_spec:
  assumes "jsonClone r h = (a, h')" and "\<forall>x\<in>set (owned h r). x < nextAddr h"
  shows "nextAddr h \<le> nextAddr h'"
    and "\<forall>x<nextAddr h. cells h' x = cells h x"
    and "stringify h' a = stringify h r"
    and "set (owned h' a) = {nextAddr h..<nextAddr h'}"
    and "distinct (owned h' a)"
    and "stringify h' r = stringify h r \<and> owned h' r = owned h r"
proof -
  have p: "parse (stringify h r) h = (a, h')" using assms(1) by (simp add: jsonClone_def)
  note s = parse_spec[OF p]
  show "nextAddr h \<le> nextAddr h'" using s(1) by simp
  show "\<forall>x<nextAddr h. cells h' x = cells h x" by (rule s(2))
  show "stringify h' a = stringify h r" by (rule s(3))
  show "set (owned h' a) = {nextAddr h..<nextAddr h'}" by (rule s(4))
  show "distinct (owned h' a)" by (rule s(5))
  show "stringify h' r = stringify h r \<and> owned h' r = owned h r"
    by (rule read_frame) (use s(2) assms(2) in blast)
qed


lemma stringifyObjects_append:
  "stringifyObjects h (rs @ rs') = stringifyObjects h rs @ stringifyObjects h rs'"
  by (induction rs) (auto split: option.splits cell.splits)

lemma ownedByObjects_append:
  "ownedByObjects h (rs @ rs') = ownedByObjects h rs @ ownedByObjects h rs'"
  by (induction rs) (auto split: option.splits cell.splits)

lemma disjoint_owned:
  "distinct (concat (map f xs)) \<Longrightarrow> x \<in> set xs \<Longrightarrow> y \<in> set xs \<Longrightarrow> x \<noteq> y \<Longrightarrow>
   set (f x) \<inter> set (f y) = {}"
proof (induction xs)
  case Nil
  then show ?case by simp
next
  case (Cons z zs)
  have d: "set (f z) \<inter> (\<Union>w\<in>set zs. set (f w)) = {}" and dz: "distinct (concat (map f zs))"
    using Cons.prems(1) by auto
  consider "x = z" "y \<in> set zs" | "y = z" "x \<in> set zs" | "x \<in> set zs" "y \<in> set zs"
    using Cons.prems(2,3,4) by auto
  then show ?case
  proof cases
    case 1
    then show ?thesis using d by auto
  next
    case 2
    then show ?thesis using d by auto
  next
    case 3
    then show ?thesis using Cons.IH[OF dz] Cons.prems(4) by simp
  qed
qed

section \<open>The loops of the creation\<close>

lemma resolveComponents_spec:
  "cells h a = Some (ComponentArray rs0) \<Longrightarrow> a < nextAddr h \<Longrightarrow>
   set (ownedByObjects h rs0) \<subseteq> {Suc a..<nextAddr h} \<Longrightarrow> distinct (ownedByObjects h rs0) \<Longrightarrow>
   \<exists>rs. cells (resolveComponents ids s a h) a = Some (ComponentArray rs)
      \<and> stringifyObjects (resolveComponents ids s a h) rs
          = stringifyObjects h rs0 @ expectedComponents ids s
      \<and> set (ownedByObjects (resolveComponents ids s a h) rs)
          \<subseteq> {Suc a..<nextAddr (resolveComponents ids s a h)}
      \<and> distinct (ownedByObjects (resolveComponents ids s a h) rs)
      \<and> nextAddr h \<le> nextAddr (resolveComponents ids s a h)
      \<and> (\<forall>x<a. cells (resolveComponents ids s a h) x = cells h x)"
proof (induction ids arbitrary: h rs0)
  case Nil
  then show ?case by simp
next
  case (Cons cid cids)
  show ?case
  proof (cases "inventory s cid")
    case None
    then have e: "resolveComponents (cid # cids) s a h = resolveComponents cids s a h"
      by (simp add: Inventory_findById_def)
    show ?thesis unfolding e using Cons.IH[OF Cons.prems] None by simp
  next
    case (Some item)
    let ?n = "nextAddr h"
    let ?obj = "ComponentObject cid (i_name item) (i_sku item) 1 0 False ?n"
    let ?h3 = "h\<lparr>nextAddr := Suc (Suc ?n),
                 cells := (cells h)(?n \<mapsto> MaterialArray [], Suc ?n \<mapsto> ?obj,
                                   a \<mapsto> ComponentArray (rs0 @ [Suc ?n]))\<rparr>"
    have e: "resolveComponents (cid # cids) s a h = resolveComponents cids s a ?h3"
      using Some Cons.prems(1,2)
      by (simp add: Inventory_findById_def alloc_def push_def Let_def)
    have fr: "\<forall>x\<in>set (ownedByObjects h rs0). cells ?h3 x = cells h x"
      using Cons.prems(2,3) by auto
    note f = read_frame_objects[OF fr]
    have o: "ownedByObjects ?h3 (rs0 @ [Suc ?n]) = ownedByObjects h rs0 @ [Suc ?n, ?n]"
      using f Cons.prems(2) by (simp add: ownedByObjects_append)
    have st: "stringifyObjects ?h3 (rs0 @ [Suc ?n])
              = stringifyObjects h rs0 @ [ComponentJson cid (i_name item) (i_sku item) 1 0 False []]"
      using f Cons.prems(2) by (simp add: stringifyObjects_append stringifyMaterials_def)
    have p1: "cells ?h3 a = Some (ComponentArray (rs0 @ [Suc ?n]))" by simp
    have p2: "a < nextAddr ?h3" using Cons.prems(2) by simp
    have p3: "set (ownedByObjects ?h3 (rs0 @ [Suc ?n])) \<subseteq> {Suc a..<nextAddr ?h3}"
      unfolding o using Cons.prems(2,3) by auto
    have p4: "distinct (ownedByObjects ?h3 (rs0 @ [Suc ?n]))"
      unfolding o using Cons.prems(3,4) by auto
    from Cons.IH[OF p1 p2 p3 p4] obtain rs where
      r: "cells (resolveComponents cids s a ?h3) a = Some (ComponentArray rs)"
         "stringifyObjects (resolveComponents cids s a ?h3) rs
            = stringifyObjects ?h3 (rs0 @ [Suc ?n]) @ expectedComponents cids s"
         "set (ownedByObjects (resolveComponents cids s a ?h3) rs)
            \<subseteq> {Suc a..<nextAddr (resolveComponents cids s a ?h3)}"
         "distinct (ownedByObjects (resolveComponents cids s a ?h3) rs)"
         "nextAddr ?h3 \<le> nextAddr (resolveComponents cids s a ?h3)"
         "\<forall>x<a. cells (resolveComponents cids s a ?h3) x = cells ?h3 x"
      by blast
    have b: "\<forall>x<a. cells (resolveComponents cids s a ?h3) x = cells h x"
      using r(6) Cons.prems(2) by simp
    have n: "nextAddr h \<le> nextAddr (resolveComponents cids s a ?h3)"
      using r(5) by simp
    have x: "stringifyObjects (resolveComponents cids s a ?h3) rs
            = stringifyObjects h rs0 @ expectedComponents (cid # cids) s"
      using r(2) st Some by simp
    show ?thesis unfolding e using r(1,3,4) b n x by blast
  qed
qed

lemma buildCardRequests_spec:
  "buildCardRequests mk r is h = (reqs, h') \<Longrightarrow> \<forall>x\<in>set (owned h r). x < nextAddr h \<Longrightarrow>
   nextAddr h \<le> nextAddr h'
   \<and> (\<forall>x<nextAddr h. cells h' x = cells h x)
   \<and> (\<exists>cs. length cs = length is \<and> reqs = map2 mk is cs
         \<and> (\<forall>c\<in>set cs. stringify h' c = stringify h r)
         \<and> set (concat (map (owned h') cs)) \<subseteq> {nextAddr h..<nextAddr h'}
         \<and> distinct (concat (map (owned h') cs)))"
proof (induction "is" arbitrary: h reqs h')
  case Nil
  then show ?case by simp
next
  case (Cons i "is")
  obtain c h1 where c: "jsonClone r h = (c, h1)" by (cases "jsonClone r h")
  obtain reqs' h2 where b: "buildCardRequests mk r is h1 = (reqs', h2)"
    by (cases "buildCardRequests mk r is h1")
  have res: "reqs = mk i c # reqs'" "h' = h2"
    using Cons.prems(1) c b by simp_all
  note j = jsonClone_spec[OF c Cons.prems(2)]
  have st: "\<forall>x\<in>set (owned h1 r). x < nextAddr h1"
    using j(1,6) Cons.prems(2) by auto
  from Cons.IH[OF b st] obtain cs where
    ih: "nextAddr h1 \<le> nextAddr h2" "\<forall>x<nextAddr h1. cells h2 x = cells h1 x"
        "length cs = length is" "reqs' = map2 mk is cs"
        "\<forall>c\<in>set cs. stringify h2 c = stringify h1 r"
        "set (concat (map (owned h2) cs)) \<subseteq> {nextAddr h1..<nextAddr h2}"
        "distinct (concat (map (owned h2) cs))"
    by blast
  have fc: "\<forall>x\<in>set (owned h1 c). cells h2 x = cells h1 x"
    using j(4) ih(2) by simp
  note f = read_frame[OF fc]
  have oc: "set (owned h2 c) = {nextAddr h..<nextAddr h1}" "distinct (owned h2 c)"
    using f j(4,5) by simp_all
  have 1: "nextAddr h \<le> nextAddr h'" using j(1) ih(1) res by simp
  have 2: "\<forall>x<nextAddr h. cells h' x = cells h x" using j(1,2) ih(2) res by simp
  have 3: "length (c # cs) = length (i # is)" using ih(3) by simp
  have 4: "reqs = map2 mk (i # is) (c # cs)" using res ih(4) by simp
  have 5: "\<forall>d\<in>set (c # cs). stringify h' d = stringify h r"
    using f j(3,6) ih(5) res by simp
  have 6: "set (concat (map (owned h') (c # cs))) \<subseteq> {nextAddr h..<nextAddr h'}"
    using oc(1) ih(1,6) j(1) res by auto
  have 7: "distinct (concat (map (owned h') (c # cs)))"
    using oc ih(6,7) res by auto
  show ?case using 1 2 3 4 5 6 7 by blast
qed


lemma Card_createProductionCard_Inr:
  assumes "Card_createProductionCard now q h s = (Inr c, h1, s1)"
  shows "jsonClone (q_components q) h = (c_components c, h1)"
    and "c_cardNumber c = q_cardNumber q \<and> c_totalCards c = q_totalCards q
         \<and> c_estimatedHours c = q_estimatedHours q \<and> c_status c = CARD_PENDING
         \<and> c_orderId c = q_orderId q \<and> c_quantity c = 1"
    and "c_id c = nextId s"
    and "s1 = s\<lparr>cards := (cards s)(nextId s \<mapsto> storedCard h1 c), nextId := Suc (nextId s)\<rparr>"
proof -
  obtain cl hc where j: "jsonClone (q_components q) h = (cl, hc)"
    by (cases "jsonClone (q_components q) h")
  have "c_components c = cl \<and> h1 = hc
        \<and> (c_cardNumber c = q_cardNumber q \<and> c_totalCards c = q_totalCards q
         \<and> c_estimatedHours c = q_estimatedHours q \<and> c_status c = CARD_PENDING
         \<and> c_orderId c = q_orderId q \<and> c_quantity c = 1)
        \<and> c_id c = nextId s
        \<and> s1 = s\<lparr>cards := (cards s)(nextId s \<mapsto> storedCard h1 c), nextId := Suc (nextId s)\<rparr>"
    using assms j
    by (auto simp: Card_createProductionCard_def CardRepo_create_def Let_def split: if_splits)
  then show "jsonClone (q_components q) h = (c_components c, h1)"
    and "c_cardNumber c = q_cardNumber q \<and> c_totalCards c = q_totalCards q
         \<and> c_estimatedHours c = q_estimatedHours q \<and> c_status c = CARD_PENDING
         \<and> c_orderId c = q_orderId q \<and> c_quantity c = 1"
    and "c_id c = nextId s"
    and "s1 = s\<lparr>cards := (cards s)(nextId s \<mapsto> storedCard h1 c), nextId := Suc (nextId s)\<rparr>"
    using j by simp_all
qed

lemma storedCard_cong:
  "stringify h2 (c_components d) = stringify h (c_components d) \<Longrightarrow> storedCard h2 d = storedCard h d"
  by (simp add: storedCard_def)

lemma storedOrder_cong:
  "stringify h2 (o_components d) = stringify h (o_components d) \<Longrightarrow> storedOrder h2 d = storedOrder h d"
  by (simp add: storedOrder_def)

lemma createMultiple_spec:
  "Card_createMultipleProductionCards now reqs h s = (Inr crds, h', s') \<Longrightarrow>
   \<forall>q\<in>set reqs. \<forall>x\<in>set (owned h (q_components q)). x < nextAddr h \<Longrightarrow>
   nextAddr h \<le> nextAddr h' \<and> (\<forall>x<nextAddr h. cells h' x = cells h x)
   \<and> list_all2 (cardFromRequest h h') reqs crds
   \<and> set (concat (map (owned h') (map c_components crds))) \<subseteq> {nextAddr h..<nextAddr h'}
   \<and> distinct (concat (map (owned h') (map c_components crds)))
   \<and> orders s' = orders s \<and> inventory s' = inventory s
   \<and> nextId s' = nextId s + length reqs
   \<and> map c_id crds = [nextId s..<nextId s']
   \<and> (\<forall>c\<in>set crds. cards s' (c_id c) = Some (storedCard h' c))
   \<and> (\<forall>i<nextId s. cards s' i = cards s i)"
proof (induction reqs arbitrary: h s crds h' s')
  case Nil
  then show ?case by simp
next
  case (Cons q qs)
  obtain r1 h1 s1 where c1: "Card_createProductionCard now q h s = (r1, h1, s1)"
    by (cases "Card_createProductionCard now q h s")
  obtain c where r1: "r1 = Inr c"
    using Cons.prems(1) c1 by (cases r1) simp_all
  obtain r2 h2 s2 where c2: "Card_createMultipleProductionCards now qs h1 s1 = (r2, h2, s2)"
    by (cases "Card_createMultipleProductionCards now qs h1 s1")
  obtain cs where r2: "r2 = Inr cs"
    using Cons.prems(1) c1 r1 c2 by (cases r2) simp_all
  have res: "crds = c # cs" "h' = h2" "s' = s2"
    using Cons.prems(1) c1 r1 c2 r2 by simp_all
  note p = Card_createProductionCard_Inr[OF c1[unfolded r1]]
  have stq: "\<forall>x\<in>set (owned h (q_components q)). x < nextAddr h"
    using Cons.prems(2) by simp
  note j = jsonClone_spec[OF p(1) stq]
  have pre: "\<forall>q'\<in>set qs. \<forall>x\<in>set (owned h1 (q_components q')). x < nextAddr h1"
        and keep: "\<forall>q'\<in>set qs. stringify h1 (q_components q') = stringify h (q_components q')"
  proof -
    have "stringify h1 (q_components q') = stringify h (q_components q')
          \<and> owned h1 (q_components q') = owned h (q_components q')" if "q' \<in> set qs" for q'
      by (rule read_frame) (use j(2) Cons.prems(2) that in auto)
    then show "\<forall>q'\<in>set qs. \<forall>x\<in>set (owned h1 (q_components q')). x < nextAddr h1"
      and "\<forall>q'\<in>set qs. stringify h1 (q_components q') = stringify h (q_components q')"
      using Cons.prems(2) j(1) by fastforce+
  qed
  from Cons.IH[OF c2[unfolded r2] pre] have
    ih: "nextAddr h1 \<le> nextAddr h2" "\<forall>x<nextAddr h1. cells h2 x = cells h1 x"
        "list_all2 (cardFromRequest h1 h2) qs cs"
        "set (concat (map (owned h2) (map c_components cs))) \<subseteq> {nextAddr h1..<nextAddr h2}"
        "distinct (concat (map (owned h2) (map c_components cs)))"
        "orders s2 = orders s1" "inventory s2 = inventory s1"
        "nextId s2 = nextId s1 + length qs"
        "map c_id cs = [nextId s1..<nextId s2]"
        "\<forall>c\<in>set cs. cards s2 (c_id c) = Some (storedCard h2 c)"
        "\<forall>i<nextId s1. cards s2 i = cards s1 i"
    by simp_all
  have fc: "\<forall>x\<in>set (owned h1 (c_components c)). cells h2 x = cells h1 x"
    using j(4) ih(2) by simp
  note f = read_frame[OF fc]
  have oc: "set (owned h2 (c_components c)) = {nextAddr h..<nextAddr h1}"
           "distinct (owned h2 (c_components c))"
    using f j(4,5) by simp_all
  have 1: "nextAddr h \<le> nextAddr h'" using j(1) ih(1) res by simp
  have 2: "\<forall>x<nextAddr h. cells h' x = cells h x" using j(1,2) ih(2) res by simp
  have t3a: "cardFromRequest h h' q c"
    using p(2) f j(3) res by (simp add: cardFromRequest_def)
  have t3b: "list_all2 (cardFromRequest h h') qs cs"
    using ih(3) keep res
    by (auto simp: list_all2_conv_all_nth cardFromRequest_def)
  have 3: "list_all2 (cardFromRequest h h') (q # qs) crds" using t3a t3b res by simp
  have 4: "set (concat (map (owned h') (map c_components crds))) \<subseteq> {nextAddr h..<nextAddr h'}"
    using oc(1) ih(1,4) j(1) res by auto
  have 5: "distinct (concat (map (owned h') (map c_components crds)))"
    using oc ih(4,5) res by auto
  have s1: "orders s1 = orders s" "inventory s1 = inventory s" "nextId s1 = Suc (nextId s)"
    "cards s1 = (cards s)(nextId s \<mapsto> storedCard h1 c)"
    using p(4) by simp_all
  have 6: "orders s' = orders s \<and> inventory s' = inventory s" using ih(6,7) s1 res by simp
  have 7: "nextId s' = nextId s + length (q # qs)" using ih(8) s1 res by simp
  have 8: "map c_id crds = [nextId s..<nextId s']"
  proof -
    have a: "[nextId s..<nextId s'] = nextId s # [Suc (nextId s)..<nextId s']"
      by (rule upt_conv_Cons) (simp add: 7)
    have b: "map c_id cs = [Suc (nextId s)..<nextId s']"
      using ih(9) by (simp only: s1(3) res(3))
    show ?thesis by (simp only: a res(1) list.map b p(3))
  qed
  have 9: "cards s' (c_id c) = Some (storedCard h' c)"
    using ih(11) s1 p(3) f res storedCard_cong[of h2 c h1] by simp
  have 10: "\<forall>c\<in>set crds. cards s' (c_id c) = Some (storedCard h' c)"
    using 9 ih(10) res by simp
  have 11: "\<forall>i<nextId s. cards s' i = cards s i"
    using ih(11) s1 res by simp
  show ?case using 1 2 3 4 5 6 7 8 10 11 by blast
qed

section \<open>The created order and its cards\<close>

lemma OrderRepo_create_Inr:
  assumes "OrderRepo_create now od h1 s = (Inr ord, s1)"
  shows "orderSchemaValid od"
    and "ord = od\<lparr>o_id := nextId s, o_createdAt := now, o_updatedAt := now\<rparr>"
    and "s1 = s\<lparr>orders := (orders s)(nextId s \<mapsto> storedOrder h1 ord), nextId := Suc (nextId s)\<rparr>"
  using assms by (auto simp: OrderRepo_create_def Let_def split: if_splits)

lemma create_steps:
  assumes c: "Order_createManufacturingOrder now request h s = (Inr (ord, crds), h', s')"
      and m: "inventory s (r_modelId request) = Some model"
  shows "\<exists>s1 reqs h2.
           OrderRepo_create now
             (orderDataFor now request (model\<lparr>i_id := r_modelId request\<rparr>) (nextAddr h))
             (resolveComponents (requestedIds request model) s (nextAddr h)
                (h\<lparr>cells := (cells h)(nextAddr h \<mapsto> ComponentArray []), nextAddr := Suc (nextAddr h)\<rparr>)) s = (Inr ord, s1)
         \<and> buildCardRequests (cardRequestFor request (model\<lparr>i_id := r_modelId request\<rparr>) ord)
             (nextAddr h) [1..r_quantity request]
             (resolveComponents (requestedIds request model) s (nextAddr h)
                (h\<lparr>cells := (cells h)(nextAddr h \<mapsto> ComponentArray []), nextAddr := Suc (nextAddr h)\<rparr>)) = (reqs, h2)
         \<and> Card_createMultipleProductionCards now reqs h2 s1 = (Inr crds, h', s')"
proof -
  let ?model = "model\<lparr>i_id := r_modelId request\<rparr>"
  let ?h0 = "h\<lparr>cells := (cells h)(nextAddr h \<mapsto> ComponentArray []), nextAddr := Suc (nextAddr h)\<rparr>"
  let ?h1 = "resolveComponents (requestedIds request model) s (nextAddr h) ?h0"
  have fm: "Inventory_findById (r_modelId request) s = Some ?model"
    using m by (simp add: Inventory_findById_def)
  have al: "alloc (ComponentArray []) h = (nextAddr h, ?h0)"
    by (simp add: alloc_def)
  have he: "(case r_componentIds request of
               None \<Rightarrow> if i_components ?model \<noteq> []
                        then resolveComponents (i_components ?model) s (nextAddr h) ?h0 else ?h0
             | Some [] \<Rightarrow> if i_components ?model \<noteq> []
                        then resolveComponents (i_components ?model) s (nextAddr h) ?h0 else ?h0
             | Some (cid # cids) \<Rightarrow> resolveComponents (cid # cids) s (nextAddr h) ?h0) = ?h1"
    by (simp add: requestedIds_def split: option.splits list.splits)
  obtain r1 s1 where o: "OrderRepo_create now (orderDataFor now request ?model (nextAddr h)) ?h1 s
                          = (r1, s1)"
    by (cases "OrderRepo_create now (orderDataFor now request ?model (nextAddr h)) ?h1 s")
  have c': "(if i_canManufacture ?model = Some False then (Inl ModelCannotBeManufactured, h, s)
             else if i_type ?model \<noteq> MODEL then (Inl OnlyModelsCanBeOrdered, h, s)
             else (case r1 of
                     Inl e \<Rightarrow> (Inl e, ?h1, s1)
                   | Inr ord \<Rightarrow>
                       (let (cardRequests, h2) =
                              buildCardRequests (cardRequestFor request ?model ord) (nextAddr h)
                                [1..r_quantity request] ?h1
                        in (case Card_createMultipleProductionCards now cardRequests h2 s1 of
                              (Inl e, h3, s2) \<Rightarrow> (Inl e, h3, s2)
                            | (Inr productionCards, h3, s2) \<Rightarrow>
                                (Inr (ord, productionCards), h3, s2)))))
            = (Inr (ord, crds), h', s')"
    using c unfolding Order_createManufacturingOrder_def fm option.case al prod.case Let_def he o
    by simp
  obtain ord0 where r1: "r1 = Inr ord0"
    using c' by (cases r1) (simp_all split: if_splits)
  obtain reqs h2 where b: "buildCardRequests (cardRequestFor request ?model ord0) (nextAddr h)
                             [1..r_quantity request] ?h1 = (reqs, h2)"
    by (cases "buildCardRequests (cardRequestFor request ?model ord0) (nextAddr h)
                 [1..r_quantity request] ?h1")
  obtain r3 h3 s3 where cm: "Card_createMultipleProductionCards now reqs h2 s1 = (r3, h3, s3)"
    by (cases "Card_createMultipleProductionCards now reqs h2 s1")
  have fin: "r3 = Inr crds \<and> ord0 = ord \<and> h3 = h' \<and> s3 = s'"
    using c' r1 b cm by (cases r3) (simp_all split: if_splits)
  show ?thesis using o r1 b cm fin by auto
qed


lemma hoursPerUnit_id [simp]: "hoursPerUnit (model\<lparr>i_id := x\<rparr>) = hoursPerUnit model"
  by (simp add: hoursPerUnit_def)

lemma map2_cardRequestFor:
  assumes "length cs = length is"
  shows "map q_cardNumber (map2 (cardRequestFor request model ord) is cs) = is"
    and "map q_components (map2 (cardRequestFor request model ord) is cs) = cs"
    and "\<forall>q\<in>set (map2 (cardRequestFor request model ord) is cs).
           q_totalCards q = r_quantity request \<and> q_estimatedHours q = hoursPerUnit model
           \<and> q_orderId q = o_id ord \<and> q_components q \<in> set cs"
  using assms
proof (induction "is" arbitrary: cs)
  case Nil
  {
    case 1 then show ?case by simp
  next
    case 2 then show ?case by simp
  next
    case 3 then show ?case by simp
  }
next
  case (Cons i "is")
  {
    case 1
    then obtain c cs' where cs: "cs = c # cs'" "length cs' = length is" by (cases cs) auto
    show ?case using Cons.IH(1)[OF cs(2)] by (simp add: cs cardRequestFor_def)
  next
    case 2
    then obtain c cs' where cs: "cs = c # cs'" "length cs' = length is" by (cases cs) auto
    show ?case using Cons.IH(2)[OF cs(2)] by (simp add: cs cardRequestFor_def)
  next
    case 3
    then obtain c cs' where cs: "cs = c # cs'" "length cs' = length is" by (cases cs) auto
    show ?case using Cons.IH(3)[OF cs(2)] by (auto simp: cs cardRequestFor_def)
  }
qed

lemma list_all2_right:
  "list_all2 P xs ys \<Longrightarrow> y \<in> set ys \<Longrightarrow> \<exists>x\<in>set xs. P x y"
  by (induction rule: list_all2_induct) auto

lemma list_all2_map_eq:
  "list_all2 P xs ys \<Longrightarrow> (\<And>x y. P x y \<Longrightarrow> g y = f x) \<Longrightarrow> map g ys = map f xs"
  by (induction rule: list_all2_induct) auto


text \<open>
  Claim C1, amended. Every successful \<^verbatim>\<open>createManufacturingOrder\<close> for a model \<open>M\<close> and a
  quantity \<open>N\<close> has \<open>N \<ge> 1\<close> and returns one order with status pending and
  \<open>estimatedHours = t * N\<close>, where \<open>t\<close> is the estimated manufacturing time of \<open>M\<close>, or 1
  when that time is missing or 0. It returns \<open>N\<close> cards with the card numbers \<open>1..N\<close>,
  each with \<open>totalCards = N\<close> and \<open>estimatedHours = t\<close>. The value of the component list
  of every card equals the value of the order's list, which is the resolved component
  list. The order's list and the cards' lists own pairwise disjoint addresses, so a heap
  that differs from the resulting one only in cells owned by one list (or in cells
  allocated later) gives every other list the same value. The store holds the new order
  and the new cards by value.
\<close>

theorem createManufacturingOrder_result:
  assumes c: "Order_createManufacturingOrder now request h s = (Inr (ord, crds), h', s')"
      and m: "inventory s (r_modelId request) = Some model"
  shows "o_status ord = PENDING \<and> 1 \<le> r_quantity request
     \<and> o_quantity ord = r_quantity request
     \<and> o_estimatedHours ord = hoursPerUnit model * of_int (r_quantity request)
     \<and> map c_cardNumber crds = [1..r_quantity request]
     \<and> (\<forall>c\<in>set crds. c_totalCards c = r_quantity request
            \<and> c_estimatedHours c = hoursPerUnit model \<and> c_status c = CARD_PENDING
            \<and> c_orderId c = o_id ord \<and> c_quantity c = 1)
     \<and> stringify h' (o_components ord) = expectedComponents (requestedIds request model) s
     \<and> (\<forall>c\<in>set crds. stringify h' (c_components c) = stringify h' (o_components ord))
     \<and> distinct (concat (map (owned h') (o_components ord # map c_components crds)))
     \<and> (\<forall>r\<in>set (o_components ord # map c_components crds).
         \<forall>r'\<in>set (o_components ord # map c_components crds).
           r \<noteq> r' \<longrightarrow>
           (\<forall>h''. (\<forall>a. a < nextAddr h' \<and> a \<notin> set (owned h' r) \<longrightarrow> cells h'' a = cells h' a)
                  \<longrightarrow> stringify h'' r' = stringify h' r'))
     \<and> orders s' = (orders s)(o_id ord \<mapsto> storedOrder h' ord)
     \<and> (\<forall>c\<in>set crds. cards s' (c_id c) = Some (storedCard h' c))
     \<and> distinct (map c_id crds)"
proof -
  let ?model = "model\<lparr>i_id := r_modelId request\<rparr>"
  let ?a0 = "nextAddr h"
  let ?h0 = "h\<lparr>cells := (cells h)(nextAddr h \<mapsto> ComponentArray []), nextAddr := Suc (nextAddr h)\<rparr>"
  let ?ids = "requestedIds request model"
  let ?h1 = "resolveComponents ?ids s ?a0 ?h0"
  let ?N = "r_quantity request"
  let ?roots = "o_components ord # map c_components crds"
  from create_steps[OF c m] obtain s1 reqs h2 where
    oc: "OrderRepo_create now (orderDataFor now request ?model ?a0) ?h1 s = (Inr ord, s1)" and
    bc: "buildCardRequests (cardRequestFor request ?model ord) ?a0 [1..?N] ?h1 = (reqs, h2)" and
    cm: "Card_createMultipleProductionCards now reqs h2 s1 = (Inr crds, h', s')"
    by blast
  note o = OrderRepo_create_Inr[OF oc]
  have ord_fields: "o_status ord = PENDING" "o_quantity ord = ?N" "o_components ord = ?a0"
    "o_estimatedHours ord = hoursPerUnit model * of_int ?N" "o_id ord = nextId s"
    by (simp_all add: o(2) orderDataFor_def)
  have N1: "1 \<le> ?N"
    using o(1) by (simp add: orderSchemaValid_def orderDataFor_def)
  \<comment> \<open>the component array of the order\<close>
  have "\<exists>rs. cells ?h1 ?a0 = Some (ComponentArray rs)
      \<and> stringifyObjects ?h1 rs = stringifyObjects ?h0 [] @ expectedComponents ?ids s
      \<and> set (ownedByObjects ?h1 rs) \<subseteq> {Suc ?a0..<nextAddr ?h1}
      \<and> distinct (ownedByObjects ?h1 rs)
      \<and> nextAddr ?h0 \<le> nextAddr ?h1
      \<and> (\<forall>x<?a0. cells ?h1 x = cells ?h0 x)"
    by (rule resolveComponents_spec) simp_all
  then obtain rs where
    r: "cells ?h1 ?a0 = Some (ComponentArray rs)"
       "stringifyObjects ?h1 rs = expectedComponents ?ids s"
       "set (ownedByObjects ?h1 rs) \<subseteq> {Suc ?a0..<nextAddr ?h1}"
       "distinct (ownedByObjects ?h1 rs)" "Suc ?a0 \<le> nextAddr ?h1"
    by auto
  have a0_val: "stringify ?h1 ?a0 = expectedComponents ?ids s"
    using r(1,2) by (simp add: stringify_def)
  have a0_own: "owned ?h1 ?a0 = ?a0 # ownedByObjects ?h1 rs"
    using r(1) by (simp add: owned_def)
  have a0_in: "set (owned ?h1 ?a0) \<subseteq> {?a0..<nextAddr ?h1}"
    unfolding a0_own using r(3,5) by auto
  have a0_dist: "distinct (owned ?h1 ?a0)"
    unfolding a0_own using r(3,4) by auto
  have a0_below: "\<forall>x\<in>set (owned ?h1 ?a0). x < nextAddr ?h1"
    using a0_in by auto
  \<comment> \<open>the clones of the card requests\<close>
  from buildCardRequests_spec[OF bc a0_below] obtain cs where
    b: "nextAddr ?h1 \<le> nextAddr h2" "\<forall>x<nextAddr ?h1. cells h2 x = cells ?h1 x"
       "length cs = length [1..?N]" "reqs = map2 (cardRequestFor request ?model ord) [1..?N] cs"
       "\<forall>c\<in>set cs. stringify h2 c = stringify ?h1 ?a0"
       "set (concat (map (owned h2) cs)) \<subseteq> {nextAddr ?h1..<nextAddr h2}"
    by blast
  note q = map2_cardRequestFor[OF b(3), of request ?model ord, folded b(4)]
  have pre: "\<forall>q\<in>set reqs. \<forall>x\<in>set (owned h2 (q_components q)). x < nextAddr h2"
  proof (intro ballI)
    fix q x assume "q \<in> set reqs" "x \<in> set (owned h2 (q_components q))"
    then have "x \<in> set (concat (map (owned h2) cs))" using q(3) by auto
    then show "x < nextAddr h2" using b(6) by auto
  qed
  \<comment> \<open>the cards\<close>
  from createMultiple_spec[OF cm pre] have
    k: "nextAddr h2 \<le> nextAddr h'" "\<forall>x<nextAddr h2. cells h' x = cells h2 x"
       "list_all2 (cardFromRequest h2 h') reqs crds"
       "set (concat (map (owned h') (map c_components crds))) \<subseteq> {nextAddr h2..<nextAddr h'}"
       "distinct (concat (map (owned h') (map c_components crds)))"
       "orders s' = orders s1" "map c_id crds = [nextId s1..<nextId s']"
       "\<forall>c\<in>set crds. cards s' (c_id c) = Some (storedCard h' c)"
    by simp_all
  have numbers: "map c_cardNumber crds = [1..?N]"
  proof -
    have "map c_cardNumber crds = map q_cardNumber reqs"
      by (rule list_all2_map_eq[OF k(3)]) (simp add: cardFromRequest_def)
    then show ?thesis using q(1) by simp
  qed
  have card_fields: "c_totalCards c = ?N \<and> c_estimatedHours c = hoursPerUnit model
        \<and> c_status c = CARD_PENDING \<and> c_orderId c = o_id ord \<and> c_quantity c = 1
        \<and> stringify h' (c_components c) = stringify ?h1 ?a0" if "c \<in> set crds" for c
  proof -
    from list_all2_right[OF k(3) that] obtain rq where
      rq: "rq \<in> set reqs" "cardFromRequest h2 h' rq c" by blast
    have "q_components rq \<in> set cs" using q(3) rq(1) by blast
    then have "stringify h2 (q_components rq) = stringify ?h1 ?a0" using b(5) by blast
    then show ?thesis using rq q(3) by (simp add: cardFromRequest_def)
  qed
  \<comment> \<open>the order's array is untouched by the later allocations\<close>
  have keep: "\<forall>x\<in>set (owned ?h1 ?a0). cells h' x = cells ?h1 x"
  proof
    fix x assume "x \<in> set (owned ?h1 ?a0)"
    then have x1: "x < nextAddr ?h1" using a0_below by blast
    then have x2: "x < nextAddr h2" using b(1) by simp
    show "cells h' x = cells ?h1 x" using x1 x2 b(2) k(2) by simp
  qed
  note f = read_frame[OF keep]
  have ord_val: "stringify h' (o_components ord) = expectedComponents ?ids s"
    using f a0_val by (simp add: ord_fields(3))
  have same: "\<forall>c\<in>set crds. stringify h' (c_components c) = stringify h' (o_components ord)"
    using card_fields f by (simp add: ord_fields(3))
  have ord_in: "set (owned h' (o_components ord)) \<subseteq> {?a0..<nextAddr ?h1}"
    and ord_dist: "distinct (owned h' (o_components ord))"
    using f a0_in a0_dist by (simp_all add: ord_fields(3))
  have apart: "set (owned h' (o_components ord))
                 \<inter> set (concat (map (owned h') (map c_components crds))) = {}"
  proof (rule ccontr)
    assume "set (owned h' (o_components ord))
              \<inter> set (concat (map (owned h') (map c_components crds))) \<noteq> {}"
    then obtain x where x: "x \<in> set (owned h' (o_components ord))"
        "x \<in> set (concat (map (owned h') (map c_components crds)))"
      by blast
    have "x < nextAddr ?h1" using x(1) ord_in by (simp add: subset_iff)
    moreover have "nextAddr h2 \<le> x" using x(2) k(4) by (simp add: subset_iff)
    ultimately show False using b(1) by simp
  qed
  have dist: "distinct (concat (map (owned h') ?roots))"
    using ord_dist k(5) apart by (simp del: set_concat)
  have allocated: "\<forall>r\<in>set ?roots. \<forall>x\<in>set (owned h' r). x < nextAddr h'"
  proof (intro ballI)
    fix r x assume r: "r \<in> set ?roots" and x: "x \<in> set (owned h' r)"
    show "x < nextAddr h'"
    proof (cases "r = o_components ord")
      case True
      then have "x < nextAddr ?h1" using x ord_in by (simp add: subset_iff)
      then show ?thesis using b(1) k(1) by simp
    next
      case False
      then have "r \<in> set (map c_components crds)" using r by simp
      then have "x \<in> set (concat (map (owned h') (map c_components crds)))"
        using x by auto
      then show ?thesis using k(4) by (simp add: subset_iff del: set_concat)
    qed
  qed
  have frame: "stringify h'' r' = stringify h' r'"
    if "r \<in> set ?roots" "r' \<in> set ?roots" "r \<noteq> r'"
       "\<forall>a. a < nextAddr h' \<and> a \<notin> set (owned h' r) \<longrightarrow> cells h'' a = cells h' a"
    for r r' h''
  proof -
    have "set (owned h' r) \<inter> set (owned h' r') = {}"
      by (rule disjoint_owned[OF dist that(1,2,3)])
    then have "\<forall>x\<in>set (owned h' r'). cells h'' x = cells h' x"
      using that(2,4) allocated by blast
    then show ?thesis by (rule read_frame[THEN conjunct1])
  qed
  have stored: "orders s' = (orders s)(o_id ord \<mapsto> storedOrder h' ord)"
    using k(6) o(3) f storedOrder_cong[of h' ord ?h1] by (simp add: ord_fields(3,5))
  have ids: "distinct (map c_id crds)"
    using k(7) by simp
  show ?thesis
    apply (intro conjI)
    subgoal by (rule ord_fields(1))
    subgoal by (rule N1)
    subgoal by (rule ord_fields(2))
    subgoal by (rule ord_fields(4))
    subgoal by (rule numbers)
    subgoal using card_fields by blast
    subgoal by (rule ord_val)
    subgoal by (rule same)
    subgoal by (rule dist)
    subgoal using frame by blast
    subgoal by (rule stored)
    subgoal by (rule k(8))
    subgoal by (rule ids)
    done
qed

text \<open>
  Two units of model 10 of \<open>sample_stock\<close>, whose time is 2 hours and whose component 11
  is in the stock.
\<close>

theorem createManufacturingOrder_result_witness:
  "map_option o_estimatedHours
     (createdOrder (Order_createManufacturingOrder 1000 sample_request emptyHeap sample_stock))
     = Some 4
   \<and> map_option o_status
     (createdOrder (Order_createManufacturingOrder 1000 sample_request emptyHeap sample_stock))
     = Some PENDING
   \<and> map c_cardNumber
     (createdCards (Order_createManufacturingOrder 1000 sample_request emptyHeap sample_stock))
     = [1, 2]
   \<and> list_all
       (\<lambda>c. c_totalCards c = 2 \<and> c_estimatedHours c = 2
            \<and> stringify
                 (fst (snd (Order_createManufacturingOrder 1000 sample_request emptyHeap
                              sample_stock)))
                 (c_components c)
               = [ComponentJson 11 ''Item'' ''SKU-1'' 1 0 False []])
       (createdCards (Order_createManufacturingOrder 1000 sample_request emptyHeap sample_stock))
   \<and> distinct
       (concat
          (map (owned (fst (snd (Order_createManufacturingOrder 1000 sample_request emptyHeap
                                   sample_stock))))
             (map c_components
                (createdCards (Order_createManufacturingOrder 1000 sample_request emptyHeap
                                 sample_stock)))))"
proof -
  let ?R = "Order_createManufacturingOrder 1000 sample_request emptyHeap sample_stock"
  let ?model = "sample_item MODEL 7 (Some 2) [11, 12]"
  have ne: "createdOrder ?R \<noteq> None"
    by (simp add: create_defs sample_stock_def sample_request_def sample_item_def Let_def
        upto.simps)
  obtain res h' s' where R: "?R = (res, h', s')" by (cases ?R)
  obtain ord crds where res: "res = Inr (ord, crds)"
    using ne R by (cases res) (auto simp: createdOrder_def)
  have m: "inventory sample_stock (r_modelId sample_request) = Some ?model"
    by (simp add: sample_stock_def sample_request_def)
  have v: "hoursPerUnit ?model = 2" "r_quantity sample_request = 2"
    "expectedComponents (requestedIds sample_request ?model) sample_stock
       = [ComponentJson 11 ''Item'' ''SKU-1'' 1 0 False []]"
    by (simp_all add: hoursPerUnit_def sample_item_def sample_request_def requestedIds_def
        sample_stock_def)
  have u: "[1..2] = [1, 2::int]" by (simp add: upto.simps)
  note t = createManufacturingOrder_result[OF R[unfolded res] m, unfolded v u]
  have p: "createdOrder ?R = Some ord" "createdCards ?R = crds" "fst (snd ?R) = h'"
    by (simp_all add: R res createdOrder_def createdCards_def)
  have d: "distinct (concat (map (owned h') (map c_components crds)))"
    using t by simp
  show ?thesis unfolding p using t d by (simp add: list_all_iff)
qed

section \<open>Cards that were never started\<close>

text \<open>
  The query fails for every card that \<^verbatim>\<open>createProductionCard\<close> has created, in the store
  the creation leaves behind.
\<close>

lemma created_card_query_fails:
  assumes "Card_createProductionCard now request h s = (Inr saved, h1, s1)"
  shows "Card_getCurrentProductionTime t (c_id saved) s1 = Inl StartTimeUndefined"
proof -
  obtain clone h0 where j: "jsonClone (q_components request) h = (clone, h0)"
    by (cases "jsonClone (q_components request) h")
  from assms j show ?thesis
    by (auto simp: Card_createProductionCard_def CardRepo_create_def Let_def storedCard_def
          Card_getCurrentProductionTime_def CardRepo_getCurrentProductionTime_def
          nestedTracker_def blankTracker_def
        split: if_splits)
qed

text \<open>
  Claim C10 says that the elapsed-time queries return 0, and never fail, for an order, a
  card or a component that does not exist or was never started. At the store
  \<open>sample_fresh\<close>, where nothing was started, the queries of the order, of its component
  and of the card's component return 0, and so do the queries for the identifier 99,
  which names no document. The query of the card fails: \<^verbatim>\<open>card.timeTracker\<close> is the
  object of a nested path, the guard \<^verbatim>\<open>!card.timeTracker\<close> lets it pass, and it has no
  start time. The query fails in the same way for the card that \<^verbatim>\<open>createProductionCard\<close>
  has just created. \<^verbatim>\<open>pauseComponentProduction\<close> of a card, which no guard keeps from a
  component that was never started, succeeds and writes a tracker without a start time;
  after it the query of that component fails as well.
\<close>

theorem never_started_card_query_fails:
  "Card_getCurrentProductionTime 5000 1 sample_fresh = Inl StartTimeUndefined
   \<and> Order_getCurrentProductionTime 5000 1 sample_fresh = Inr 0
   \<and> Order_getComponentProductionTime 5000 1 11 sample_fresh = Inr 0
   \<and> Card_getComponentProductionTime 5000 1 11 sample_fresh = Inr 0
   \<and> Order_getCurrentProductionTime 5000 99 sample_fresh = Inr 0
   \<and> Card_getCurrentProductionTime 5000 99 sample_fresh = Inr 0
   \<and> isl (fst (Card_createProductionCard 1000 sample_card_request sample_card_heap
                   sample_fresh)) = False
   \<and> Card_getCurrentProductionTime 5000 100
        (snd (snd (Card_createProductionCard 1000 sample_card_request sample_card_heap
                     sample_fresh))) = Inl StartTimeUndefined
   \<and> isl (fst (Card_pauseComponentProduction 5000 1 11 sample_fresh)) = False
   \<and> Card_getComponentProductionTime 6000 1 11
        (snd (Card_pauseComponentProduction 5000 1 11 sample_fresh)) = Inl StartTimeUndefined"
proof -
  have 1: "Card_getCurrentProductionTime 5000 1 sample_fresh = Inl StartTimeUndefined"
    by (simp add: Card_getCurrentProductionTime_def CardRepo_getCurrentProductionTime_def
          sample_fresh_def sample_state_def sample_card_def nestedTracker_def blankTracker_def)
  have 2: "Order_getCurrentProductionTime 5000 1 sample_fresh = Inr 0"
    by (simp add: Order_getCurrentProductionTime_def OrderRepo_getCurrentProductionTime_def
          sample_fresh_def sample_state_def sample_order_def)
  have 3: "Order_getComponentProductionTime 5000 1 11 sample_fresh = Inr 0"
    by (simp add: Order_getComponentProductionTime_def
          OrderRepo_getComponentProductionTime_def sample_fresh_def sample_state_def sample_order_def
          sample_component_def)
  have 4: "Card_getComponentProductionTime 5000 1 11 sample_fresh = Inr 0"
    by (simp add: Card_getComponentProductionTime_def
          CardRepo_getComponentProductionTime_def sample_fresh_def sample_state_def sample_card_def
          sample_component_def)
  have 5: "Order_getCurrentProductionTime 5000 99 sample_fresh = Inr 0"
    by (simp add: Order_getCurrentProductionTime_def OrderRepo_getCurrentProductionTime_def
          sample_fresh_def sample_state_def)
  have 6: "Card_getCurrentProductionTime 5000 99 sample_fresh = Inr 0"
    by (simp add: Card_getCurrentProductionTime_def CardRepo_getCurrentProductionTime_def
          sample_fresh_def sample_state_def)
  have p: "Card_pauseComponentProduction 5000 1 11 sample_fresh =
             (Inr ((sample_card CARD_PENDING
                      [(sample_component 11 False None)
                         \<lparr>timeTracker :=
                            Some (blankTracker\<lparr>isPaused := True, pauseStartTime := Some 5000\<rparr>)\<rparr>]
                      None)\<lparr>c_updatedAt := 5000\<rparr>),
              sample_fresh\<lparr>cards := (cards sample_fresh)(1 \<mapsto>
                 (sample_card CARD_PENDING
                    [(sample_component 11 False None)
                       \<lparr>timeTracker :=
                          Some (blankTracker\<lparr>isPaused := True, pauseStartTime := Some 5000\<rparr>)\<rparr>]
                    None)\<lparr>c_updatedAt := 5000\<rparr>)\<rparr>)"
    by (simp add: Card_pauseComponentProduction_def CardRepo_pauseComponentProduction_def
          Cards_findOneAndUpdateComponent_def orThrow_def setPaused_def sample_fresh_def sample_state_def
          sample_card_def sample_component_def Let_def)
  have 7: "isl (fst (Card_pauseComponentProduction 5000 1 11 sample_fresh)) = False"
    unfolding p by simp
  have 8: "Card_getComponentProductionTime 6000 1 11
             (snd (Card_pauseComponentProduction 5000 1 11 sample_fresh))
           = Inl StartTimeUndefined"
    unfolding p
    by (simp add: Card_getComponentProductionTime_def
          CardRepo_getComponentProductionTime_def sample_card_def sample_component_def
          blankTracker_def)
  obtain r h1 s1 where
    c: "Card_createProductionCard 1000 sample_card_request sample_card_heap sample_fresh
          = (r, h1, s1)"
    by (cases "Card_createProductionCard 1000 sample_card_request sample_card_heap
                 sample_fresh")
  have 9: "isl r = False \<and> Card_getCurrentProductionTime 5000 100 s1 = Inl StartTimeUndefined"
    using c
    by (auto simp: Card_createProductionCard_def CardRepo_create_def Let_def cardSchemaValid_def storedCard_def
          sample_card_request_def sample_fresh_def sample_state_def
          Card_getCurrentProductionTime_def CardRepo_getCurrentProductionTime_def
          nestedTracker_def blankTracker_def
        split: prod.splits)
  show ?thesis using 1 2 3 4 5 6 7 8 9 unfolding c by simp
qed

end
